theory Spec2Isabelle
  imports Complex_Main "HOL-Library.AList" "HOL-Library.Sublist"
begin

section \<open>Values, mappings and string formatting\<close>

text \<open>
  The handlers of \<^verbatim>\<open>async_pg.py\<close> (class \<^verbatim>\<open>PostgresHandler\<close>, the pooled
  backend) and \<^verbatim>\<open>async_sqlite.py\<close> (class \<^verbatim>\<open>SqliteHandler\<close>, the embedded
  backend) take plain Python dicts and lists. A scalar value is an integer, a string or
  \<^verbatim>\<open>None\<close>. A dict keeps its insertion order, so a Condition or a Record is an
  association list of column name and value; the order of the list is the iteration
  order of the dict.
\<close>

datatype val = VNone | VInt int | VStr string

type_synonym condition = "(string \<times> val) list"

type_synonym pyrecord = "(string \<times> val) list"

text \<open>\<^verbatim>\<open>str(n)\<close> of an integer: its decimal digits, with a minus sign when negative.\<close>

definition digit_char :: "nat \<Rightarrow> char" where
  "digit_char d = ''0123456789'' ! d"

fun str_nat :: "nat \<Rightarrow> string" where
  "str_nat n = (if n < 10 then [digit_char n] else str_nat (n div 10) @ [digit_char (n mod 10)])"

declare str_nat.simps [simp del]

definition str_int :: "int \<Rightarrow> string" where
  "str_int i = (if i < 0 then CHR ''-'' # str_nat (nat (- i)) else str_nat (nat i))"

text \<open>\<^verbatim>\<open>sep.join(parts)\<close>.\<close>

fun join :: "string \<Rightarrow> string list \<Rightarrow> string" where
  "join sep [] = []"
| "join sep [x] = x"
| "join sep (x # y # ys) = x @ sep @ join sep (y # ys)"

text \<open>\<^verbatim>\<open>s.rstrip(',')\<close>: every trailing comma is removed.\<close>

definition rstrip_comma :: "string \<Rightarrow> string" where
  "rstrip_comma s = rev (dropWhile (\<lambda>c. c = CHR '','') (rev s))"

text \<open>\<^verbatim>\<open>d.keys()\<close> and \<^verbatim>\<open>d.values()\<close>, in iteration order.\<close>

definition keys :: "(string \<times> val) list \<Rightarrow> string list" where
  "keys d = map fst d"

definition vals :: "(string \<times> val) list \<Rightarrow> val list" where
  "vals d = map snd d"

text \<open>
  \<^verbatim>\<open>dict(pairs)\<close>: a key that comes again replaces the value and keeps the place of
  its first occurrence.
\<close>

definition dict :: "(string \<times> val) list \<Rightarrow> pyrecord" where
  "dict pairs = fold (\<lambda>(k, v) d. AList.update k v d) pairs []"

section \<open>Query builders of the pooled backend\<close>

text \<open>
  \<^verbatim>\<open>PostgresHandler.build_select_query\<close>. The loop over
  \<^verbatim>\<open>where_conditions_list\<close> carries \<^verbatim>\<open>where_clauses\<close> and
  \<^verbatim>\<open>condition_values\<close>; the placeholder of a column is
  \<^verbatim>\<open>len(condition_values) + i + 1\<close> with \<^verbatim>\<open>i\<close> the position of the column among
  all the columns of its Condition.
\<close>

definition pg_select_clause :: "nat \<Rightarrow> condition \<Rightarrow> string" where
  "pg_select_clause n conditions =
     join '' AND ''
       (map (\<lambda>(i, (key, value)).
               if value \<noteq> VNone then key @ '' = $'' @ str_nat (n + i + 1)
               else key @ '' IS NULL'')
            (List.enumerate 0 conditions))"

fun pg_where_loop :: "condition list \<Rightarrow> string list \<Rightarrow> val list \<Rightarrow> string list \<times> val list" where
  "pg_where_loop [] where_clauses condition_values = (where_clauses, condition_values)"
| "pg_where_loop (conditions # rest) where_clauses condition_values =
     (if conditions \<noteq> [] then
        pg_where_loop rest
          (where_clauses @ [pg_select_clause (length condition_values) conditions])
          (condition_values @ filter (\<lambda>value. value \<noteq> VNone) (vals conditions))
      else pg_where_loop rest where_clauses condition_values)"

definition select_head :: "string \<Rightarrow> string list \<Rightarrow> string" where
  "select_head table_name find_data = ''SELECT '' @ join '', '' find_data @ '' FROM '' @ table_name"

definition or_join :: "string list \<Rightarrow> string" where
  "or_join where_clauses = join '' OR '' (map (\<lambda>clause. ''('' @ clause @ '')'') where_clauses)"

definition pg_build_select_query ::
  "string \<Rightarrow> string list \<Rightarrow> condition list \<Rightarrow> int \<Rightarrow> string \<times> val list" where
  "pg_build_select_query table_name find_data where_conditions_list batch_size =
     (let query = select_head table_name find_data in
      if where_conditions_list \<noteq> [] then
        (case pg_where_loop where_conditions_list [] [] of
           (where_clauses, condition_values) \<Rightarrow>
             if where_clauses \<noteq> [] then
               (let query = query @ '' WHERE '' @ or_join where_clauses in
                if batch_size \<noteq> 0 then (query @ '' LIMIT '' @ str_int batch_size, condition_values)
                else (query, condition_values))
             else (query, condition_values))
      else (query, []))"

text \<open>
  The statement and the arguments of \<^verbatim>\<open>PostgresHandler.delete_data\<close>:
  \<^verbatim>\<open>conn.execute(query, *where_conditions.values())\<close>.
\<close>

definition pg_where_columns :: "condition \<Rightarrow> string list" where
  "pg_where_columns where_conditions =
     map (\<lambda>(i, key). key @ '' = $'' @ str_nat (i + 1)) (List.enumerate 0 (keys where_conditions))"

definition pg_delete_query :: "string \<Rightarrow> condition \<Rightarrow> string" where
  "pg_delete_query table_name where_conditions =
     (let query = ''DELETE FROM '' @ table_name in
      if where_conditions \<noteq> [] then query @ '' WHERE '' @ join '' AND '' (pg_where_columns where_conditions)
      else query)"

definition pg_delete_args :: "condition \<Rightarrow> val list" where
  "pg_delete_args where_conditions = vals where_conditions"

text \<open>
  The statement and the arguments of \<^verbatim>\<open>PostgresHandler.count_records\<close>:
  \<^verbatim>\<open>conn.fetchval(query, *where_conditions.values())\<close>.
\<close>

definition null_col :: "condition \<Rightarrow> string list" where
  "null_col where_conditions = map fst (filter (\<lambda>(col, value). value = VNone) where_conditions)"

definition pg_count_query :: "string \<Rightarrow> condition \<Rightarrow> string" where
  "pg_count_query table_name where_conditions =
     (let where_clause = join '' AND '' (pg_where_columns where_conditions);
          query = ''SELECT COUNT(*) FROM '' @ table_name;
          query = (if where_clause \<noteq> [] then query @ '' WHERE '' @ where_clause else query)
      in case null_col where_conditions of
           [] \<Rightarrow> query
         | col # _ \<Rightarrow> query @ '' OR '' @ col @ '' IS NULL'')"

definition pg_count_args :: "condition \<Rightarrow> val list" where
  "pg_count_args where_conditions = vals where_conditions"

text \<open>
  One \<^verbatim>\<open>UpdateSpec\<close> of \<^verbatim>\<open>mass_update\<close>: the dict with the keys
  \<^verbatim>\<open>'where'\<close> and \<^verbatim>\<open>'update'\<close>.
\<close>

record update_spec =
  where_dict :: condition
  update_dict :: pyrecord

definition pg_update_query :: "string \<Rightarrow> update_spec \<Rightarrow> string" where
  "pg_update_query table_name data =
     (let where_clause = join '' AND '' (pg_where_columns (where_dict data));
          update_clause = join '', ''
            (map (\<lambda>(i, k). k @ '' = $'' @ str_nat (length (where_dict data) + i + 1))
                 (List.enumerate 0 (keys (update_dict data))))
      in ''UPDATE '' @ table_name @ '' SET '' @ update_clause @ '' WHERE '' @ where_clause)"

definition pg_update_args :: "update_spec \<Rightarrow> val list" where
  "pg_update_args data = vals (where_dict data) @ vals (update_dict data)"

section \<open>Query builders of the embedded backend\<close>

definition sqlite_select_clause :: "condition \<Rightarrow> string" where
  "sqlite_select_clause conditions =
     join '' AND ''
       (map (\<lambda>(key, value). if value \<noteq> VNone then key @ '' = ?'' else key @ '' IS NULL'')
            conditions)"

fun sqlite_where_loop :: "condition list \<Rightarrow> string list \<Rightarrow> val list \<Rightarrow> string list \<times> val list" where
  "sqlite_where_loop [] where_clauses condition_values = (where_clauses, condition_values)"
| "sqlite_where_loop (conditions # rest) where_clauses condition_values =
     (if conditions \<noteq> [] then
        sqlite_where_loop rest
          (where_clauses @ [sqlite_select_clause conditions])
          (condition_values @ filter (\<lambda>value. value \<noteq> VNone) (vals conditions))
      else sqlite_where_loop rest where_clauses condition_values)"

definition sqlite_build_select_query ::
  "string \<Rightarrow> string list \<Rightarrow> condition list \<Rightarrow> int \<Rightarrow> string \<times> val list" where
  "sqlite_build_select_query table_name find_data where_conditions_list batch_size =
     (let query = select_head table_name find_data in
      if where_conditions_list \<noteq> [] then
        (case sqlite_where_loop where_conditions_list [] [] of
           (where_clauses, condition_values) \<Rightarrow>
             if where_clauses \<noteq> [] then
               (let query = query @ '' WHERE '' @ or_join where_clauses in
                if batch_size \<noteq> 0 then (query @ '' LIMIT '' @ str_int batch_size, condition_values)
                else (query, condition_values))
             else (query, condition_values))
      else (query, []))"

definition sqlite_where_columns :: "condition \<Rightarrow> string list" where
  "sqlite_where_columns where_conditions = map (\<lambda>key. key @ '' = ?'') (keys where_conditions)"

definition sqlite_delete_query :: "string \<Rightarrow> condition \<Rightarrow> string" where
  "sqlite_delete_query table_name where_conditions =
     (let query = ''DELETE FROM '' @ table_name in
      if where_conditions \<noteq> [] then
        query @ '' WHERE '' @ join '' AND '' (sqlite_where_columns where_conditions)
      else query)"

definition sqlite_delete_args :: "condition \<Rightarrow> val list" where
  "sqlite_delete_args where_conditions = vals where_conditions"

definition sqlite_count_query :: "string \<Rightarrow> condition \<Rightarrow> string" where
  "sqlite_count_query table_name where_conditions =
     (let where_clause = join '' AND '' (sqlite_where_columns where_conditions);
          query = ''SELECT COUNT(*) FROM '' @ table_name;
          query = (if where_clause \<noteq> [] then query @ '' WHERE '' @ where_clause else query)
      in case null_col where_conditions of
           [] \<Rightarrow> query
         | col # _ \<Rightarrow> query @ '' OR '' @ col @ '' IS NULL'')"

definition sqlite_count_args :: "condition \<Rightarrow> val list" where
  "sqlite_count_args where_conditions = vals where_conditions"

definition sqlite_update_query :: "string \<Rightarrow> update_spec \<Rightarrow> string" where
  "sqlite_update_query table_name data =
     (let where_clause = join '' AND '' (sqlite_where_columns (where_dict data));
          update_clause = join '', '' (map (\<lambda>k. k @ '' = ?'') (keys (update_dict data)))
      in ''UPDATE '' @ table_name @ '' SET '' @ update_clause @ '' WHERE '' @ where_clause)"

definition sqlite_update_args :: "update_spec \<Rightarrow> val list" where
  "sqlite_update_args data = vals (update_dict data) @ vals (where_dict data)"

section \<open>Reading the placeholders of a statement\<close>

text \<open>
  The numbered placeholders of a statement of the pooled backend, left to right: every
  \<^verbatim>\<open>$\<close> that is followed by decimal digits, with the number those digits spell.
\<close>

definition is_digit :: "char \<Rightarrow> bool" where
  "is_digit c \<longleftrightarrow> 48 \<le> (of_char c :: nat) \<and> (of_char c :: nat) \<le> 57"

definition nat_of_digits :: "string \<Rightarrow> nat" where
  "nat_of_digits ds = foldl (\<lambda>a c. 10 * a + (of_char c - 48)) 0 ds"

fun placeholders :: "string \<Rightarrow> nat list" where
  "placeholders [] = []"
| "placeholders (c # cs) =
     (if c = CHR ''$'' \<and> takeWhile is_digit cs \<noteq> [] then nat_of_digits (takeWhile is_digit cs) # placeholders cs
      else placeholders cs)"

definition dollar_free :: "string \<Rightarrow> bool" where
  "dollar_free s \<longleftrightarrow> CHR ''$'' \<notin> set s"

definition emits :: "string \<Rightarrow> nat list \<Rightarrow> bool" where
  "emits s ns \<longleftrightarrow> (\<forall>t. (t = [] \<or> \<not> is_digit (hd t)) \<longrightarrow> placeholders (s @ t) = ns @ placeholders t)"

text \<open>
  \<open>emits s ns\<close>: the text \<open>s\<close>, followed by anything that does not start with a
  digit, contributes exactly the placeholders \<open>ns\<close>.
\<close>

section \<open>Exceptions, batching and the drivers\<close>

text \<open>
  \<^verbatim>\<open>repr(s)\<close> of a string, a character being a code point below 256. The quotes are
  double when the string holds a single quote and no double quote, single otherwise; the
  backslash and the chosen quote are escaped with a backslash; tab, newline and carriage
  return are written \<^verbatim>\<open>\t\<close>, \<^verbatim>\<open>\n\<close>, \<^verbatim>\<open>\r\<close>; any other character that is not
  printable (below 32, from 127 to 160, and 173) is written \<^verbatim>\<open>\xhh\<close> with two
  lowercase hexadecimal digits.
\<close>

definition hex_digit :: "nat \<Rightarrow> char" where
  "hex_digit d = ''0123456789abcdef'' ! d"

definition printable :: "char \<Rightarrow> bool" where
  "printable c \<longleftrightarrow>
     (32 \<le> (of_char c :: nat) \<and> (of_char c :: nat) \<le> 126)
     \<or> (161 \<le> (of_char c :: nat) \<and> (of_char c :: nat) \<noteq> 173)"

definition repr_char :: "char \<Rightarrow> char \<Rightarrow> string" where
  "repr_char quote c =
     (if c = quote \<or> c = CHR 0x5C then [CHR 0x5C, c]
      else if c = CHR 0x09 then [CHR 0x5C, CHR ''t'']
      else if c = CHR 0x0A then [CHR 0x5C, CHR ''n'']
      else if c = CHR 0x0D then [CHR 0x5C, CHR ''r'']
      else if \<not> printable c then
        [CHR 0x5C, CHR ''x'', hex_digit ((of_char c :: nat) div 16), hex_digit ((of_char c :: nat) mod 16)]
      else [c])"

definition py_repr :: "string \<Rightarrow> string" where
  "py_repr s =
     (let quote = (if CHR 0x27 \<in> set s \<and> CHR 0x22 \<notin> set s then CHR 0x22 else CHR 0x27)
      in quote # concat (map (repr_char quote) s) @ [quote])"

text \<open>
  An exception is a value; \<open>str_exn\<close> is the text \<^verbatim>\<open>f"{e}"\<close> puts into a message.
  \<^verbatim>\<open>str(KeyError(k))\<close> is the \<^verbatim>\<open>repr\<close> of the key. \<open>DatabaseError\<close> stands for
  whatever the driver raises when it rejects a statement, with its message.
\<close>

datatype exn = ValueError string | KeyError string | AttributeError string | DatabaseError string

fun str_exn :: "exn \<Rightarrow> string" where
  "str_exn (ValueError m) = m"
| "str_exn (KeyError k) = py_repr k"
| "str_exn (AttributeError m) = m"
| "str_exn (DatabaseError m) = m"

fun py_str :: "val \<Rightarrow> string" where
  "py_str VNone = ''None''"
| "py_str (VInt i) = str_int i"
| "py_str (VStr s) = s"

text \<open>
  \<^verbatim>\<open>range(0, n, step)\<close>: raises for a zero step, is empty for a negative one, and
  otherwise counts \<open>0, step, 2 * step, \<dots>\<close> below \<open>n\<close>.
\<close>

function range_from :: "nat \<Rightarrow> nat \<Rightarrow> nat \<Rightarrow> nat list" where
  "range_from i n step = (if step = 0 \<or> n \<le> i then [] else i # range_from (i + step) n step)"
  by pat_completeness auto
termination
  by (relation "measure (\<lambda>(i, n, step). n - i)") auto

declare range_from.simps [simp del]

definition py_range :: "nat \<Rightarrow> int \<Rightarrow> exn + nat list" where
  "py_range n step =
     (if step = 0 then Inl (ValueError ''range() arg 3 must not be zero'')
      else if step < 0 then Inr []
      else Inr (range_from 0 n (nat step)))"

text \<open>
  The batches of \<^verbatim>\<open>for i in range(0, len(xs), batch_size): batch = xs[i:i + batch_size]\<close>.
  The list is not changed inside the loop, so the slices are the same whether they are
  taken one by one or all at once.
\<close>

definition batches :: "'a list \<Rightarrow> int \<Rightarrow> exn + 'a list list" where
  "batches xs batch_size =
     (case py_range (length xs) batch_size of
        Inl e \<Rightarrow> Inl e
      | Inr starts \<Rightarrow> Inr (map (\<lambda>i. take (nat batch_size) (drop i xs)) starts))"

text \<open>
  What a handler does to the outside: the calls it makes on the driver, in order, and the
  lines it logs. A driver answers a call from the calls made before it, which is as much
  as a deterministic database can depend on.
\<close>

datatype call =
    Connect string
  | Close
  | Execute string "val list"
  | ExecuteMany string "val list list"
  | Fetch string "val list"
  | FetchVal string "val list"
  | Commit

datatype log_entry = Info string | Error string

record world =
  calls :: "call list"
  logged :: "log_entry list"

type_synonym ('a, 's) action = "'s \<Rightarrow> (exn + 'a) \<times> 's"

definition return :: "'a \<Rightarrow> ('a, 's) action" where
  "return a s = (Inr a, s)"

definition raise :: "exn \<Rightarrow> ('a, 's) action" where
  "raise e s = (Inl e, s)"

definition and_then :: "('a, 's) action \<Rightarrow> ('a \<Rightarrow> ('b, 's) action) \<Rightarrow> ('b, 's) action" where
  "and_then m f s = (case m s of (Inl e, s') \<Rightarrow> (Inl e, s') | (Inr a, s') \<Rightarrow> f a s')"

definition try_except :: "('a, 's) action \<Rightarrow> (exn \<Rightarrow> ('a, 's) action) \<Rightarrow> ('a, 's) action" where
  "try_except m handler s = (case m s of (Inl e, s') \<Rightarrow> handler e s' | (Inr a, s') \<Rightarrow> (Inr a, s'))"

definition try_finally :: "('a, 's) action \<Rightarrow> ('s \<Rightarrow> 's) \<Rightarrow> ('a, 's) action" where
  "try_finally m cleanup s = (case m s of (r, s') \<Rightarrow> (r, cleanup s'))"

definition logger_info :: "string \<Rightarrow> (unit, 'w world_scheme) action" where
  "logger_info m s = (Inr (), s\<lparr>logged := logged s @ [Info m]\<rparr>)"

definition logger_error :: "string \<Rightarrow> (unit, 'w world_scheme) action" where
  "logger_error m s = (Inr (), s\<lparr>logged := logged s @ [Error m]\<rparr>)"

text \<open>\<^verbatim>\<open>[f(x) for x in xs]\<close> where \<^verbatim>\<open>f\<close> may raise: the first failure ends it.\<close>

fun traverse :: "('a \<Rightarrow> exn + 'b) \<Rightarrow> 'a list \<Rightarrow> exn + 'b list" where
  "traverse f [] = Inr []"
| "traverse f (x # xs) =
     (case f x of
        Inl e \<Rightarrow> Inl e
      | Inr y \<Rightarrow> (case traverse f xs of Inl e \<Rightarrow> Inl e | Inr ys \<Rightarrow> Inr (y # ys)))"

definition getitem :: "pyrecord \<Rightarrow> string \<Rightarrow> exn + val" where
  "getitem record col = (case map_of record col of None \<Rightarrow> Inl (KeyError col) | Some v \<Rightarrow> Inr v)"

text \<open>\<^verbatim>\<open>[tuple(record[col] for col in columns) for record in batch]\<close>.\<close>

definition batch_values :: "string list \<Rightarrow> pyrecord list \<Rightarrow> exn + val list list" where
  "batch_values columns batch = traverse (\<lambda>record. traverse (getitem record) columns) batch"

text \<open>The argument of \<^verbatim>\<open>create_tables\<close> and the statement both backends build from it.\<close>

record table_info =
  name_table :: string
  primary_key :: "(string \<times> string \<times> string) option"
  fields_dict :: "(string \<times> string) list"

definition create_table_query :: "table_info \<Rightarrow> string" where
  "create_table_query info =
     (let query = ''CREATE TABLE IF NOT EXISTS '' @ name_table info @ '' ('';
          query = (case primary_key info of
                     Some (pk0, pk1, pk2) \<Rightarrow> query @ pk0 @ '' '' @ pk1 @ '' '' @ pk2 @ '',''
                   | None \<Rightarrow> query);
          query = fold (\<lambda>(field_name, field_type) query. query @ field_name @ '' '' @ field_type @ '','')
                    (fields_dict info) query
      in rstrip_comma query @ '')'')"

text \<open>The argument \<^verbatim>\<open>query_params\<close> of \<^verbatim>\<open>select_data\<close>; a missing key is \<open>None\<close>.\<close>

record query_params =
  param_find_data :: "string list option"
  param_where_conditions :: "condition list option"

definition get_find_data :: "query_params \<Rightarrow> string list" where
  "get_find_data params = (case param_find_data params of None \<Rightarrow> [''*''] | Some cols \<Rightarrow> cols)"

definition get_where_conditions :: "query_params \<Rightarrow> condition list" where
  "get_where_conditions params = (case param_where_conditions params of None \<Rightarrow> [] | Some cs \<Rightarrow> cs)"

section \<open>The pooled backend: \<^verbatim>\<open>PostgresHandler\<close>\<close>

text \<open>
  The driver: \<^verbatim>\<open>conn.execute\<close> answers with a status text, \<^verbatim>\<open>conn.fetch\<close> with
  rows that \<^verbatim>\<open>dict(row)\<close> reads as column and value pairs, \<^verbatim>\<open>conn.fetchval\<close> with
  one value. Creating the pool and acquiring a connection from it are taken to succeed.
\<close>

record pg_driver =
  drv_execute :: "call list \<Rightarrow> string \<Rightarrow> val list \<Rightarrow> exn + string"
  drv_executemany :: "call list \<Rightarrow> string \<Rightarrow> val list list \<Rightarrow> exn + unit"
  drv_fetch :: "call list \<Rightarrow> string \<Rightarrow> val list \<Rightarrow> exn + (string \<times> val) list list"
  drv_fetchval :: "call list \<Rightarrow> string \<Rightarrow> val list \<Rightarrow> exn + val"

record pg_handler = world +
  pool :: "string option"
  CONNECT_USR :: string

definition pg_connect :: "pg_handler \<Rightarrow> pg_handler" where
  "pg_connect s =
     (if pool s = None then s\<lparr>calls := calls s @ [Connect (CONNECT_USR s)], pool := Some (CONNECT_USR s)\<rparr>
      else s)"

definition pg_close :: "pg_handler \<Rightarrow> pg_handler" where
  "pg_close s = (if pool s \<noteq> None then s\<lparr>calls := calls s @ [Close], pool := None\<rparr> else s)"

definition conn_execute :: "pg_driver \<Rightarrow> string \<Rightarrow> val list \<Rightarrow> (string, pg_handler) action" where
  "conn_execute drv query args s =
     (drv_execute drv (calls s) query args, s\<lparr>calls := calls s @ [Execute query args]\<rparr>)"

definition conn_executemany :: "pg_driver \<Rightarrow> string \<Rightarrow> val list list \<Rightarrow> (unit, pg_handler) action" where
  "conn_executemany drv query rows s =
     (drv_executemany drv (calls s) query rows, s\<lparr>calls := calls s @ [ExecuteMany query rows]\<rparr>)"

definition conn_fetch :: "pg_driver \<Rightarrow> string \<Rightarrow> val list \<Rightarrow> ((string \<times> val) list list, pg_handler) action" where
  "conn_fetch drv query args s =
     (drv_fetch drv (calls s) query args, s\<lparr>calls := calls s @ [Fetch query args]\<rparr>)"

definition conn_fetchval :: "pg_driver \<Rightarrow> string \<Rightarrow> val list \<Rightarrow> (val, pg_handler) action" where
  "conn_fetchval drv query args s =
     (drv_fetchval drv (calls s) query args, s\<lparr>calls := calls s @ [FetchVal query args]\<rparr>)"

definition pg_create_tables :: "pg_driver \<Rightarrow> table_info \<Rightarrow> (string, pg_handler) action" where
  "pg_create_tables drv info s =
     try_except
       (and_then (conn_execute drv (create_table_query info) []) (\<lambda>_.
        and_then (logger_info (''Table '' @ [CHR 0x27] @ name_table info @ [CHR 0x27]
                                @ '' successfully created or already exists.'')) (\<lambda>_.
        return ''ok'')))
       (\<lambda>e. and_then (logger_error (''Error creating table: '' @ str_exn e)) (\<lambda>_.
             return (''Error creating table: '' @ str_exn e)))
       (pg_connect s)"

fun pg_update_batch :: "pg_driver \<Rightarrow> string \<Rightarrow> update_spec list \<Rightarrow> (unit, pg_handler) action" where
  "pg_update_batch drv table_name [] = return ()"
| "pg_update_batch drv table_name (data # batch) =
     and_then
       (try_except
          (and_then (conn_execute drv (pg_update_query table_name data) (pg_update_args data)) (\<lambda>_.
           return ()))
          (\<lambda>e. logger_error (''Error updating records: '' @ str_exn e)))
       (\<lambda>_. pg_update_batch drv table_name batch)"

fun pg_update_batches :: "pg_driver \<Rightarrow> string \<Rightarrow> update_spec list list \<Rightarrow> (unit, pg_handler) action" where
  "pg_update_batches drv table_name [] = return ()"
| "pg_update_batches drv table_name (batch # rest) =
     and_then (pg_update_batch drv table_name batch) (\<lambda>_. pg_update_batches drv table_name rest)"

definition pg_mass_update ::
  "pg_driver \<Rightarrow> string \<Rightarrow> update_spec list \<Rightarrow> int \<Rightarrow> (unit, pg_handler) action" where
  "pg_mass_update drv table_name data_list batch_size s =
     (case batches data_list batch_size of
        Inl e \<Rightarrow> raise e
      | Inr bs \<Rightarrow> pg_update_batches drv table_name bs)
       (pg_connect s)"

definition first_columns :: "pyrecord list \<Rightarrow> string list" where
  "first_columns records = (case records of [] \<Rightarrow> [] | record # _ \<Rightarrow> keys record)"

definition pg_insert_query :: "string \<Rightarrow> string list \<Rightarrow> string" where
  "pg_insert_query table_name columns =
     (let values_placeholder =
            join '', '' (map (\<lambda>i. CHR ''$'' # str_nat (i + 1)) [0 ..< length columns])
      in ''INSERT INTO '' @ table_name @ '' ('' @ join '', '' columns @ '')'' @ [CHR 0x0A]
         @ replicate 28 (CHR '' '') @ ''VALUES ('' @ values_placeholder @ '')'')"

fun pg_insert_batches ::
  "pg_driver \<Rightarrow> string \<Rightarrow> string list \<Rightarrow> pyrecord list list \<Rightarrow> (unit, pg_handler) action" where
  "pg_insert_batches drv query columns [] = return ()"
| "pg_insert_batches drv query columns (batch # rest) =
     (case batch_values columns batch of
        Inl e \<Rightarrow> raise e
      | Inr rows \<Rightarrow>
          and_then (conn_executemany drv query rows) (\<lambda>_. pg_insert_batches drv query columns rest))"

definition pg_insert_loop ::
  "pg_driver \<Rightarrow> string \<Rightarrow> string list \<Rightarrow> pyrecord list \<Rightarrow> int \<Rightarrow> (unit, pg_handler) action" where
  "pg_insert_loop drv query columns records batch_size =
     (case batches records batch_size of
        Inl e \<Rightarrow> raise e
      | Inr bs \<Rightarrow> pg_insert_batches drv query columns bs)"

definition pg_insert_into_table_bulk ::
  "pg_driver \<Rightarrow> string \<Rightarrow> pyrecord list \<Rightarrow> int \<Rightarrow> (string, pg_handler) action" where
  "pg_insert_into_table_bulk drv table_name records batch_size s =
     (let columns = first_columns records;
          query = pg_insert_query table_name columns
      in try_except
           (and_then (pg_insert_loop drv query columns records batch_size) (\<lambda>_.
            and_then (logger_info (str_nat (length records) @ '' records added to the table ''
                                    @ table_name)) (\<lambda>_.
            return ''ok'')))
           (\<lambda>e. and_then (logger_error (''Error adding records: '' @ str_exn e)) (\<lambda>_.
                 return (''Error adding records: '' @ str_exn e))))
       (pg_connect s)"

definition pg_select_data ::
  "pg_driver \<Rightarrow> string \<Rightarrow> query_params \<Rightarrow> int \<Rightarrow> (pyrecord list, pg_handler) action" where
  "pg_select_data drv table_name params batch_size s =
     (case pg_build_select_query table_name (get_find_data params) (get_where_conditions params)
             batch_size of
        (query, condition_values) \<Rightarrow>
          try_finally
            (try_except
               (and_then (conn_fetch drv query condition_values) (\<lambda>result.
                return (map dict result)))
               (\<lambda>e. and_then (logger_error (''Error executing SELECT query: '' @ str_exn e)) (\<lambda>_.
                     raise e)))
            pg_close)
       (pg_connect s)"

definition pg_delete_data :: "pg_driver \<Rightarrow> string \<Rightarrow> condition \<Rightarrow> (string, pg_handler) action" where
  "pg_delete_data drv table_name where_conditions s =
     try_except
       (and_then (conn_execute drv (pg_delete_query table_name where_conditions)
                    (pg_delete_args where_conditions)) (\<lambda>_.
        and_then (logger_info (''Records in the table '' @ [CHR 0x27] @ table_name @ [CHR 0x27]
                                @ '' successfully deleted.'')) (\<lambda>_.
        return ''ok'')))
       (\<lambda>e. and_then (logger_error (''Error deleting data: '' @ str_exn e)) (\<lambda>_.
             return (''Error deleting data: '' @ str_exn e)))
       (pg_connect s)"

definition pg_delete_all_data_from_table :: "pg_driver \<Rightarrow> string \<Rightarrow> (string, pg_handler) action" where
  "pg_delete_all_data_from_table drv table_name s =
     try_except
       (and_then (conn_execute drv (''DELETE FROM '' @ table_name) []) (\<lambda>result.
        and_then (logger_info (result @ '' records deleted from the table '' @ table_name)) (\<lambda>_.
        return ''ok'')))
       (\<lambda>e. and_then (logger_error (''Error deleting records: '' @ str_exn e)) (\<lambda>_.
             return ''error''))
       (pg_connect s)"

definition pg_count_records :: "pg_driver \<Rightarrow> string \<Rightarrow> condition \<Rightarrow> (val, pg_handler) action" where
  "pg_count_records drv table_name where_conditions s =
     (if table_name = [] then raise (ValueError ''Invalid parameters'') s
      else
        try_except
          (and_then (conn_fetchval drv (pg_count_query table_name where_conditions)
                       (pg_count_args where_conditions)) (\<lambda>count.
           and_then (logger_info (py_str count @ '' results in the database for the specified query'')) (\<lambda>_.
           return count)))
          (\<lambda>e. and_then (logger_error (''Error counting records: '' @ str_exn e)) (\<lambda>_.
                raise e))
          (pg_connect s))"

section \<open>The embedded backend: \<^verbatim>\<open>SqliteHandler\<close>\<close>

text \<open>
  The driver: \<^verbatim>\<open>cursor.execute\<close> answers with the cursor, here what its
  \<^verbatim>\<open>fetchall()\<close> would give (a list of tuples, or anything else, kept as the text
  the log line prints); \<^verbatim>\<open>sqlite3.Cursor\<close> has no method \<^verbatim>\<open>fetchval\<close>, so calling
  it raises \<^verbatim>\<open>AttributeError\<close>. Opening the file and making a cursor are taken to
  succeed. The two \<^verbatim>\<open>print\<close> lines of \<^verbatim>\<open>mass_update\<close> are left out.
\<close>

datatype fetched = Tuples "val list list" | Unexpected string

record sqlite_driver =
  cur_execute :: "call list \<Rightarrow> string \<Rightarrow> val list \<Rightarrow> exn + fetched"
  cur_executemany :: "call list \<Rightarrow> string \<Rightarrow> val list list \<Rightarrow> exn + unit"
  con_commit :: "call list \<Rightarrow> exn + unit"

record sqlite_handler = world +
  connection :: "string option"
  db_file :: string

definition sqlite_connect :: "sqlite_handler \<Rightarrow> sqlite_handler" where
  "sqlite_connect s =
     (if connection s = None then s\<lparr>calls := calls s @ [Connect (db_file s)], connection := Some (db_file s)\<rparr>
      else s)"

definition sqlite_close :: "sqlite_handler \<Rightarrow> sqlite_handler" where
  "sqlite_close s = (if connection s \<noteq> None then s\<lparr>calls := calls s @ [Close], connection := None\<rparr> else s)"

definition cursor_execute :: "sqlite_driver \<Rightarrow> string \<Rightarrow> val list \<Rightarrow> (fetched, sqlite_handler) action" where
  "cursor_execute drv query args s =
     (cur_execute drv (calls s) query args, s\<lparr>calls := calls s @ [Execute query args]\<rparr>)"

definition cursor_executemany ::
  "sqlite_driver \<Rightarrow> string \<Rightarrow> val list list \<Rightarrow> (unit, sqlite_handler) action" where
  "cursor_executemany drv query rows s =
     (cur_executemany drv (calls s) query rows, s\<lparr>calls := calls s @ [ExecuteMany query rows]\<rparr>)"

definition connection_commit :: "sqlite_driver \<Rightarrow> (unit, sqlite_handler) action" where
  "connection_commit drv s = (con_commit drv (calls s), s\<lparr>calls := calls s @ [Commit]\<rparr>)"

definition cursor_fetchval :: "fetched \<Rightarrow> (val, sqlite_handler) action" where
  "cursor_fetchval cursor =
     raise (AttributeError ([CHR 0x27] @ ''sqlite3.Cursor'' @ [CHR 0x27] @ '' object has no attribute ''
                            @ [CHR 0x27] @ ''fetchval'' @ [CHR 0x27]))"

definition sqlite_create_tables :: "sqlite_driver \<Rightarrow> table_info \<Rightarrow> (string, sqlite_handler) action" where
  "sqlite_create_tables drv info s =
     try_finally
       (try_except
          (and_then (cursor_execute drv (create_table_query info) []) (\<lambda>_.
           and_then (connection_commit drv) (\<lambda>_.
           and_then (logger_info (''Table '' @ [CHR 0x27] @ name_table info @ [CHR 0x27]
                                   @ '' successfully created or already exists.'')) (\<lambda>_.
           return ''ok''))))
          (\<lambda>e. and_then (logger_error (''Error creating table: '' @ str_exn e)) (\<lambda>_.
                return (''Error creating table: '' @ str_exn e))))
       sqlite_close
       (sqlite_connect s)"

fun sqlite_update_batch ::
  "sqlite_driver \<Rightarrow> string \<Rightarrow> update_spec list \<Rightarrow> (unit, sqlite_handler) action" where
  "sqlite_update_batch drv table_name [] = return ()"
| "sqlite_update_batch drv table_name (data # batch) =
     and_then
       (try_except
          (and_then (cursor_execute drv (sqlite_update_query table_name data) (sqlite_update_args data)) (\<lambda>_.
           return ()))
          (\<lambda>e. logger_error (''Error updating records: '' @ str_exn e)))
       (\<lambda>_. sqlite_update_batch drv table_name batch)"

fun sqlite_update_batches ::
  "sqlite_driver \<Rightarrow> string \<Rightarrow> update_spec list list \<Rightarrow> (unit, sqlite_handler) action" where
  "sqlite_update_batches drv table_name [] = return ()"
| "sqlite_update_batches drv table_name (batch # rest) =
     and_then (sqlite_update_batch drv table_name batch) (\<lambda>_.
       sqlite_update_batches drv table_name rest)"

definition sqlite_mass_update ::
  "sqlite_driver \<Rightarrow> string \<Rightarrow> update_spec list \<Rightarrow> int \<Rightarrow> (unit, sqlite_handler) action" where
  "sqlite_mass_update drv table_name data_list batch_size s =
     try_finally
       (try_except
          (and_then
             (case batches data_list batch_size of
                Inl e \<Rightarrow> raise e
              | Inr bs \<Rightarrow> sqlite_update_batches drv table_name bs) (\<lambda>_.
           connection_commit drv))
          (\<lambda>e. logger_error (''Error updating records: '' @ str_exn e)))
       sqlite_close
       (sqlite_connect s)"

definition sqlite_insert_query :: "string \<Rightarrow> string list \<Rightarrow> string" where
  "sqlite_insert_query table_name columns =
     (let values_placeholder = join '', '' (map (\<lambda>_. ''?'') [0 ..< length columns])
      in ''INSERT INTO '' @ table_name @ '' ('' @ join '', '' columns @ '') VALUES (''
         @ values_placeholder @ '')'')"

fun sqlite_insert_batches ::
  "sqlite_driver \<Rightarrow> string \<Rightarrow> string list \<Rightarrow> pyrecord list list \<Rightarrow> (unit, sqlite_handler) action" where
  "sqlite_insert_batches drv query columns [] = return ()"
| "sqlite_insert_batches drv query columns (batch # rest) =
     (case batch_values columns batch of
        Inl e \<Rightarrow> raise e
      | Inr rows \<Rightarrow>
          and_then (cursor_executemany drv query rows) (\<lambda>_.
            sqlite_insert_batches drv query columns rest))"

definition sqlite_insert_loop ::
  "sqlite_driver \<Rightarrow> string \<Rightarrow> string list \<Rightarrow> pyrecord list \<Rightarrow> int \<Rightarrow> (unit, sqlite_handler) action" where
  "sqlite_insert_loop drv query columns records batch_size =
     (case batches records batch_size of
        Inl e \<Rightarrow> raise e
      | Inr bs \<Rightarrow> sqlite_insert_batches drv query columns bs)"

definition sqlite_insert_into_table_bulk ::
  "sqlite_driver \<Rightarrow> string \<Rightarrow> pyrecord list \<Rightarrow> int \<Rightarrow> (string, sqlite_handler) action" where
  "sqlite_insert_into_table_bulk drv table_name records batch_size s =
     (let columns = first_columns records;
          query = sqlite_insert_query table_name columns
      in try_finally
           (try_except
              (and_then (sqlite_insert_loop drv query columns records batch_size) (\<lambda>_.
               and_then (connection_commit drv) (\<lambda>_.
               and_then (logger_info (str_nat (length records) @ '' records added to the table ''
                                       @ table_name)) (\<lambda>_.
               return ''ok''))))
              (\<lambda>e. and_then (logger_error (''Error adding records: '' @ str_exn e)) (\<lambda>_.
                    return (''Error adding records: '' @ str_exn e))))
           sqlite_close)
       (sqlite_connect s)"

definition sqlite_select_data ::
  "sqlite_driver \<Rightarrow> string \<Rightarrow> query_params \<Rightarrow> int \<Rightarrow> (pyrecord list, sqlite_handler) action" where
  "sqlite_select_data drv table_name params batch_size s =
     (case sqlite_build_select_query table_name (get_find_data params) (get_where_conditions params)
             batch_size of
        (query, condition_values) \<Rightarrow>
          try_finally
            (try_except
               (and_then (cursor_execute drv query condition_values) (\<lambda>result.
                case result of
                  Tuples rows \<Rightarrow> return (map (\<lambda>row. dict (zip (get_find_data params) row)) rows)
                | Unexpected shown \<Rightarrow>
                    and_then (logger_error (''Unexpected result format for SELECT query: '' @ shown)) (\<lambda>_.
                    return [])))
               (\<lambda>e. and_then (logger_error (''Error executing SELECT query: '' @ str_exn e)) (\<lambda>_.
                     raise e)))
            sqlite_close)
       (sqlite_connect s)"

definition sqlite_delete_data ::
  "sqlite_driver \<Rightarrow> string \<Rightarrow> condition \<Rightarrow> (string, sqlite_handler) action" where
  "sqlite_delete_data drv table_name where_conditions s =
     try_finally
       (try_except
          (and_then (cursor_execute drv (sqlite_delete_query table_name where_conditions)
                       (sqlite_delete_args where_conditions)) (\<lambda>_.
           and_then (connection_commit drv) (\<lambda>_.
           and_then (logger_info (''Records in the table '' @ [CHR 0x27] @ table_name @ [CHR 0x27]
                                   @ '' successfully deleted.'')) (\<lambda>_.
           return ''ok''))))
          (\<lambda>e. and_then (logger_error (''Error deleting data: '' @ str_exn e)) (\<lambda>_.
                return (''Error deleting data: '' @ str_exn e))))
       sqlite_close
       (sqlite_connect s)"

definition sqlite_delete_all_data_from_table :: "sqlite_driver \<Rightarrow> string \<Rightarrow> (string, sqlite_handler) action" where
  "sqlite_delete_all_data_from_table drv table_name s =
     try_except
       (and_then (cursor_execute drv (''DELETE FROM '' @ table_name) []) (\<lambda>_.
        and_then (connection_commit drv) (\<lambda>_.
        and_then (logger_info (''All records deleted from the table '' @ table_name)) (\<lambda>_.
        return ''ok''))))
       (\<lambda>e. and_then (logger_error (''Error deleting records: '' @ str_exn e)) (\<lambda>_.
             return ''error''))
       (sqlite_connect s)"

definition sqlite_count_records ::
  "sqlite_driver \<Rightarrow> string \<Rightarrow> condition \<Rightarrow> (val, sqlite_handler) action" where
  "sqlite_count_records drv table_name where_conditions s =
     (if table_name = [] then raise (ValueError ''Invalid parameters'') s
      else
        try_finally
          (try_except
             (and_then (cursor_execute drv (sqlite_count_query table_name where_conditions)
                          (sqlite_count_args where_conditions)) (\<lambda>cursor.
              and_then (cursor_fetchval cursor) (\<lambda>count.
              and_then (logger_info (py_str count @ '' results in the database for the specified query'')) (\<lambda>_.
              return count))))
             (\<lambda>e. and_then (logger_error (''Error counting records: '' @ str_exn e)) (\<lambda>_.
                   raise e)))
          sqlite_close
          (sqlite_connect s))"

text \<open>
  A Condition in which no null-valued column comes before a non-null one: after the first
  null value, every value is null.
\<close>

definition nulls_last :: "condition \<Rightarrow> bool" where
  "nulls_last c \<longleftrightarrow> list_all (\<lambda>value. value = VNone) (dropWhile (\<lambda>value. value \<noteq> VNone) (vals c))"

section \<open>Sample handlers and drivers\<close>

text \<open>
  Handlers that have not connected yet, and drivers of each backend: one that accepts every
  call, one that rejects every call, and one that accepts every call but the multi-row
  calls that follow the first one. The closed instances of the theorems below run on them.
\<close>

definition pg_fresh :: pg_handler where
  "pg_fresh = \<lparr>calls = [], logged = [], pool = None, CONNECT_USR = ''postgresql://db''\<rparr>"

definition sqlite_fresh :: sqlite_handler where
  "sqlite_fresh = \<lparr>calls = [], logged = [], connection = None, db_file = ''test.db''\<rparr>"

definition pg_accepting :: pg_driver where
  "pg_accepting =
     \<lparr>drv_execute = (\<lambda>h query args. Inr ''OK''),
      drv_executemany = (\<lambda>h query rows. Inr ()),
      drv_fetch = (\<lambda>h query args. Inr []),
      drv_fetchval = (\<lambda>h query args. Inr (VInt 0))\<rparr>"

definition pg_rejecting :: pg_driver where
  "pg_rejecting =
     \<lparr>drv_execute = (\<lambda>h query args. Inl (DatabaseError ''rejected'')),
      drv_executemany = (\<lambda>h query rows. Inl (DatabaseError ''rejected'')),
      drv_fetch = (\<lambda>h query args. Inl (DatabaseError ''rejected'')),
      drv_fetchval = (\<lambda>h query args. Inl (DatabaseError ''rejected''))\<rparr>"

definition sqlite_accepting :: sqlite_driver where
  "sqlite_accepting =
     \<lparr>cur_execute = (\<lambda>h query args. Inr (Tuples [])),
      cur_executemany = (\<lambda>h query rows. Inr ()),
      con_commit = (\<lambda>h. Inr ())\<rparr>"

definition sqlite_rejecting :: sqlite_driver where
  "sqlite_rejecting =
     \<lparr>cur_execute = (\<lambda>h query args. Inl (DatabaseError ''rejected'')),
      cur_executemany = (\<lambda>h query rows. Inl (DatabaseError ''rejected'')),
      con_commit = (\<lambda>h. Inl (DatabaseError ''rejected''))\<rparr>"

definition pg_rejecting_second :: pg_driver where
  "pg_rejecting_second =
     \<lparr>drv_execute = (\<lambda>h query args. Inr ''OK''),
      drv_executemany = (\<lambda>h query rows. if length h \<le> 1 then Inr () else Inl (DatabaseError ''rejected'')),
      drv_fetch = (\<lambda>h query args. Inr []),
      drv_fetchval = (\<lambda>h query args. Inr (VInt 0))\<rparr>"

definition sqlite_rejecting_second :: sqlite_driver where
  "sqlite_rejecting_second =
     \<lparr>cur_execute = (\<lambda>h query args. Inr (Tuples [])),
      cur_executemany = (\<lambda>h query rows. if length h \<le> 1 then Inr () else Inl (DatabaseError ''rejected'')),
      con_commit = (\<lambda>h. Inr ())\<rparr>"

definition sqlite_two_rows :: sqlite_driver where
  "sqlite_two_rows =
     \<lparr>cur_execute = (\<lambda>h query args. Inr (Tuples [[VInt 1, VStr ''John''], [VInt 2, VStr ''Jane'']])),
      cur_executemany = (\<lambda>h query rows. Inr ()),
      con_commit = (\<lambda>h. Inr ())\<rparr>"

text \<open>The positional placeholders of a statement of the embedded backend, counted.\<close>

definition qmarks :: "string \<Rightarrow> nat" where
  "qmarks s = count_list s (CHR ''?'')"

section \<open>Lemmas on decimal numerals and on the placeholder reader\<close>

lemma digit_cases:
  "d < 10 \<Longrightarrow> d = 0 \<or> d = 1 \<or> d = 2 \<or> d = 3 \<or> d = 4 \<or> d = 5 \<or> d = 6 \<or> d = 7 \<or> d = 8 \<or> d = (9::nat)"
  by arith

lemma of_char_digit_char: "d < 10 \<Longrightarrow> (of_char (digit_char d) :: nat) = 48 + d"
  by (drule digit_cases) (auto simp: digit_char_def)

lemma is_digit_digit_char: "d < 10 \<Longrightarrow> is_digit (digit_char d)"
  by (simp add: is_digit_def of_char_digit_char)

lemma str_nat_digits: "\<forall>c \<in> set (str_nat n). is_digit c"
proof (induction n rule: str_nat.induct)
  case (1 n)
  show ?case
  proof (cases "n < 10")
    case True
    then show ?thesis by (subst str_nat.simps) (simp add: is_digit_digit_char)
  next
    case False
    with 1 show ?thesis by (subst str_nat.simps) (simp add: is_digit_digit_char)
  qed
qed

lemma str_nat_nonempty: "str_nat n \<noteq> []"
  by (subst str_nat.simps) simp

lemma nat_of_digits_snoc: "nat_of_digits (ds @ [c]) = 10 * nat_of_digits ds + (of_char c - 48)"
  by (simp add: nat_of_digits_def)

lemma nat_of_digits_str_nat: "nat_of_digits (str_nat n) = n"
proof (induction n rule: str_nat.induct)
  case (1 n)
  show ?case
  proof (cases "n < 10")
    case True
    then show ?thesis by (subst str_nat.simps) (simp add: nat_of_digits_def of_char_digit_char)
  next
    case False
    with 1 show ?thesis
      by (subst str_nat.simps) (simp add: nat_of_digits_snoc of_char_digit_char)
  qed
qed

lemma is_digit_not_dollar: "is_digit c \<Longrightarrow> c \<noteq> CHR ''$''"
  by (auto simp: is_digit_def)

lemma dollar_free_str_nat: "dollar_free (str_nat n)"
  using str_nat_digits [of n] is_digit_not_dollar by (auto simp: dollar_free_def)

lemma dollar_free_str_int: "dollar_free (str_int i)"
  using dollar_free_str_nat by (simp add: str_int_def dollar_free_def)

lemma dollar_free_append [simp]: "dollar_free (s @ t) \<longleftrightarrow> dollar_free s \<and> dollar_free t"
  by (auto simp: dollar_free_def)

lemma dollar_free_join:
  "dollar_free sep \<Longrightarrow> \<forall>x \<in> set xs. dollar_free x \<Longrightarrow> dollar_free (join sep xs)"
  by (induction sep xs rule: join.induct) (simp_all add: dollar_free_def)

lemma placeholders_skip: "dollar_free s \<Longrightarrow> placeholders (s @ t) = placeholders t"
  by (induction s) (auto simp: dollar_free_def)

lemma placeholders_dollar_free: "dollar_free s \<Longrightarrow> placeholders s = []"
  using placeholders_skip [of s "[]"] by simp

lemma placeholders_param:
  assumes "t = [] \<or> \<not> is_digit (hd t)"
  shows "placeholders (CHR ''$'' # str_nat n @ t) = n # placeholders t"
proof -
  have tw: "takeWhile is_digit (str_nat n @ t) = str_nat n"
    using assms str_nat_digits [of n] by (cases t) (auto simp: takeWhile_eq_all_conv)
  have "placeholders (str_nat n @ t) = placeholders t"
    using dollar_free_str_nat by (rule placeholders_skip)
  with tw show ?thesis by (simp add: str_nat_nonempty nat_of_digits_str_nat)
qed

lemma emits_lit: "dollar_free s \<Longrightarrow> emits s []"
  by (simp add: emits_def placeholders_skip)

lemma emits_param: "emits (CHR ''$'' # str_nat n) [n]"
  unfolding emits_def
proof (intro allI impI)
  fix t assume "t = [] \<or> \<not> is_digit (hd t)"
  then have "placeholders (CHR ''$'' # str_nat n @ t) = n # placeholders t"
    by (rule placeholders_param)
  then show "placeholders ((CHR ''$'' # str_nat n) @ t) = [n] @ placeholders t"
    by (simp only: append_Cons append_Nil)
qed

lemma emits_lit_append: "dollar_free s \<Longrightarrow> emits s' ns \<Longrightarrow> emits (s @ s') ns"
  by (simp add: emits_def placeholders_skip)

lemma emits_append:
  assumes "emits s ns" and "emits s' ns'" and "s' \<noteq> []" and "\<not> is_digit (hd s')"
  shows "emits (s @ s') (ns @ ns')"
  unfolding emits_def
proof (intro allI impI)
  fix t assume t: "t = [] \<or> \<not> is_digit (hd t)"
  from assms(3,4) have "s' @ t = [] \<or> \<not> is_digit (hd (s' @ t))" by simp
  with assms(1) have "placeholders (s @ s' @ t) = ns @ placeholders (s' @ t)"
    unfolding emits_def by blast
  moreover from assms(2) t have "placeholders (s' @ t) = ns' @ placeholders t"
    unfolding emits_def by blast
  ultimately show "placeholders ((s @ s') @ t) = (ns @ ns') @ placeholders t" by simp
qed

lemma emits_append_lit:
  "emits s ns \<Longrightarrow> dollar_free s' \<Longrightarrow> s' \<noteq> [] \<Longrightarrow> \<not> is_digit (hd s') \<Longrightarrow> emits (s @ s') ns"
  using emits_append [of s ns s' "[]"] by (simp add: emits_lit)

lemma emits_placeholders: "emits s ns \<Longrightarrow> placeholders s = ns"
  unfolding emits_def by (metis append_Nil2 placeholders.simps(1))

lemma emits_join:
  assumes "dollar_free sep" and "sep \<noteq> []" and "\<not> is_digit (hd sep)"
    and "\<forall>x \<in> set xs. emits (f x) (g x)"
  shows "emits (join sep (map f xs)) (concat (map g xs))"
  using assms(4)
proof (induction xs)
  case Nil
  then show ?case by (simp add: emits_lit dollar_free_def)
next
  case (Cons x xs)
  show ?case
  proof (cases xs)
    case Nil
    with Cons.prems show ?thesis by simp
  next
    case (Cons y ys)
    from Cons.prems Cons.IH have "emits (join sep (map f xs)) (concat (map g xs))" by simp
    with assms(1) have "emits (sep @ join sep (map f xs)) (concat (map g xs))"
      by (rule emits_lit_append)
    moreover from Cons.prems have "emits (f x) (g x)" by simp
    ultimately have "emits (f x @ sep @ join sep (map f xs)) (g x @ concat (map g xs))"
      using assms(2,3) by (intro emits_append) simp_all
    with Cons show ?thesis by simp
  qed
qed

lemma emits_equality:
  assumes "dollar_free k"
  shows "emits (k @ '' = $'' @ str_nat n) [n]"
proof -
  from assms have "dollar_free (k @ '' = '')" by (simp add: dollar_free_def)
  then have "emits ((k @ '' = '') @ CHR ''$'' # str_nat n) [n]"
    using emits_param by (rule emits_lit_append)
  then show ?thesis by simp
qed

lemma shifted_upt: "map (\<lambda>i. m + i + 1) [0 ..< n] = [m + 1 ..< m + 1 + n]"
  by (induction n) simp_all

lemma map_enumerate_index:
  "map (\<lambda>(i, k). h i) (List.enumerate n ks) = map h [n ..< n + length ks]"
proof -
  have "(\<lambda>(i, k). h i) = h \<circ> (fst :: nat \<times> 'b \<Rightarrow> nat)"
    by (auto simp: fun_eq_iff)
  then have "map (\<lambda>(i, k). h i) (List.enumerate n ks) = map h (map fst (List.enumerate n ks))"
    by (simp only: map_map)
  then show ?thesis by (simp only: map_fst_enumerate)
qed

lemma concat_shift_enumerate:
  "concat (map (\<lambda>(i, k). [m + i + 1]) (List.enumerate 0 ks)) = [m + 1 ..< m + 1 + length ks]"
proof -
  have "concat (map (\<lambda>(i, k). [m + i + 1]) (List.enumerate 0 ks))
        = concat (map (\<lambda>i. [m + i + 1]) [0 ..< 0 + length ks])"
    by (simp only: map_enumerate_index)
  also have "\<dots> = map (\<lambda>i. m + i + 1) [0 ..< length ks]"
    by (simp add: concat_map_singleton)
  finally show ?thesis by (simp only: shifted_upt)
qed

lemma emits_numbered:
  assumes "\<forall>k \<in> set ks. dollar_free k" and "dollar_free sep" and "sep \<noteq> []" and "\<not> is_digit (hd sep)"
  shows "emits (join sep (map (\<lambda>(i, k). k @ '' = $'' @ str_nat (m + i + 1)) (List.enumerate 0 ks)))
               [m + 1 ..< m + 1 + length ks]"
proof -
  have "\<forall>x \<in> set (List.enumerate 0 ks). emits ((\<lambda>(i, k). k @ '' = $'' @ str_nat (m + i + 1)) x) ((\<lambda>(i, k). [m + i + 1]) x)"
  proof
    fix x assume x: "x \<in> set (List.enumerate 0 ks)"
    obtain i k where ik: "x = (i, k)" by (cases x)
    with x have "k \<in> set ks" by (auto simp: in_set_enumerate_eq)
    with assms(1) have "dollar_free k" by blast
    then have "emits (k @ '' = $'' @ str_nat (m + i + 1)) [m + i + 1]" by (rule emits_equality)
    with ik show "emits ((\<lambda>(i, k). k @ '' = $'' @ str_nat (m + i + 1)) x) ((\<lambda>(i, k). [m + i + 1]) x)"
      by (simp only: prod.case)
  qed
  from emits_join [OF assms(2,3,4) this] show ?thesis
    by (simp only: concat_shift_enumerate)
qed

section \<open>The placeholders of the statements of the pooled backend\<close>

lemma emits_nil: "emits [] []"
  by (simp add: emits_lit dollar_free_def)

lemma emits_where_columns:
  assumes "\<forall>k \<in> set (keys c). dollar_free k"
  shows "emits (join '' AND '' (pg_where_columns c)) [1 ..< 1 + length c]"
proof -
  have "emits (join '' AND '' (map (\<lambda>(i, k). k @ '' = $'' @ str_nat (0 + i + 1)) (List.enumerate 0 (keys c))))
              [0 + 1 ..< 0 + 1 + length (keys c)]"
    using assms by (intro emits_numbered) (simp_all add: dollar_free_def is_digit_def)
  then show ?thesis by (simp add: pg_where_columns_def keys_def)
qed

lemma placeholders_pg_delete_query:
  assumes "dollar_free table_name" and "\<forall>k \<in> set (keys c). dollar_free k"
  shows "placeholders (pg_delete_query table_name c) = [1 ..< 1 + length c]"
proof (cases "c = []")
  case True
  with assms(1) show ?thesis
    by (simp add: pg_delete_query_def placeholders_dollar_free dollar_free_def)
next
  case False
  from assms(1) have "dollar_free (''DELETE FROM '' @ table_name @ '' WHERE '')"
    by (simp add: dollar_free_def)
  then have "emits ((''DELETE FROM '' @ table_name @ '' WHERE '') @ join '' AND '' (pg_where_columns c))
                   [1 ..< 1 + length c]"
    using emits_where_columns [OF assms(2)] by (rule emits_lit_append)
  then have "placeholders ((''DELETE FROM '' @ table_name @ '' WHERE '') @ join '' AND '' (pg_where_columns c))
               = [1 ..< 1 + length c]"
    by (rule emits_placeholders)
  with False show ?thesis by (simp add: pg_delete_query_def)
qed

lemma null_col_subset: "set (null_col c) \<subseteq> set (keys c)"
  by (auto simp: null_col_def keys_def)

lemma join_eq_Nil_iff: "\<forall>x \<in> set xs. x \<noteq> [] \<Longrightarrow> join sep xs = [] \<longleftrightarrow> xs = []"
  by (induction sep xs rule: join.induct) simp_all

lemma pg_where_clause_empty_iff: "join '' AND '' (pg_where_columns c) = [] \<longleftrightarrow> c = []"
proof -
  have "\<forall>x \<in> set (pg_where_columns c). x \<noteq> []"
    by (auto simp: pg_where_columns_def)
  then have "join '' AND '' (pg_where_columns c) = [] \<longleftrightarrow> pg_where_columns c = []"
    by (rule join_eq_Nil_iff)
  then show ?thesis by (cases c) (simp_all add: pg_where_columns_def keys_def)
qed

lemma pg_count_query_shape:
  "pg_count_query table_name c
   = (if c = [] then ''SELECT COUNT(*) FROM '' @ table_name
      else (''SELECT COUNT(*) FROM '' @ table_name @ '' WHERE '') @ join '' AND '' (pg_where_columns c))
     @ (case null_col c of [] \<Rightarrow> [] | col # _ \<Rightarrow> '' OR '' @ col @ '' IS NULL'')"
  by (simp add: pg_count_query_def Let_def pg_where_clause_empty_iff split: list.split)

lemma placeholders_pg_count_query:
  assumes "dollar_free table_name" and "\<forall>k \<in> set (keys c). dollar_free k"
  shows "placeholders (pg_count_query table_name c) = [1 ..< 1 + length c]"
proof -
  let ?head = "''SELECT COUNT(*) FROM '' @ table_name"
  let ?q = "if c = [] then ?head else (?head @ '' WHERE '') @ join '' AND '' (pg_where_columns c)"
  let ?tail = "case null_col c of [] \<Rightarrow> [] | col # _ \<Rightarrow> '' OR '' @ col @ '' IS NULL''"
  from assms(1) have hd: "dollar_free ?head" "dollar_free (?head @ '' WHERE '')"
    by (simp_all add: dollar_free_def)
  have q: "emits ?q [1 ..< 1 + length c]"
  proof (cases "c = []")
    case True
    with hd(1) show ?thesis by (simp add: emits_lit)
  next
    case False
    from hd(2) emits_where_columns [OF assms(2)]
    have "emits ((?head @ '' WHERE '') @ join '' AND '' (pg_where_columns c)) [1 ..< 1 + length c]"
      by (rule emits_lit_append)
    with False show ?thesis by (simp only: if_False)
  qed
  have "emits (?q @ ?tail) [1 ..< 1 + length c]"
  proof (cases "null_col c")
    case Nil
    with q show ?thesis by (simp only: list.case append_Nil2)
  next
    case (Cons col cols)
    with null_col_subset [of c] assms(2) have "dollar_free col" by auto
    then have "dollar_free ('' OR '' @ col @ '' IS NULL'')" by (simp add: dollar_free_def)
    with q have "emits (?q @ '' OR '' @ col @ '' IS NULL'') [1 ..< 1 + length c]"
      by (rule emits_append_lit) (simp_all add: is_digit_def)
    with Cons show ?thesis by (simp only: list.case)
  qed
  then have "placeholders (?q @ ?tail) = [1 ..< 1 + length c]"
    by (rule emits_placeholders)
  then show ?thesis by (simp only: pg_count_query_shape append_assoc)
qed

lemma placeholders_pg_update_query:
  assumes "dollar_free table_name"
    and "\<forall>k \<in> set (keys (where_dict d)). dollar_free k"
    and "\<forall>k \<in> set (keys (update_dict d)). dollar_free k"
  shows "placeholders (pg_update_query table_name d)
         = [length (where_dict d) + 1 ..< length (where_dict d) + 1 + length (update_dict d)]
           @ [1 ..< 1 + length (where_dict d)]"
proof -
  let ?w = "length (where_dict d)"
  let ?upd = "join '', '' (map (\<lambda>(i, k). k @ '' = $'' @ str_nat (?w + i + 1))
                 (List.enumerate 0 (keys (update_dict d))))"
  have "emits ?upd [?w + 1 ..< ?w + 1 + length (keys (update_dict d))]"
    using assms(3) by (intro emits_numbered) (simp_all add: dollar_free_def is_digit_def)
  then have u: "emits ?upd [?w + 1 ..< ?w + 1 + length (update_dict d)]"
    by (simp add: keys_def)
  have "emits ('' WHERE '' @ join '' AND '' (pg_where_columns (where_dict d))) [1 ..< 1 + ?w]"
    using emits_where_columns [OF assms(2)]
    by (intro emits_lit_append) (simp_all add: dollar_free_def)
  with u have "emits (?upd @ '' WHERE '' @ join '' AND '' (pg_where_columns (where_dict d)))
                 ([?w + 1 ..< ?w + 1 + length (update_dict d)] @ [1 ..< 1 + ?w])"
    by (rule emits_append) (simp_all add: is_digit_def)
  moreover from assms(1) have "dollar_free (''UPDATE '' @ table_name @ '' SET '')"
    by (simp add: dollar_free_def)
  ultimately have "emits ((''UPDATE '' @ table_name @ '' SET '') @ ?upd @ '' WHERE ''
                          @ join '' AND '' (pg_where_columns (where_dict d)))
                 ([?w + 1 ..< ?w + 1 + length (update_dict d)] @ [1 ..< 1 + ?w])"
    by (rule emits_lit_append [rotated])
  from emits_placeholders [OF this] show ?thesis
    by (simp add: pg_update_query_def Let_def)
qed

lemma emits_or_join:
  assumes "list_all2 emits wc nss"
  shows "emits (or_join wc) (concat nss)"
proof -
  have "\<forall>x \<in> set (zip wc nss). emits ((\<lambda>(clause, ns). ''('' @ clause @ '')'') x) (snd x)"
  proof
    fix x assume x: "x \<in> set (zip wc nss)"
    obtain clause ns where cn: "x = (clause, ns)" by (cases x)
    with x assms have "emits clause ns" by (auto simp: list_all2_iff)
    then have "emits (clause @ '')'') ns"
      by (rule emits_append_lit) (simp_all add: dollar_free_def is_digit_def)
    then have "emits (''('' @ clause @ '')'') ns"
      by (rule emits_lit_append [of "''(''", rotated]) (simp add: dollar_free_def)
    with cn show "emits ((\<lambda>(clause, ns). ''('' @ clause @ '')'') x) (snd x)" by simp
  qed
  then have "emits (join '' OR '' (map (\<lambda>(clause, ns). ''('' @ clause @ '')'') (zip wc nss)))
                   (concat (map snd (zip wc nss)))"
    by (intro emits_join) (simp_all add: dollar_free_def is_digit_def)
  moreover from assms have len: "length wc = length nss" by (rule list_all2_lengthD)
  then have "map (\<lambda>(clause, ns). ''('' @ clause @ '')'') (zip wc nss) = map (\<lambda>clause. ''('' @ clause @ '')'') wc"
    by (induction wc nss rule: list_induct2) simp_all
  moreover from len have "map snd (zip wc nss) = nss" by simp
  ultimately show ?thesis by (simp add: or_join_def)
qed

lemma dollar_free_select_head:
  "dollar_free table_name \<Longrightarrow> \<forall>col \<in> set find_data. dollar_free col
   \<Longrightarrow> dollar_free (select_head table_name find_data)"
proof -
  assume t: "dollar_free table_name" and cols: "\<forall>col \<in> set find_data. dollar_free col"
  have "dollar_free '', ''" by (simp add: dollar_free_def)
  then have "dollar_free (join '', '' find_data)" using cols by (rule dollar_free_join)
  with t show ?thesis unfolding select_head_def dollar_free_def by simp
qed

lemma pg_build_select_query_shape:
  "pg_build_select_query table_name find_data conds batch_size
   = (case pg_where_loop conds [] [] of
        (where_clauses, condition_values) \<Rightarrow>
          (select_head table_name find_data
           @ (if where_clauses = [] then []
              else '' WHERE '' @ or_join where_clauses
                   @ (if batch_size = 0 then [] else '' LIMIT '' @ str_int batch_size)),
           condition_values))"
  by (cases conds) (simp_all add: pg_build_select_query_def Let_def split: prod.split)

section \<open>The text of the count statement\<close>

lemma enumerate_map_fst:
  "map (\<lambda>(i, key). f key i) (List.enumerate n (map fst c))
   = map (\<lambda>(i, (col, value)). f col i) (List.enumerate n c)"
  by (induction c arbitrary: n) auto

lemma pg_where_columns_all:
  "pg_where_columns c = map (\<lambda>(i, (col, value)). col @ '' = $'' @ str_nat (i + 1)) (List.enumerate 0 c)"
  unfolding pg_where_columns_def keys_def
  by (rule enumerate_map_fst [of "\<lambda>key i. key @ '' = $'' @ str_nat (i + 1)"])

lemma sqlite_where_columns_all:
  "sqlite_where_columns c = map (\<lambda>(col, value). col @ '' = ?'') c"
  by (simp add: sqlite_where_columns_def keys_def case_prod_beta)

lemma null_col_find:
  "(case null_col c of [] \<Rightarrow> [] | col # _ \<Rightarrow> '' OR '' @ col @ '' IS NULL'')
   = (case List.find (\<lambda>(col, value). value = VNone) c of
        None \<Rightarrow> [] | Some (col, _) \<Rightarrow> '' OR '' @ col @ '' IS NULL'')"
  by (induction c) (auto simp: null_col_def)

lemma sqlite_where_clause_empty_iff: "join '' AND '' (sqlite_where_columns c) = [] \<longleftrightarrow> c = []"
proof -
  have "\<forall>x \<in> set (sqlite_where_columns c). x \<noteq> []"
    by (auto simp: sqlite_where_columns_def)
  then have "join '' AND '' (sqlite_where_columns c) = [] \<longleftrightarrow> sqlite_where_columns c = []"
    by (rule join_eq_Nil_iff)
  then show ?thesis by (simp add: sqlite_where_columns_def keys_def)
qed

lemma sqlite_count_query_shape:
  "sqlite_count_query table_name c
   = (if c = [] then ''SELECT COUNT(*) FROM '' @ table_name
      else (''SELECT COUNT(*) FROM '' @ table_name @ '' WHERE '') @ join '' AND '' (sqlite_where_columns c))
     @ (case null_col c of [] \<Rightarrow> [] | col # _ \<Rightarrow> '' OR '' @ col @ '' IS NULL'')"
  by (simp add: sqlite_count_query_def Let_def sqlite_where_clause_empty_iff split: list.split)

section \<open>The text of the select statement\<close>

lemma pg_where_loop_clauses_empty_iff:
  "fst (pg_where_loop conds wc cv) = [] \<longleftrightarrow> wc = [] \<and> (\<forall>c \<in> set conds. c = [])"
  by (induction conds arbitrary: wc cv) auto

lemma sqlite_where_loop_clauses_empty_iff:
  "fst (sqlite_where_loop conds wc cv) = [] \<longleftrightarrow> wc = [] \<and> (\<forall>c \<in> set conds. c = [])"
  by (induction conds arbitrary: wc cv) auto

lemma sqlite_build_select_query_shape:
  "sqlite_build_select_query table_name find_data conds batch_size
   = (case sqlite_where_loop conds [] [] of
        (where_clauses, condition_values) \<Rightarrow>
          (select_head table_name find_data
           @ (if where_clauses = [] then []
              else '' WHERE '' @ or_join where_clauses
                   @ (if batch_size = 0 then [] else '' LIMIT '' @ str_int batch_size)),
           condition_values))"
  by (cases conds) (simp_all add: sqlite_build_select_query_def Let_def split: prod.split)

lemma fst_pg_build_select_query:
  "fst (pg_build_select_query table_name find_data conds batch_size)
   = select_head table_name find_data
     @ (if \<forall>c \<in> set conds. c = [] then []
        else '' WHERE '' @ or_join (fst (pg_where_loop conds [] []))
             @ (if batch_size = 0 then [] else '' LIMIT '' @ str_int batch_size))"
proof -
  obtain wc cv where loop: "pg_where_loop conds [] [] = (wc, cv)"
    by (cases "pg_where_loop conds [] []")
  with pg_where_loop_clauses_empty_iff [of conds "[]" "[]"]
  have "wc = [] \<longleftrightarrow> (\<forall>c \<in> set conds. c = [])" by simp
  with loop show ?thesis by (simp add: pg_build_select_query_shape)
qed

lemma fst_sqlite_build_select_query:
  "fst (sqlite_build_select_query table_name find_data conds batch_size)
   = select_head table_name find_data
     @ (if \<forall>c \<in> set conds. c = [] then []
        else '' WHERE '' @ or_join (fst (sqlite_where_loop conds [] []))
             @ (if batch_size = 0 then [] else '' LIMIT '' @ str_int batch_size))"
proof -
  obtain wc cv where loop: "sqlite_where_loop conds [] [] = (wc, cv)"
    by (cases "sqlite_where_loop conds [] []")
  with sqlite_where_loop_clauses_empty_iff [of conds "[]" "[]"]
  have "wc = [] \<longleftrightarrow> (\<forall>c \<in> set conds. c = [])" by simp
  with loop show ?thesis by (simp add: sqlite_build_select_query_shape)
qed

section \<open>The values select binds and its null columns\<close>

lemma snd_pg_where_loop:
  "snd (pg_where_loop conds wc cv)
   = cv @ concat (map (\<lambda>c. filter (\<lambda>v. v \<noteq> VNone) (vals c)) conds)"
  by (induction conds arbitrary: wc cv) (auto simp: vals_def)

lemma snd_sqlite_where_loop:
  "snd (sqlite_where_loop conds wc cv)
   = cv @ concat (map (\<lambda>c. filter (\<lambda>v. v \<noteq> VNone) (vals c)) conds)"
  by (induction conds arbitrary: wc cv) (auto simp: vals_def)

lemma snd_pg_build_select_query:
  "snd (pg_build_select_query table_name find_data conds batch_size)
   = concat (map (\<lambda>c. filter (\<lambda>v. v \<noteq> VNone) (vals c)) conds)"
proof -
  obtain wc cv where loop: "pg_where_loop conds [] [] = (wc, cv)"
    by (cases "pg_where_loop conds [] []")
  with snd_pg_where_loop [of conds "[]" "[]"] show ?thesis
    by (simp add: pg_build_select_query_shape)
qed

lemma snd_sqlite_build_select_query:
  "snd (sqlite_build_select_query table_name find_data conds batch_size)
   = concat (map (\<lambda>c. filter (\<lambda>v. v \<noteq> VNone) (vals c)) conds)"
proof -
  obtain wc cv where loop: "sqlite_where_loop conds [] [] = (wc, cv)"
    by (cases "sqlite_where_loop conds [] []")
  with snd_sqlite_where_loop [of conds "[]" "[]"] show ?thesis
    by (simp add: sqlite_build_select_query_shape)
qed

lemma sublist_join: "x \<in> set xs \<Longrightarrow> sublist x (join sep xs)"
proof (induction sep xs rule: join.induct)
  case (3 sep y z zs)
  show ?case
  proof (cases "x = y")
    case True
    then show ?thesis by simp
  next
    case False
    with 3 have "sublist x (join sep (z # zs))" by simp
    then have "sublist x ((y @ sep) @ join sep (z # zs))"
      by (meson sublist_append)
    then show ?thesis by simp
  qed
qed simp_all

lemma sublist_pg_select_clause:
  assumes "(col, VNone) \<in> set c"
  shows "sublist (col @ '' IS NULL'') (pg_select_clause n c)"
proof -
  from assms obtain i where "i < length c" and "c ! i = (col, VNone)"
    by (auto simp: in_set_conv_nth)
  then have "(i, (col, VNone)) \<in> set (List.enumerate 0 c)"
    by (simp add: in_set_enumerate_eq)
  then have "col @ '' IS NULL''
      \<in> set (map (\<lambda>(i, (key, value)). if value \<noteq> VNone then key @ '' = $'' @ str_nat (n + i + 1)
                                        else key @ '' IS NULL'') (List.enumerate 0 c))"
    by force
  then show ?thesis unfolding pg_select_clause_def by (rule sublist_join)
qed

lemma sublist_sqlite_select_clause:
  assumes "(col, VNone) \<in> set c"
  shows "sublist (col @ '' IS NULL'') (sqlite_select_clause c)"
proof -
  from assms have "col @ '' IS NULL''
      \<in> set (map (\<lambda>(key, value). if value \<noteq> VNone then key @ '' = ?'' else key @ '' IS NULL'') c)"
    by force
  then show ?thesis unfolding sqlite_select_clause_def by (rule sublist_join)
qed

lemma pg_where_loop_clause_mem:
  "c \<in> set conds \<Longrightarrow> c \<noteq> [] \<Longrightarrow> \<exists>n. pg_select_clause n c \<in> set (fst (pg_where_loop conds wc cv))"
  and pg_where_loop_keeps: "set wc \<subseteq> set (fst (pg_where_loop conds wc cv))"
proof (induction conds arbitrary: wc cv)
  case Nil
  { case 1 then show ?case by simp }
  { case 2 show ?case by simp }
next
  case (Cons d conds)
  { case 1
    show ?case
    proof (cases "c = d")
      case True
      with 1 Cons.IH(2) [of "wc @ [pg_select_clause (length cv) d]"] show ?thesis by auto
    next
      case False
      with 1 Cons.IH(1) show ?thesis by auto
    qed }
  { case 2
    from Cons.IH(2) [of "wc @ [pg_select_clause (length cv) d]"] Cons.IH(2) [of wc]
    show ?case by auto }
qed

lemma sqlite_where_loop_clause_mem:
  "c \<in> set conds \<Longrightarrow> c \<noteq> [] \<Longrightarrow> sqlite_select_clause c \<in> set (fst (sqlite_where_loop conds wc cv))"
  and sqlite_where_loop_keeps: "set wc \<subseteq> set (fst (sqlite_where_loop conds wc cv))"
proof (induction conds arbitrary: wc cv)
  case Nil
  { case 1 then show ?case by simp }
  { case 2 show ?case by simp }
next
  case (Cons d conds)
  { case 1
    show ?case
    proof (cases "c = d")
      case True
      with 1 Cons.IH(2) [of "wc @ [sqlite_select_clause d]"] show ?thesis by auto
    next
      case False
      with 1 Cons.IH(1) show ?thesis by auto
    qed }
  { case 2
    from Cons.IH(2) [of "wc @ [sqlite_select_clause d]"] Cons.IH(2) [of wc]
    show ?case by auto }
qed

lemma sublist_or_join:
  assumes "clause \<in> set where_clauses" and "sublist x clause"
  shows "sublist x (or_join where_clauses)"
proof -
  from assms(1) have "''('' @ clause @ '')'' \<in> set (map (\<lambda>clause. ''('' @ clause @ '')'') where_clauses)"
    by (simp only: set_map) (rule imageI)
  then have "sublist (''('' @ clause @ '')'') (or_join where_clauses)"
    unfolding or_join_def by (rule sublist_join)
  moreover have "sublist clause (''('' @ clause @ '')'')" by (rule sublist_appendI)
  ultimately show ?thesis using assms(2) by (meson sublist_order.order.trans)
qed

lemma sublist_where_tail:
  assumes "sublist x pred"
  shows "sublist x (hd_text @ '' WHERE '' @ pred @ tl_text)"
proof -
  have "sublist pred ((hd_text @ '' WHERE '') @ pred @ tl_text)" by (rule sublist_appendI)
  with assms have "sublist x ((hd_text @ '' WHERE '') @ pred @ tl_text)"
    by (meson sublist_order.order.trans)
  then show ?thesis by (simp only: append_assoc)
qed

lemma null_column_in_select:
  assumes "c \<in> set conds" and "(col, VNone) \<in> set c"
  shows "sublist (col @ '' IS NULL'') (fst (pg_build_select_query table_name find_data conds batch_size))"
    and "sublist (col @ '' IS NULL'') (fst (sqlite_build_select_query table_name find_data conds batch_size))"
proof -
  from assms have ne: "c \<noteq> []" by auto
  with assms(1) have nall: "\<not> (\<forall>c \<in> set conds. c = [])" by blast
  from assms(1) ne obtain n where "pg_select_clause n c \<in> set (fst (pg_where_loop conds [] []))"
    using pg_where_loop_clause_mem by blast
  then have "sublist (col @ '' IS NULL'') (or_join (fst (pg_where_loop conds [] [])))"
    using sublist_pg_select_clause [OF assms(2)] by (rule sublist_or_join)
  then show "sublist (col @ '' IS NULL'') (fst (pg_build_select_query table_name find_data conds batch_size))"
    using nall by (simp only: fst_pg_build_select_query if_False sublist_where_tail)
  from assms(1) ne have "sqlite_select_clause c \<in> set (fst (sqlite_where_loop conds [] []))"
    by (rule sqlite_where_loop_clause_mem)
  then have "sublist (col @ '' IS NULL'') (or_join (fst (sqlite_where_loop conds [] [])))"
    using sublist_sqlite_select_clause [OF assms(2)] by (rule sublist_or_join)
  then show "sublist (col @ '' IS NULL'') (fst (sqlite_build_select_query table_name find_data conds batch_size))"
    using nall by (simp only: fst_sqlite_build_select_query if_False sublist_where_tail)
qed

section \<open>The calls of delete and count\<close>

lemmas action_defs = return_def raise_def and_then_def try_except_def try_finally_def
  logger_info_def logger_error_def

lemma pg_delete_data_calls:
  "calls (snd (pg_delete_data drv table_name c s))
   = calls (pg_connect s) @ [Execute (pg_delete_query table_name c) (vals c)]"
  by (simp add: pg_delete_data_def action_defs conn_execute_def pg_delete_args_def split: sum.split)

lemma pg_count_records_calls:
  "table_name \<noteq> [] \<Longrightarrow> calls (snd (pg_count_records drv table_name c s))
   = calls (pg_connect s) @ [FetchVal (pg_count_query table_name c) (vals c)]"
  by (simp add: pg_count_records_def action_defs conn_fetchval_def pg_count_args_def split: sum.split)

lemma sqlite_delete_data_calls:
  "prefix (calls (sqlite_connect s) @ [Execute (sqlite_delete_query table_name c) (vals c)])
     (calls (snd (sqlite_delete_data drv table_name c s)))"
  by (simp add: sqlite_delete_data_def action_defs cursor_execute_def connection_commit_def
        sqlite_delete_args_def sqlite_close_def split: sum.split)

lemma sqlite_count_records_calls:
  "table_name \<noteq> [] \<Longrightarrow>
   prefix (calls (sqlite_connect s) @ [Execute (sqlite_count_query table_name c) (vals c)])
     (calls (snd (sqlite_count_records drv table_name c s)))"
  by (simp add: sqlite_count_records_def action_defs cursor_execute_def cursor_fetchval_def
        sqlite_count_args_def sqlite_close_def split: sum.split)

section \<open>Batches\<close>

lemma concat_range_from:
  "0 < k \<Longrightarrow> concat (map (\<lambda>i. take k (drop i xs)) (range_from i (length xs) k)) = drop i xs"
proof (induction i "length xs" k rule: range_from.induct)
  case (1 i step)
  show ?case
  proof (cases "length xs \<le> i")
    case True
    then show ?thesis by (subst range_from.simps) simp
  next
    case False
    with 1 have "concat (map (\<lambda>i. take step (drop i xs)) (range_from (i + step) (length xs) step))
                 = drop (i + step) xs" by simp
    moreover have "drop step (drop i xs) = drop (i + step) xs" by (simp add: add.commute)
    moreover have "take step (drop i xs) @ drop step (drop i xs) = drop i xs"
      by (rule append_take_drop_id)
    moreover from False 1(2)
    have "range_from i (length xs) step = i # range_from (i + step) (length xs) step"
      by (subst range_from.simps) simp
    ultimately show ?thesis by (simp del: drop_drop)
  qed
qed





section \<open>The calls of bulk insert and bulk update\<close>

lemma batches_pos:
  assumes "1 \<le> batch_size"
  shows "batches xs batch_size
         = Inr (map (\<lambda>i. take (nat batch_size) (drop i xs)) (range_from 0 (length xs) (nat batch_size)))"
  using assms by (simp add: batches_def py_range_def)

lemma concat_batches:
  assumes "1 \<le> batch_size" and "batches xs batch_size = Inr chunks"
  shows "concat chunks = xs"
proof -
  from assms(1) have "0 < nat batch_size" by simp
  from concat_range_from [OF this, of xs 0] assms show ?thesis by (simp add: batches_pos)
qed







lemma pg_update_batch_calls:
  "\<exists>s'. pg_update_batch drv table_name batch s = (Inr (), s')
        \<and> calls s' = calls s @ map (\<lambda>d. Execute (pg_update_query table_name d) (pg_update_args d)) batch
        \<and> pool s' = pool s"
proof (induction batch arbitrary: s)
  case Nil
  then show ?case by (simp add: return_def)
next
  case (Cons d batch)
  let ?call = "Execute (pg_update_query table_name d) (pg_update_args d)"
  obtain s1 where s1: "try_except
          (and_then (conn_execute drv (pg_update_query table_name d) (pg_update_args d)) (\<lambda>_. return ()))
          (\<lambda>e. logger_error (''Error updating records: '' @ str_exn e)) s = (Inr (), s1)"
    and c1: "calls s1 = calls s @ [?call]" and p1: "pool s1 = pool s"
    by (cases "drv_execute drv (calls s) (pg_update_query table_name d) (pg_update_args d)")
       (simp_all add: action_defs conn_execute_def)
  from Cons.IH [of s1] obtain s' where "pg_update_batch drv table_name batch s1 = (Inr (), s')"
    and "calls s' = calls s1 @ map (\<lambda>d. Execute (pg_update_query table_name d) (pg_update_args d)) batch"
    and "pool s' = pool s1" by blast
  with s1 c1 p1 show ?case by (simp add: and_then_def)
qed

lemma pg_update_batches_calls:
  "\<exists>s'. pg_update_batches drv table_name chunks s = (Inr (), s')
        \<and> calls s' = calls s @ map (\<lambda>d. Execute (pg_update_query table_name d) (pg_update_args d)) (concat chunks)
        \<and> pool s' = pool s"
proof (induction chunks arbitrary: s)
  case Nil
  then show ?case by (simp add: return_def)
next
  case (Cons chunk chunks)
  from pg_update_batch_calls [of drv table_name chunk s]
  obtain s1 where "pg_update_batch drv table_name chunk s = (Inr (), s1)"
    and "calls s1 = calls s @ map (\<lambda>d. Execute (pg_update_query table_name d) (pg_update_args d)) chunk"
    and "pool s1 = pool s" by blast
  moreover from Cons.IH [of s1] obtain s' where "pg_update_batches drv table_name chunks s1 = (Inr (), s')"
    and "calls s' = calls s1 @ map (\<lambda>d. Execute (pg_update_query table_name d) (pg_update_args d)) (concat chunks)"
    and "pool s' = pool s1" by blast
  ultimately show ?case by (simp add: and_then_def)
qed

lemma sqlite_update_batch_calls:
  "\<exists>s'. sqlite_update_batch drv table_name batch s = (Inr (), s')
        \<and> calls s' = calls s @ map (\<lambda>d. Execute (sqlite_update_query table_name d) (sqlite_update_args d)) batch
        \<and> connection s' = connection s"
proof (induction batch arbitrary: s)
  case Nil
  then show ?case by (simp add: return_def)
next
  case (Cons d batch)
  let ?call = "Execute (sqlite_update_query table_name d) (sqlite_update_args d)"
  obtain s1 where s1: "try_except
          (and_then (cursor_execute drv (sqlite_update_query table_name d) (sqlite_update_args d)) (\<lambda>_. return ()))
          (\<lambda>e. logger_error (''Error updating records: '' @ str_exn e)) s = (Inr (), s1)"
    and c1: "calls s1 = calls s @ [?call]" and p1: "connection s1 = connection s"
    by (cases "cur_execute drv (calls s) (sqlite_update_query table_name d) (sqlite_update_args d)")
       (simp_all add: action_defs cursor_execute_def)
  from Cons.IH [of s1] obtain s' where "sqlite_update_batch drv table_name batch s1 = (Inr (), s')"
    and "calls s' = calls s1 @ map (\<lambda>d. Execute (sqlite_update_query table_name d) (sqlite_update_args d)) batch"
    and "connection s' = connection s1" by blast
  with s1 c1 p1 show ?case by (simp add: and_then_def)
qed

lemma sqlite_update_batches_calls:
  "\<exists>s'. sqlite_update_batches drv table_name chunks s = (Inr (), s')
        \<and> calls s' = calls s @ map (\<lambda>d. Execute (sqlite_update_query table_name d) (sqlite_update_args d)) (concat chunks)
        \<and> connection s' = connection s"
proof (induction chunks arbitrary: s)
  case Nil
  then show ?case by (simp add: return_def)
next
  case (Cons chunk chunks)
  from sqlite_update_batch_calls [of drv table_name chunk s]
  obtain s1 where "sqlite_update_batch drv table_name chunk s = (Inr (), s1)"
    and "calls s1 = calls s @ map (\<lambda>d. Execute (sqlite_update_query table_name d) (sqlite_update_args d)) chunk"
    and "connection s1 = connection s" by blast
  moreover from Cons.IH [of s1] obtain s' where "sqlite_update_batches drv table_name chunks s1 = (Inr (), s')"
    and "calls s' = calls s1 @ map (\<lambda>d. Execute (sqlite_update_query table_name d) (sqlite_update_args d)) (concat chunks)"
    and "connection s' = connection s1" by blast
  ultimately show ?case by (simp add: and_then_def)
qed

lemma pool_pg_connect: "pool (pg_connect s) \<noteq> None"
  by (simp add: pg_connect_def)

lemma connection_sqlite_connect: "connection (sqlite_connect s) \<noteq> None"
  by (simp add: sqlite_connect_def)

lemma pg_mass_update_calls:
  assumes "1 \<le> batch_size"
  shows "fst (pg_mass_update drv table_name data_list batch_size s) = Inr ()"
    and "calls (snd (pg_mass_update drv table_name data_list batch_size s))
         = calls (pg_connect s)
           @ map (\<lambda>d. Execute (pg_update_query table_name d) (pg_update_args d)) data_list"
    and "pool (snd (pg_mass_update drv table_name data_list batch_size s)) \<noteq> None"
proof -
  obtain chunks where chunks: "batches data_list batch_size = Inr chunks"
    using batches_pos [OF assms] by blast
  with assms have cc: "concat chunks = data_list" by (rule concat_batches)
  from pg_update_batches_calls [of drv table_name chunks "pg_connect s"] cc
  obtain s' where "pg_update_batches drv table_name chunks (pg_connect s) = (Inr (), s')"
    and "calls s' = calls (pg_connect s)
           @ map (\<lambda>d. Execute (pg_update_query table_name d) (pg_update_args d)) data_list"
    and "pool s' = pool (pg_connect s)" by auto
  with chunks pool_pg_connect [of s]
  show "fst (pg_mass_update drv table_name data_list batch_size s) = Inr ()"
    and "calls (snd (pg_mass_update drv table_name data_list batch_size s))
         = calls (pg_connect s)
           @ map (\<lambda>d. Execute (pg_update_query table_name d) (pg_update_args d)) data_list"
    and "pool (snd (pg_mass_update drv table_name data_list batch_size s)) \<noteq> None"
    by (simp_all add: pg_mass_update_def)
qed

lemma sqlite_mass_update_calls:
  assumes "1 \<le> batch_size"
  shows "fst (sqlite_mass_update drv table_name data_list batch_size s) = Inr ()"
    and "calls (snd (sqlite_mass_update drv table_name data_list batch_size s))
         = calls (sqlite_connect s)
           @ map (\<lambda>d. Execute (sqlite_update_query table_name d) (sqlite_update_args d)) data_list
           @ [Commit, Close]"
    and "connection (snd (sqlite_mass_update drv table_name data_list batch_size s)) = None"
proof -
  obtain chunks where chunks: "batches data_list batch_size = Inr chunks"
    using batches_pos [OF assms] by blast
  with assms have cc: "concat chunks = data_list" by (rule concat_batches)
  from sqlite_update_batches_calls [of drv table_name chunks "sqlite_connect s"] cc
  obtain s' where "sqlite_update_batches drv table_name chunks (sqlite_connect s) = (Inr (), s')"
    and "calls s' = calls (sqlite_connect s)
           @ map (\<lambda>d. Execute (sqlite_update_query table_name d) (sqlite_update_args d)) data_list"
    and "connection s' = connection (sqlite_connect s)" by auto
  with chunks connection_sqlite_connect [of s]
  show "fst (sqlite_mass_update drv table_name data_list batch_size s) = Inr ()"
    and "calls (snd (sqlite_mass_update drv table_name data_list batch_size s))
         = calls (sqlite_connect s)
           @ map (\<lambda>d. Execute (sqlite_update_query table_name d) (sqlite_update_args d)) data_list
           @ [Commit, Close]"
    and "connection (snd (sqlite_mass_update drv table_name data_list batch_size s)) = None"
    by (simp_all add: sqlite_mass_update_def action_defs connection_commit_def sqlite_close_def
          split: sum.split)
qed




section \<open>The connection after an operation\<close>







lemma sqlite_delete_all_open:
  "connection (snd (sqlite_delete_all_data_from_table drv table_name s)) \<noteq> None"
  using connection_sqlite_connect [of s]
  by (simp add: sqlite_delete_all_data_from_table_def action_defs cursor_execute_def
        connection_commit_def split: sum.split)





section \<open>Failures of the driver\<close>

lemma pg_insert_batches_logged:
  "logged (snd (pg_insert_batches drv query columns chunks s)) = logged s"
proof (induction chunks arbitrary: s)
  case Nil
  then show ?case by (simp add: return_def)
next
  case (Cons chunk chunks)
  show ?case
  proof (cases "batch_values columns chunk")
    case (Inl e)
    then show ?thesis by (simp add: raise_def)
  next
    case (Inr rows)
    with Cons.IH [of "s\<lparr>calls := calls s @ [ExecuteMany query rows]\<rparr>"] show ?thesis
      by (simp add: and_then_def conn_executemany_def split: sum.split)
  qed
qed

lemma sqlite_insert_batches_logged:
  "logged (snd (sqlite_insert_batches drv query columns chunks s)) = logged s"
proof (induction chunks arbitrary: s)
  case Nil
  then show ?case by (simp add: return_def)
next
  case (Cons chunk chunks)
  show ?case
  proof (cases "batch_values columns chunk")
    case (Inl e)
    then show ?thesis by (simp add: raise_def)
  next
    case (Inr rows)
    with Cons.IH [of "s\<lparr>calls := calls s @ [ExecuteMany query rows]\<rparr>"] show ?thesis
      by (simp add: and_then_def cursor_executemany_def split: sum.split)
  qed
qed

lemma pg_insert_loop_logged:
  "logged (snd (pg_insert_loop drv query columns records batch_size s)) = logged s"
  by (simp add: pg_insert_loop_def pg_insert_batches_logged raise_def split: sum.split)

lemma sqlite_insert_loop_logged:
  "logged (snd (sqlite_insert_loop drv query columns records batch_size s)) = logged s"
  by (simp add: sqlite_insert_loop_def sqlite_insert_batches_logged raise_def split: sum.split)

lemma logged_pg_connect: "logged (pg_connect s) = logged s"
  by (simp add: pg_connect_def)

lemma logged_sqlite_connect: "logged (sqlite_connect s) = logged s"
  by (simp add: sqlite_connect_def)

lemma logged_sqlite_close: "logged (sqlite_close s) = logged s"
  by (simp add: sqlite_close_def)

lemma logged_pg_close: "logged (pg_close s) = logged s"
  by (simp add: pg_close_def)

lemma pg_create_tables_fails:
  assumes "drv_execute drv (calls (pg_connect s)) (create_table_query info) [] = Inl e"
  shows "fst (pg_create_tables drv info s) = Inr (''Error creating table: '' @ str_exn e)"
    and "logged (snd (pg_create_tables drv info s)) = logged s @ [Error (''Error creating table: '' @ str_exn e)]"
  using assms by (simp_all add: pg_create_tables_def action_defs conn_execute_def logged_pg_connect)

lemma pg_insert_fails:
  assumes "fst (pg_insert_loop drv (pg_insert_query table_name (first_columns records))
                  (first_columns records) records batch_size (pg_connect s)) = Inl e"
  shows "fst (pg_insert_into_table_bulk drv table_name records batch_size s)
         = Inr (''Error adding records: '' @ str_exn e)"
    and "logged (snd (pg_insert_into_table_bulk drv table_name records batch_size s))
         = logged s @ [Error (''Error adding records: '' @ str_exn e)]"
proof -
  let ?loop = "pg_insert_loop drv (pg_insert_query table_name (first_columns records))
                  (first_columns records) records batch_size (pg_connect s)"
  obtain r s1 where l: "?loop = (r, s1)" by (cases ?loop)
  with assms have r: "r = Inl e" by simp
  have "logged (snd ?loop) = logged (pg_connect s)" by (rule pg_insert_loop_logged)
  with l have "logged s1 = logged s" by (simp add: logged_pg_connect)
  with l r show "fst (pg_insert_into_table_bulk drv table_name records batch_size s)
         = Inr (''Error adding records: '' @ str_exn e)"
    and "logged (snd (pg_insert_into_table_bulk drv table_name records batch_size s))
         = logged s @ [Error (''Error adding records: '' @ str_exn e)]"
    by (simp_all add: pg_insert_into_table_bulk_def Let_def action_defs)
qed

lemma pg_insert_never_raises:
  "\<exists>r. fst (pg_insert_into_table_bulk drv table_name records batch_size s) = Inr r"
proof -
  let ?loop = "pg_insert_loop drv (pg_insert_query table_name (first_columns records))
                  (first_columns records) records batch_size (pg_connect s)"
  obtain r s1 where "?loop = (r, s1)" by (cases ?loop)
  then show ?thesis
    by (cases r) (simp_all add: pg_insert_into_table_bulk_def Let_def action_defs)
qed

lemma pg_delete_data_fails:
  assumes "drv_execute drv (calls (pg_connect s)) (pg_delete_query table_name c) (pg_delete_args c) = Inl e"
  shows "fst (pg_delete_data drv table_name c s) = Inr (''Error deleting data: '' @ str_exn e)"
    and "logged (snd (pg_delete_data drv table_name c s)) = logged s @ [Error (''Error deleting data: '' @ str_exn e)]"
  using assms by (simp_all add: pg_delete_data_def action_defs conn_execute_def logged_pg_connect)

lemma pg_delete_all_fails:
  assumes "drv_execute drv (calls (pg_connect s)) (''DELETE FROM '' @ table_name) [] = Inl e"
  shows "fst (pg_delete_all_data_from_table drv table_name s) = Inr ''error''"
    and "logged (snd (pg_delete_all_data_from_table drv table_name s))
         = logged s @ [Error (''Error deleting records: '' @ str_exn e)]"
  using assms by (simp_all add: pg_delete_all_data_from_table_def action_defs conn_execute_def logged_pg_connect)

lemma pg_select_data_fails:
  assumes "drv_fetch drv (calls (pg_connect s))
             (fst (pg_build_select_query table_name (get_find_data params) (get_where_conditions params) batch_size))
             (snd (pg_build_select_query table_name (get_find_data params) (get_where_conditions params) batch_size))
           = Inl e"
  shows "fst (pg_select_data drv table_name params batch_size s) = Inl e"
    and "logged (snd (pg_select_data drv table_name params batch_size s))
         = logged s @ [Error (''Error executing SELECT query: '' @ str_exn e)]"
proof -
  obtain query condition_values
    where b: "pg_build_select_query table_name (get_find_data params) (get_where_conditions params) batch_size
              = (query, condition_values)"
    by (cases "pg_build_select_query table_name (get_find_data params) (get_where_conditions params) batch_size")
  with assms show "fst (pg_select_data drv table_name params batch_size s) = Inl e"
    and "logged (snd (pg_select_data drv table_name params batch_size s))
         = logged s @ [Error (''Error executing SELECT query: '' @ str_exn e)]"
    by (simp_all add: pg_select_data_def action_defs conn_fetch_def logged_pg_connect logged_pg_close)
qed

lemma pg_count_records_fails:
  assumes "table_name \<noteq> []"
    and "drv_fetchval drv (calls (pg_connect s)) (pg_count_query table_name c) (pg_count_args c) = Inl e"
  shows "fst (pg_count_records drv table_name c s) = Inl e"
    and "logged (snd (pg_count_records drv table_name c s))
         = logged s @ [Error (''Error counting records: '' @ str_exn e)]"
  using assms by (simp_all add: pg_count_records_def action_defs conn_fetchval_def logged_pg_connect)

lemma sqlite_create_tables_fails:
  assumes "cur_execute drv (calls (sqlite_connect s)) (create_table_query info) [] = Inl e"
  shows "fst (sqlite_create_tables drv info s) = Inr (''Error creating table: '' @ str_exn e)"
    and "logged (snd (sqlite_create_tables drv info s)) = logged s @ [Error (''Error creating table: '' @ str_exn e)]"
  using assms
  by (simp_all add: sqlite_create_tables_def action_defs cursor_execute_def logged_sqlite_connect
        logged_sqlite_close)

lemma sqlite_insert_fails:
  assumes "fst (sqlite_insert_loop drv (sqlite_insert_query table_name (first_columns records))
                  (first_columns records) records batch_size (sqlite_connect s)) = Inl e"
  shows "fst (sqlite_insert_into_table_bulk drv table_name records batch_size s)
         = Inr (''Error adding records: '' @ str_exn e)"
    and "logged (snd (sqlite_insert_into_table_bulk drv table_name records batch_size s))
         = logged s @ [Error (''Error adding records: '' @ str_exn e)]"
proof -
  let ?loop = "sqlite_insert_loop drv (sqlite_insert_query table_name (first_columns records))
                  (first_columns records) records batch_size (sqlite_connect s)"
  obtain r s1 where l: "?loop = (r, s1)" by (cases ?loop)
  with assms have r: "r = Inl e" by simp
  have "logged (snd ?loop) = logged (sqlite_connect s)" by (rule sqlite_insert_loop_logged)
  with l have "logged s1 = logged s" by (simp add: logged_sqlite_connect)
  with l r show "fst (sqlite_insert_into_table_bulk drv table_name records batch_size s)
         = Inr (''Error adding records: '' @ str_exn e)"
    and "logged (snd (sqlite_insert_into_table_bulk drv table_name records batch_size s))
         = logged s @ [Error (''Error adding records: '' @ str_exn e)]"
    by (simp_all add: sqlite_insert_into_table_bulk_def Let_def action_defs logged_sqlite_close)
qed

lemma sqlite_insert_never_raises:
  "\<exists>r. fst (sqlite_insert_into_table_bulk drv table_name records batch_size s) = Inr r"
proof -
  let ?loop = "sqlite_insert_loop drv (sqlite_insert_query table_name (first_columns records))
                  (first_columns records) records batch_size (sqlite_connect s)"
  obtain r s1 where "?loop = (r, s1)" by (cases ?loop)
  then show ?thesis
    by (cases r)
       (simp_all add: sqlite_insert_into_table_bulk_def Let_def action_defs connection_commit_def
          split: sum.split)
qed

lemma sqlite_delete_data_fails:
  assumes "cur_execute drv (calls (sqlite_connect s)) (sqlite_delete_query table_name c) (sqlite_delete_args c) = Inl e"
  shows "fst (sqlite_delete_data drv table_name c s) = Inr (''Error deleting data: '' @ str_exn e)"
    and "logged (snd (sqlite_delete_data drv table_name c s)) = logged s @ [Error (''Error deleting data: '' @ str_exn e)]"
  using assms
  by (simp_all add: sqlite_delete_data_def action_defs cursor_execute_def logged_sqlite_connect
        logged_sqlite_close)

lemma sqlite_delete_all_fails:
  assumes "cur_execute drv (calls (sqlite_connect s)) (''DELETE FROM '' @ table_name) [] = Inl e"
  shows "fst (sqlite_delete_all_data_from_table drv table_name s) = Inr ''error''"
    and "logged (snd (sqlite_delete_all_data_from_table drv table_name s))
         = logged s @ [Error (''Error deleting records: '' @ str_exn e)]"
  using assms
  by (simp_all add: sqlite_delete_all_data_from_table_def action_defs cursor_execute_def
        logged_sqlite_connect)

lemma sqlite_select_data_fails:
  assumes "cur_execute drv (calls (sqlite_connect s))
             (fst (sqlite_build_select_query table_name (get_find_data params) (get_where_conditions params) batch_size))
             (snd (sqlite_build_select_query table_name (get_find_data params) (get_where_conditions params) batch_size))
           = Inl e"
  shows "fst (sqlite_select_data drv table_name params batch_size s) = Inl e"
    and "logged (snd (sqlite_select_data drv table_name params batch_size s))
         = logged s @ [Error (''Error executing SELECT query: '' @ str_exn e)]"
proof -
  obtain query condition_values
    where b: "sqlite_build_select_query table_name (get_find_data params) (get_where_conditions params) batch_size
              = (query, condition_values)"
    by (cases "sqlite_build_select_query table_name (get_find_data params) (get_where_conditions params) batch_size")
  with assms show "fst (sqlite_select_data drv table_name params batch_size s) = Inl e"
    and "logged (snd (sqlite_select_data drv table_name params batch_size s))
         = logged s @ [Error (''Error executing SELECT query: '' @ str_exn e)]"
    by (simp_all add: sqlite_select_data_def action_defs cursor_execute_def logged_sqlite_connect
          logged_sqlite_close)
qed

lemma sqlite_count_records_fails:
  assumes "table_name \<noteq> []"
    and "cur_execute drv (calls (sqlite_connect s)) (sqlite_count_query table_name c) (sqlite_count_args c) = Inl e"
  shows "fst (sqlite_count_records drv table_name c s) = Inl e"
    and "logged (snd (sqlite_count_records drv table_name c s))
         = logged s @ [Error (''Error counting records: '' @ str_exn e)]"
  using assms
  by (simp_all add: sqlite_count_records_def action_defs cursor_execute_def logged_sqlite_connect
        logged_sqlite_close)

section \<open>The placeholders of select\<close>

lemma emits_pg_select_clause_any:
  assumes "\<forall>k \<in> set (keys c). dollar_free k"
  shows "emits (pg_select_clause n c)
           (concat (map (\<lambda>(i, (col, value)). if value \<noteq> VNone then [n + i + 1] else [])
                        (List.enumerate 0 c)))"
proof -
  let ?f = "\<lambda>(i, (key, value)). if value \<noteq> VNone then key @ '' = $'' @ str_nat (n + i + 1)
                                   else key @ '' IS NULL''"
  let ?g = "\<lambda>(i :: nat, (col :: string, value)). if value \<noteq> VNone then [n + i + 1] else []"
  have "\<forall>x \<in> set (List.enumerate 0 c). emits (?f x) (?g x)"
  proof
    fix x assume x: "x \<in> set (List.enumerate 0 c)"
    obtain i col "value" where ik: "x = (i, (col, value))" by (cases x) auto
    with x have "i < length c" and "c ! i = (col, value)" by (simp_all add: in_set_enumerate_eq)
    then have "(col, value) \<in> set c" by (metis nth_mem)
    with assms have free: "dollar_free col" by (force simp: keys_def)
    show "emits (?f x) (?g x)"
    proof (cases "value = VNone")
      case True
      from free have "dollar_free (col @ '' IS NULL'')" by (simp add: dollar_free_def)
      then have "emits (col @ '' IS NULL'') []" by (rule emits_lit)
      with True ik show ?thesis by simp
    next
      case False
      from free have "emits (col @ '' = $'' @ str_nat (n + i + 1)) [n + i + 1]" by (rule emits_equality)
      with False ik show ?thesis by (simp only: prod.case if_True simp_thms)
    qed
  qed
  then have "emits (join '' AND '' (map ?f (List.enumerate 0 c))) (concat (map ?g (List.enumerate 0 c)))"
    by (intro emits_join) (simp_all add: dollar_free_def is_digit_def)
  then show ?thesis by (simp only: pg_select_clause_def)
qed

lemma select_numbers_all_null:
  "list_all (\<lambda>value. value = VNone) (vals c) \<Longrightarrow>
   concat (map (\<lambda>(i, (col, value)). if value \<noteq> VNone then [n + i + 1] else []) (List.enumerate m c)) = []"
  by (induction c arbitrary: m) (auto simp: vals_def)

lemma select_numbers_nulls_last:
  "nulls_last c \<Longrightarrow>
   concat (map (\<lambda>(i, (col, value)). if value \<noteq> VNone then [n + i + 1] else []) (List.enumerate m c))
   = [n + m + 1 ..< n + m + 1 + length (filter (\<lambda>value. value \<noteq> VNone) (vals c))]"
proof (induction c arbitrary: m)
  case Nil
  then show ?case by (simp add: vals_def)
next
  case (Cons kv c)
  obtain col "value" where kv: "kv = (col, value)" by (cases kv)
  show ?case
  proof (cases "value = VNone")
    case True
    with Cons.prems kv have all: "list_all (\<lambda>value. value = VNone) (vals (kv # c))"
      by (simp add: nulls_last_def vals_def)
    then have "filter (\<lambda>value. value \<noteq> VNone) (vals (kv # c)) = []"
      by (simp add: list_all_iff filter_empty_conv)
    with select_numbers_all_null [OF all, of n m] show ?thesis by simp
  next
    case False
    let ?g = "\<lambda>(i :: nat, (col :: string, value)). if value \<noteq> VNone then [n + i + 1] else []"
    let ?k = "length (filter (\<lambda>value. value \<noteq> VNone) (vals c))"
    from False Cons.prems kv have "nulls_last c" by (simp add: nulls_last_def vals_def)
    from Cons.IH [OF this, of "Suc m"]
    have IH: "concat (map ?g (List.enumerate (Suc m) c)) = [n + Suc m + 1 ..< n + Suc m + 1 + ?k]" .
    from False kv have lhs: "concat (map ?g (List.enumerate m (kv # c)))
                             = (n + m + 1) # concat (map ?g (List.enumerate (Suc m) c))" by simp
    from False kv have len: "length (filter (\<lambda>value. value \<noteq> VNone) (vals (kv # c))) = Suc ?k"
      by (simp add: vals_def)
    have e1: "n + Suc m + 1 = Suc (n + m + 1)" by simp
    have e2: "Suc (n + m + 1) + ?k = n + m + 1 + Suc ?k" by simp
    have u: "[n + m + 1 ..< n + m + 1 + Suc ?k] = (n + m + 1) # [Suc (n + m + 1) ..< n + m + 1 + Suc ?k]"
      by (rule upt_conv_Cons) simp
    show ?thesis by (simp only: lhs len IH e1 e2 u)
  qed
qed

lemma select_numbers_length:
  "length (concat (map (\<lambda>(i, (col, value)). if value \<noteq> VNone then [n + i + 1] else []) (List.enumerate m c)))
   = length (filter (\<lambda>value. value \<noteq> VNone) (vals c))"
  by (induction c arbitrary: m) (auto simp: vals_def)

lemma pg_where_loop_emits_nulls_last:
  assumes "\<forall>c \<in> set conds. nulls_last c \<and> (\<forall>k \<in> set (keys c). dollar_free k)"
    and "list_all2 emits wc nss" and "concat nss = [1 ..< 1 + length cv]"
  shows "\<exists>nss'. list_all2 emits (fst (pg_where_loop conds wc cv)) nss'
               \<and> concat nss' = [1 ..< 1 + length (snd (pg_where_loop conds wc cv))]"
  using assms
proof (induction conds arbitrary: wc cv nss)
  case Nil
  then show ?case by auto
next
  case (Cons c conds)
  show ?case
  proof (cases "c = []")
    case True
    with Cons.IH [of wc nss cv] Cons.prems show ?thesis by simp
  next
    case False
    let ?vs = "filter (\<lambda>value. value \<noteq> VNone) (vals c)"
    let ?ns = "[length cv + 1 ..< length cv + 1 + length ?vs]"
    from Cons.prems(1) have c: "nulls_last c" "\<forall>k \<in> set (keys c). dollar_free k" by simp_all
    from emits_pg_select_clause_any [OF c(2), of "length cv"] select_numbers_nulls_last [OF c(1), of "length cv" 0]
    have "emits (pg_select_clause (length cv) c) ?ns" by simp
    with Cons.prems(2) have 1: "list_all2 emits (wc @ [pg_select_clause (length cv) c]) (nss @ [?ns])"
      by (simp add: list_all2_appendI)
    have "[1 ..< 1 + length cv] @ ?ns = [1 ..< 1 + length cv + length ?vs]"
      using upt_add_eq_append [of 1 "1 + length cv" "length ?vs"] by (simp add: add.commute)
    with Cons.prems(3) have 2: "concat (nss @ [?ns]) = [1 ..< 1 + length (cv @ ?vs)]"
      by simp
    from Cons.prems(1) have "\<forall>c \<in> set conds. nulls_last c \<and> (\<forall>k \<in> set (keys c). dollar_free k)" by simp
    from Cons.IH [OF this 1 2] False show ?thesis by simp
  qed
qed

lemma pg_where_loop_emits_length:
  assumes "\<forall>c \<in> set conds. \<forall>k \<in> set (keys c). dollar_free k"
    and "list_all2 emits wc nss" and "length (concat nss) = length cv"
  shows "\<exists>nss'. list_all2 emits (fst (pg_where_loop conds wc cv)) nss'
               \<and> length (concat nss') = length (snd (pg_where_loop conds wc cv))"
  using assms
proof (induction conds arbitrary: wc cv nss)
  case Nil
  then show ?case by auto
next
  case (Cons c conds)
  show ?case
  proof (cases "c = []")
    case True
    with Cons.IH [of wc nss cv] Cons.prems show ?thesis by simp
  next
    case False
    let ?vs = "filter (\<lambda>value. value \<noteq> VNone) (vals c)"
    let ?ns = "concat (map (\<lambda>(i, (col, value)). if value \<noteq> VNone then [length cv + i + 1] else [])
                        (List.enumerate 0 c))"
    from Cons.prems(1) have c: "\<forall>k \<in> set (keys c). dollar_free k" by simp
    then have "emits (pg_select_clause (length cv) c) ?ns" by (rule emits_pg_select_clause_any)
    with Cons.prems(2) have 1: "list_all2 emits (wc @ [pg_select_clause (length cv) c]) (nss @ [?ns])"
      by (simp add: list_all2_appendI)
    from Cons.prems(3) have 2: "length (concat (nss @ [?ns])) = length (cv @ ?vs)"
      by (simp add: select_numbers_length)
    from Cons.prems(1) have "\<forall>c \<in> set conds. \<forall>k \<in> set (keys c). dollar_free k" by simp
    from Cons.IH [OF this 1 2] False show ?thesis by simp
  qed
qed

lemma emits_select_statement:
  assumes "dollar_free table_name" and "\<forall>col \<in> set find_data. dollar_free col"
    and "list_all2 emits (fst (pg_where_loop conds [] [])) nss"
  shows "placeholders (fst (pg_build_select_query table_name find_data conds batch_size)) = concat nss"
proof -
  obtain wc cv where loop: "pg_where_loop conds [] [] = (wc, cv)" by (cases "pg_where_loop conds [] []")
  with assms(3) have nss: "list_all2 emits wc nss" by simp
  let ?limit = "if batch_size = 0 then [] else '' LIMIT '' @ str_int batch_size"
  let ?tail = "if wc = [] then [] else '' WHERE '' @ or_join wc @ ?limit"
  have head: "dollar_free (select_head table_name find_data)"
    using assms(1,2) by (rule dollar_free_select_head)
  have "emits ?tail (concat nss)"
  proof (cases "wc = []")
    case True
    with nss show ?thesis by (simp add: emits_nil)
  next
    case False
    have "emits (or_join wc @ ?limit) (concat nss)"
    proof (cases "batch_size = 0")
      case True
      with emits_or_join [OF nss] show ?thesis by simp
    next
      case False
      have "dollar_free ('' LIMIT '' @ str_int batch_size)"
        using dollar_free_str_int [of batch_size] unfolding dollar_free_def by simp
      with emits_or_join [OF nss]
      have "emits (or_join wc @ '' LIMIT '' @ str_int batch_size) (concat nss)"
        by (rule emits_append_lit) (simp_all add: is_digit_def)
      with False show ?thesis by (simp only: if_False)
    qed
    then have "emits ('' WHERE '' @ or_join wc @ ?limit) (concat nss)"
      by (rule emits_lit_append [of "'' WHERE ''", rotated]) (simp add: dollar_free_def)
    with False show ?thesis by (simp only: if_False)
  qed
  with head have "emits (select_head table_name find_data @ ?tail) (concat nss)"
    by (rule emits_lit_append)
  then have "placeholders (select_head table_name find_data @ ?tail) = concat nss"
    by (rule emits_placeholders)
  then show ?thesis by (simp only: pg_build_select_query_shape loop prod.case fst_conv)
qed

lemma placeholders_select_nulls_last:
  assumes "dollar_free table_name" and "\<forall>col \<in> set find_data. dollar_free col"
    and "\<forall>c \<in> set conds. nulls_last c \<and> (\<forall>k \<in> set (keys c). dollar_free k)"
  shows "placeholders (fst (pg_build_select_query table_name find_data conds batch_size))
         = [1 ..< 1 + length (snd (pg_build_select_query table_name find_data conds batch_size))]"
proof -
  from pg_where_loop_emits_nulls_last [OF assms(3), of "[]" "[]" "[]"]
  obtain nss where nss: "list_all2 emits (fst (pg_where_loop conds [] [])) nss"
    and c: "concat nss = [1 ..< 1 + length (snd (pg_where_loop conds [] []))]" by auto
  have "snd (pg_build_select_query table_name find_data conds batch_size) = snd (pg_where_loop conds [] [])"
    by (simp add: pg_build_select_query_shape split: prod.split)
  with emits_select_statement [OF assms(1,2) nss, of batch_size] c show ?thesis by simp
qed

lemma placeholders_select_length:
  assumes "dollar_free table_name" and "\<forall>col \<in> set find_data. dollar_free col"
    and "\<forall>c \<in> set conds. \<forall>k \<in> set (keys c). dollar_free k"
  shows "length (placeholders (fst (pg_build_select_query table_name find_data conds batch_size)))
         = length (snd (pg_build_select_query table_name find_data conds batch_size))"
proof -
  from pg_where_loop_emits_length [OF assms(3), of "[]" "[]" "[]"]
  obtain nss where nss: "list_all2 emits (fst (pg_where_loop conds [] [])) nss"
    and c: "length (concat nss) = length (snd (pg_where_loop conds [] []))" by auto
  have "snd (pg_build_select_query table_name find_data conds batch_size) = snd (pg_where_loop conds [] [])"
    by (simp add: pg_build_select_query_shape split: prod.split)
  with emits_select_statement [OF assms(1,2) nss, of batch_size] c show ?thesis by simp
qed

section \<open>The exact text of select and delete\<close>

lemma filter_upt_Suc:
  "map f (filter P [0 ..< Suc n])
   = (if P 0 then [f 0] else []) @ map (\<lambda>j. f (Suc j)) (filter (\<lambda>j. P (Suc j)) [0 ..< n])"
proof -
  have "[0 ..< Suc n] = 0 # map Suc [0 ..< n]"
    by (simp only: upt_conv_Cons [OF zero_less_Suc] map_Suc_upt)
  then show ?thesis by (simp add: filter_map comp_def)
qed

lemma pg_where_loop_clauses:
  "fst (pg_where_loop conds wc cv)
   = wc @ map (\<lambda>j. pg_select_clause
                       (length cv + length (concat (map (\<lambda>c. filter (\<lambda>v. v \<noteq> VNone) (vals c)) (take j conds))))
                       (conds ! j))
              (filter (\<lambda>j. conds ! j \<noteq> []) [0 ..< length conds])"
proof (induction conds arbitrary: wc cv)
  case Nil
  then show ?case by simp
next
  case (Cons c conds)
  show ?case
  proof (cases "c = []")
    case True
    with Cons.IH [of wc cv] show ?thesis
      by (simp only: length_Cons filter_upt_Suc) (simp add: vals_def)
  next
    case False
    with Cons.IH [of "wc @ [pg_select_clause (length cv) c]" "cv @ filter (\<lambda>value. value \<noteq> VNone) (vals c)"]
    show ?thesis
      by (simp only: length_Cons filter_upt_Suc) (simp add: add.assoc)
  qed
qed

lemma sqlite_where_loop_clauses:
  "fst (sqlite_where_loop conds wc cv) = wc @ map sqlite_select_clause (filter (\<lambda>c. c \<noteq> []) conds)"
  by (induction conds arbitrary: wc cv) simp_all

lemma pg_delete_query_text:
  "pg_delete_query table_name c
   = ''DELETE FROM '' @ table_name
     @ (if c = [] then []
        else '' WHERE '' @ join '' AND ''
               (map (\<lambda>(i, (col, value)). col @ '' = $'' @ str_nat (i + 1)) (List.enumerate 0 c)))"
  by (simp add: pg_delete_query_def pg_where_columns_all)

lemma sqlite_delete_query_text:
  "sqlite_delete_query table_name c
   = ''DELETE FROM '' @ table_name
     @ (if c = [] then [] else '' WHERE '' @ join '' AND '' (map (\<lambda>(col, value). col @ '' = ?'') c))"
  by (simp add: sqlite_delete_query_def sqlite_where_columns_all)

lemma qmarks_append [simp]: "qmarks (s @ t) = qmarks s + qmarks t"
  by (simp add: qmarks_def)

lemma qmarks_join: "qmarks sep = 0 \<Longrightarrow> qmarks (join sep xs) = sum_list (map qmarks xs)"
  by (induction sep xs rule: join.induct) (simp_all add: qmarks_def)

lemma qmarks_str_nat: "qmarks (str_nat n) = 0"
proof -
  have "CHR ''?'' \<notin> set (str_nat n)"
    using str_nat_digits [of n] by (auto simp: is_digit_def)
  then show ?thesis by (simp add: qmarks_def)
qed

lemma qmarks_str_int: "qmarks (str_int i) = 0"
  using qmarks_str_nat by (simp add: str_int_def qmarks_def)

lemma qmarks_sqlite_select_clause:
  assumes "\<forall>k \<in> set (keys c). qmarks k = 0"
  shows "qmarks (sqlite_select_clause c) = length (filter (\<lambda>v. v \<noteq> VNone) (vals c))"
proof -
  have "sum_list (map qmarks (map (\<lambda>(key, value). if value \<noteq> VNone then key @ '' = ?'' else key @ '' IS NULL'') c))
        = length (filter (\<lambda>v. v \<noteq> VNone) (vals c))"
    using assms by (induction c) (auto simp: keys_def vals_def qmarks_def)
  moreover have "qmarks '' AND '' = 0" by (simp add: qmarks_def)
  ultimately show ?thesis by (simp add: sqlite_select_clause_def qmarks_join)
qed

lemma qmarks_or_join: "qmarks (or_join wc) = sum_list (map qmarks wc)"
proof -
  have "qmarks '' OR '' = 0" by (simp add: qmarks_def)
  then have "qmarks (or_join wc) = sum_list (map qmarks (map (\<lambda>clause. ''('' @ clause @ '')'') wc))"
    unfolding or_join_def by (rule qmarks_join)
  also have "\<dots> = sum_list (map qmarks wc)"
    by (induction wc) (simp_all add: qmarks_def)
  finally show ?thesis .
qed

lemma qmarks_sqlite_clauses:
  assumes "\<forall>c \<in> set conds. \<forall>k \<in> set (keys c). qmarks k = 0"
  shows "sum_list (map qmarks (map sqlite_select_clause (filter (\<lambda>c. c \<noteq> []) conds)))
         = length (concat (map (\<lambda>c. filter (\<lambda>v. v \<noteq> VNone) (vals c)) conds))"
  using assms
proof (induction conds)
  case Nil
  then show ?case by simp
next
  case (Cons c conds)
  then show ?case by (cases "c = []") (simp_all add: qmarks_sqlite_select_clause vals_def)
qed

lemma qmarks_select_head:
  assumes "qmarks table_name = 0" and "\<forall>col \<in> set find_data. qmarks col = 0"
  shows "qmarks (select_head table_name find_data) = 0"
proof -
  have "qmarks '', '' = 0" by (simp add: qmarks_def)
  then have "qmarks (join '', '' find_data) = sum_list (map qmarks find_data)" by (rule qmarks_join)
  also from assms(2) have "\<dots> = 0" by (induction find_data) simp_all
  finally show ?thesis using assms(1) by (simp add: select_head_def) (simp add: qmarks_def)
qed

lemma qmarks_sqlite_build_select_query:
  assumes "qmarks table_name = 0" and "\<forall>col \<in> set find_data. qmarks col = 0"
    and "\<forall>c \<in> set conds. \<forall>k \<in> set (keys c). qmarks k = 0"
  shows "qmarks (fst (sqlite_build_select_query table_name find_data conds batch_size))
         = length (snd (sqlite_build_select_query table_name find_data conds batch_size))"
proof -
  let ?wc = "fst (sqlite_where_loop conds [] [])"
  have wc: "sum_list (map qmarks ?wc) = length (concat (map (\<lambda>c. filter (\<lambda>v. v \<noteq> VNone) (vals c)) conds))"
    using qmarks_sqlite_clauses [OF assms(3)] by (simp add: sqlite_where_loop_clauses)
  have lit: "qmarks '' WHERE '' = 0" "qmarks '' LIMIT '' = 0" by (simp_all add: qmarks_def)
  show ?thesis
  proof (cases "\<forall>c \<in> set conds. c = []")
    case True
    then have "concat (map (\<lambda>c. filter (\<lambda>v. v \<noteq> VNone) (vals c)) conds) = []"
      by (auto simp: vals_def)
    with True qmarks_select_head [OF assms(1,2)] show ?thesis
      by (simp add: fst_sqlite_build_select_query snd_sqlite_build_select_query)
  next
    case False
    let ?limit = "if batch_size = 0 then [] else '' LIMIT '' @ str_int batch_size"
    from False have q: "fst (sqlite_build_select_query table_name find_data conds batch_size)
        = select_head table_name find_data @ '' WHERE '' @ or_join ?wc @ ?limit"
      by (simp only: fst_sqlite_build_select_query if_False)
    have "qmarks ('' LIMIT '' @ str_int batch_size) = 0"
      by (simp only: qmarks_append lit qmarks_str_int)
    then have limit: "qmarks ?limit = 0" by (simp add: qmarks_def)
    have "qmarks (select_head table_name find_data @ '' WHERE '' @ or_join ?wc @ ?limit)
          = length (concat (map (\<lambda>c. filter (\<lambda>v. v \<noteq> VNone) (vals c)) conds))"
      by (simp only: qmarks_append qmarks_select_head [OF assms(1,2)] lit limit qmarks_or_join wc)
    then show ?thesis by (simp only: q snd_sqlite_build_select_query)
  qed
qed

lemma pg_select_text:
  "fst (pg_build_select_query table_name find_data conds batch_size)
     = ''SELECT '' @ join '', '' find_data @ '' FROM '' @ table_name
       @ (if \<forall>c \<in> set conds. c = [] then []
          else '' WHERE '' @ join '' OR ''
                 (map (\<lambda>j. ''('' @ join '' AND ''
                         (map (\<lambda>(i, (col, value)).
                                 if value \<noteq> VNone
                                 then col @ '' = $'' @ str_nat
                                        (length (concat (map (\<lambda>c. filter (\<lambda>v. v \<noteq> VNone) (vals c))
                                                             (take j conds))) + i + 1)
                                 else col @ '' IS NULL'')
                              (List.enumerate 0 (conds ! j))) @ '')'')
                      (filter (\<lambda>j. conds ! j \<noteq> []) [0 ..< length conds]))
               @ (if batch_size = 0 then [] else '' LIMIT '' @ str_int batch_size))"
  using pg_where_loop_clauses [of conds "[]" "[]"]
  by (simp add: fst_pg_build_select_query select_head_def or_join_def pg_select_clause_def comp_def)

lemma sqlite_select_text:
  "fst (sqlite_build_select_query table_name find_data conds batch_size)
     = ''SELECT '' @ join '', '' find_data @ '' FROM '' @ table_name
       @ (if \<forall>c \<in> set conds. c = [] then []
          else '' WHERE '' @ join '' OR ''
                 (map (\<lambda>c. ''('' @ join '' AND ''
                         (map (\<lambda>(col, value). if value \<noteq> VNone then col @ '' = ?'' else col @ '' IS NULL'') c)
                         @ '')'')
                      (filter (\<lambda>c. c \<noteq> []) conds))
               @ (if batch_size = 0 then [] else '' LIMIT '' @ str_int batch_size))"
  using sqlite_where_loop_clauses [of conds "[]" "[]"]
  by (simp add: fst_sqlite_build_select_query select_head_def or_join_def sqlite_select_clause_def comp_def)

section \<open>Runs of bulk insert that end early\<close>





lemma pg_insert_batches_stops:
  assumes "j < length chunks"
    and "list_all2 (\<lambda>chunk r. batch_values columns chunk = Inr r) (take j chunks) rs"
    and "\<forall>i<j. drv_executemany drv (calls s @ map (ExecuteMany query) (take i rs)) query (rs ! i) = Inr ()"
  shows "batch_values columns (chunks ! j) = Inl e \<Longrightarrow>
           pg_insert_batches drv query columns chunks s
           = (Inl e, s\<lparr>calls := calls s @ map (ExecuteMany query) rs\<rparr>)"
    and "batch_values columns (chunks ! j) = Inr r \<Longrightarrow>
         drv_executemany drv (calls s @ map (ExecuteMany query) rs) query r = Inl e \<Longrightarrow>
           pg_insert_batches drv query columns chunks s
           = (Inl e, s\<lparr>calls := calls s @ map (ExecuteMany query) (rs @ [r])\<rparr>)"
  using assms
proof (induction j arbitrary: chunks rs s)
  case 0
  { case 1
    then obtain c cs where "chunks = c # cs" by (cases chunks) auto
    with 1 show ?case by (simp add: raise_def) }
  { case 2
    then obtain c cs where "chunks = c # cs" by (cases chunks) auto
    with 2 show ?case by (simp add: and_then_def conn_executemany_def) }
next
  case (Suc j)
  { case 1
    then obtain c cs where chunks: "chunks = c # cs" by (cases chunks) auto
    with 1(3) obtain r0 rs' where rs: "rs = r0 # rs'" and r0: "batch_values columns c = Inr r0"
      and rest: "list_all2 (\<lambda>chunk r. batch_values columns chunk = Inr r) (take j cs) rs'"
      by (auto simp: list_all2_Cons1)
    let ?s1 = "s\<lparr>calls := calls s @ [ExecuteMany query r0]\<rparr>"
    from 1(4) rs have first: "drv_executemany drv (calls s) query r0 = Inr ()" by force
    have acc: "\<forall>i<j. drv_executemany drv (calls ?s1 @ map (ExecuteMany query) (take i rs')) query (rs' ! i) = Inr ()"
    proof (intro allI impI)
      fix i assume "i < j"
      with 1(4) [rule_format, of "Suc i"] rs
      show "drv_executemany drv (calls ?s1 @ map (ExecuteMany query) (take i rs')) query (rs' ! i) = Inr ()"
        by simp
    qed
    from 1(1,2) chunks have "batch_values columns (cs ! j) = Inl e" and "j < length cs" by simp_all
    from Suc.IH(1) [OF this(1) this(2) rest acc] chunks r0 first rs show ?case
      by (simp add: and_then_def conn_executemany_def) }
  { case 2
    then obtain c cs where chunks: "chunks = c # cs" by (cases chunks) auto
    with 2(4) obtain r0 rs' where rs: "rs = r0 # rs'" and r0: "batch_values columns c = Inr r0"
      and rest: "list_all2 (\<lambda>chunk r. batch_values columns chunk = Inr r) (take j cs) rs'"
      by (auto simp: list_all2_Cons1)
    let ?s1 = "s\<lparr>calls := calls s @ [ExecuteMany query r0]\<rparr>"
    from 2(5) rs have first: "drv_executemany drv (calls s) query r0 = Inr ()" by force
    have acc: "\<forall>i<j. drv_executemany drv (calls ?s1 @ map (ExecuteMany query) (take i rs')) query (rs' ! i) = Inr ()"
    proof (intro allI impI)
      fix i assume "i < j"
      with 2(5) [rule_format, of "Suc i"] rs
      show "drv_executemany drv (calls ?s1 @ map (ExecuteMany query) (take i rs')) query (rs' ! i) = Inr ()"
        by simp
    qed
    from 2(1,3) chunks have nth: "batch_values columns (cs ! j) = Inr r" and len: "j < length cs" by simp_all
    from 2(2) rs have "drv_executemany drv (calls ?s1 @ map (ExecuteMany query) rs') query r = Inl e" by simp
    from Suc.IH(2) [OF nth this len rest acc] chunks r0 first rs show ?case
      by (simp add: and_then_def conn_executemany_def) }
qed

lemma sqlite_insert_batches_stops:
  assumes "j < length chunks"
    and "list_all2 (\<lambda>chunk r. batch_values columns chunk = Inr r) (take j chunks) rs"
    and "\<forall>i<j. cur_executemany drv (calls s @ map (ExecuteMany query) (take i rs)) query (rs ! i) = Inr ()"
  shows "batch_values columns (chunks ! j) = Inl e \<Longrightarrow>
           sqlite_insert_batches drv query columns chunks s
           = (Inl e, s\<lparr>calls := calls s @ map (ExecuteMany query) rs\<rparr>)"
    and "batch_values columns (chunks ! j) = Inr r \<Longrightarrow>
         cur_executemany drv (calls s @ map (ExecuteMany query) rs) query r = Inl e \<Longrightarrow>
           sqlite_insert_batches drv query columns chunks s
           = (Inl e, s\<lparr>calls := calls s @ map (ExecuteMany query) (rs @ [r])\<rparr>)"
  using assms
proof (induction j arbitrary: chunks rs s)
  case 0
  { case 1
    then obtain c cs where "chunks = c # cs" by (cases chunks) auto
    with 1 show ?case by (simp add: raise_def) }
  { case 2
    then obtain c cs where "chunks = c # cs" by (cases chunks) auto
    with 2 show ?case by (simp add: and_then_def cursor_executemany_def) }
next
  case (Suc j)
  { case 1
    then obtain c cs where chunks: "chunks = c # cs" by (cases chunks) auto
    with 1(3) obtain r0 rs' where rs: "rs = r0 # rs'" and r0: "batch_values columns c = Inr r0"
      and rest: "list_all2 (\<lambda>chunk r. batch_values columns chunk = Inr r) (take j cs) rs'"
      by (auto simp: list_all2_Cons1)
    let ?s1 = "s\<lparr>calls := calls s @ [ExecuteMany query r0]\<rparr>"
    from 1(4) rs have first: "cur_executemany drv (calls s) query r0 = Inr ()" by force
    have acc: "\<forall>i<j. cur_executemany drv (calls ?s1 @ map (ExecuteMany query) (take i rs')) query (rs' ! i) = Inr ()"
    proof (intro allI impI)
      fix i assume "i < j"
      with 1(4) [rule_format, of "Suc i"] rs
      show "cur_executemany drv (calls ?s1 @ map (ExecuteMany query) (take i rs')) query (rs' ! i) = Inr ()"
        by simp
    qed
    from 1(1,2) chunks have "batch_values columns (cs ! j) = Inl e" and "j < length cs" by simp_all
    from Suc.IH(1) [OF this(1) this(2) rest acc] chunks r0 first rs show ?case
      by (simp add: and_then_def cursor_executemany_def) }
  { case 2
    then obtain c cs where chunks: "chunks = c # cs" by (cases chunks) auto
    with 2(4) obtain r0 rs' where rs: "rs = r0 # rs'" and r0: "batch_values columns c = Inr r0"
      and rest: "list_all2 (\<lambda>chunk r. batch_values columns chunk = Inr r) (take j cs) rs'"
      by (auto simp: list_all2_Cons1)
    let ?s1 = "s\<lparr>calls := calls s @ [ExecuteMany query r0]\<rparr>"
    from 2(5) rs have first: "cur_executemany drv (calls s) query r0 = Inr ()" by force
    have acc: "\<forall>i<j. cur_executemany drv (calls ?s1 @ map (ExecuteMany query) (take i rs')) query (rs' ! i) = Inr ()"
    proof (intro allI impI)
      fix i assume "i < j"
      with 2(5) [rule_format, of "Suc i"] rs
      show "cur_executemany drv (calls ?s1 @ map (ExecuteMany query) (take i rs')) query (rs' ! i) = Inr ()"
        by simp
    qed
    from 2(1,3) chunks have nth: "batch_values columns (cs ! j) = Inr r" and len: "j < length cs" by simp_all
    from 2(2) rs have "cur_executemany drv (calls ?s1 @ map (ExecuteMany query) rs') query r = Inl e" by simp
    from Suc.IH(2) [OF nth this len rest acc] chunks r0 first rs show ?case
      by (simp add: and_then_def cursor_executemany_def) }
qed

lemma pg_insert_stops:
  assumes "batches records batch_size = Inr chunks" and "j < length chunks"
    and "list_all2 (\<lambda>chunk r. batch_values (first_columns records) chunk = Inr r) (take j chunks) rs"
    and "\<forall>i<j. drv_executemany drv
                  (calls (pg_connect s)
                     @ map (ExecuteMany (pg_insert_query table_name (first_columns records))) (take i rs))
                  (pg_insert_query table_name (first_columns records)) (rs ! i) = Inr ()"
  shows "batch_values (first_columns records) (chunks ! j) = Inl e \<Longrightarrow>
           fst (pg_insert_into_table_bulk drv table_name records batch_size s)
             = Inr (''Error adding records: '' @ str_exn e)
         \<and> logged (snd (pg_insert_into_table_bulk drv table_name records batch_size s))
             = logged s @ [Error (''Error adding records: '' @ str_exn e)]
         \<and> calls (snd (pg_insert_into_table_bulk drv table_name records batch_size s))
             = calls (pg_connect s)
               @ map (ExecuteMany (pg_insert_query table_name (first_columns records))) rs"
    and "batch_values (first_columns records) (chunks ! j) = Inr r \<Longrightarrow>
         drv_executemany drv
           (calls (pg_connect s) @ map (ExecuteMany (pg_insert_query table_name (first_columns records))) rs)
           (pg_insert_query table_name (first_columns records)) r = Inl e \<Longrightarrow>
           fst (pg_insert_into_table_bulk drv table_name records batch_size s)
             = Inr (''Error adding records: '' @ str_exn e)
         \<and> logged (snd (pg_insert_into_table_bulk drv table_name records batch_size s))
             = logged s @ [Error (''Error adding records: '' @ str_exn e)]
         \<and> calls (snd (pg_insert_into_table_bulk drv table_name records batch_size s))
             = calls (pg_connect s)
               @ map (ExecuteMany (pg_insert_query table_name (first_columns records))) (rs @ [r])"
proof -
  let ?q = "pg_insert_query table_name (first_columns records)"
  { assume "batch_values (first_columns records) (chunks ! j) = Inl e"
    from pg_insert_batches_stops(1) [OF assms(2,3,4) this] assms(1)
    show "fst (pg_insert_into_table_bulk drv table_name records batch_size s)
             = Inr (''Error adding records: '' @ str_exn e)
         \<and> logged (snd (pg_insert_into_table_bulk drv table_name records batch_size s))
             = logged s @ [Error (''Error adding records: '' @ str_exn e)]
         \<and> calls (snd (pg_insert_into_table_bulk drv table_name records batch_size s))
             = calls (pg_connect s) @ map (ExecuteMany ?q) rs"
      by (simp add: pg_insert_into_table_bulk_def pg_insert_loop_def Let_def action_defs
            logged_pg_connect) }
  { assume "batch_values (first_columns records) (chunks ! j) = Inr r"
      and "drv_executemany drv (calls (pg_connect s) @ map (ExecuteMany ?q) rs) ?q r = Inl e"
    from pg_insert_batches_stops(2) [OF assms(2,3,4) this] assms(1)
    show "fst (pg_insert_into_table_bulk drv table_name records batch_size s)
             = Inr (''Error adding records: '' @ str_exn e)
         \<and> logged (snd (pg_insert_into_table_bulk drv table_name records batch_size s))
             = logged s @ [Error (''Error adding records: '' @ str_exn e)]
         \<and> calls (snd (pg_insert_into_table_bulk drv table_name records batch_size s))
             = calls (pg_connect s) @ map (ExecuteMany ?q) (rs @ [r])"
      by (simp add: pg_insert_into_table_bulk_def pg_insert_loop_def Let_def action_defs
            logged_pg_connect) }
qed

lemma sqlite_insert_stops:
  assumes "batches records batch_size = Inr chunks" and "j < length chunks"
    and "list_all2 (\<lambda>chunk r. batch_values (first_columns records) chunk = Inr r) (take j chunks) rs"
    and "\<forall>i<j. cur_executemany drv
                  (calls (sqlite_connect s)
                     @ map (ExecuteMany (sqlite_insert_query table_name (first_columns records))) (take i rs))
                  (sqlite_insert_query table_name (first_columns records)) (rs ! i) = Inr ()"
  shows "batch_values (first_columns records) (chunks ! j) = Inl e \<Longrightarrow>
           fst (sqlite_insert_into_table_bulk drv table_name records batch_size s)
             = Inr (''Error adding records: '' @ str_exn e)
         \<and> logged (snd (sqlite_insert_into_table_bulk drv table_name records batch_size s))
             = logged s @ [Error (''Error adding records: '' @ str_exn e)]
         \<and> calls (snd (sqlite_insert_into_table_bulk drv table_name records batch_size s))
             = calls (sqlite_connect s)
               @ map (ExecuteMany (sqlite_insert_query table_name (first_columns records))) rs @ [Close]"
    and "batch_values (first_columns records) (chunks ! j) = Inr r \<Longrightarrow>
         cur_executemany drv
           (calls (sqlite_connect s) @ map (ExecuteMany (sqlite_insert_query table_name (first_columns records))) rs)
           (sqlite_insert_query table_name (first_columns records)) r = Inl e \<Longrightarrow>
           fst (sqlite_insert_into_table_bulk drv table_name records batch_size s)
             = Inr (''Error adding records: '' @ str_exn e)
         \<and> logged (snd (sqlite_insert_into_table_bulk drv table_name records batch_size s))
             = logged s @ [Error (''Error adding records: '' @ str_exn e)]
         \<and> calls (snd (sqlite_insert_into_table_bulk drv table_name records batch_size s))
             = calls (sqlite_connect s)
               @ map (ExecuteMany (sqlite_insert_query table_name (first_columns records))) (rs @ [r])
               @ [Close]"
proof -
  let ?q = "sqlite_insert_query table_name (first_columns records)"
  { assume "batch_values (first_columns records) (chunks ! j) = Inl e"
    from sqlite_insert_batches_stops(1) [OF assms(2,3,4) this] assms(1) connection_sqlite_connect [of s]
    show "fst (sqlite_insert_into_table_bulk drv table_name records batch_size s)
             = Inr (''Error adding records: '' @ str_exn e)
         \<and> logged (snd (sqlite_insert_into_table_bulk drv table_name records batch_size s))
             = logged s @ [Error (''Error adding records: '' @ str_exn e)]
         \<and> calls (snd (sqlite_insert_into_table_bulk drv table_name records batch_size s))
             = calls (sqlite_connect s) @ map (ExecuteMany ?q) rs @ [Close]"
      by (simp add: sqlite_insert_into_table_bulk_def sqlite_insert_loop_def Let_def action_defs
            logged_sqlite_connect sqlite_close_def) }
  { assume "batch_values (first_columns records) (chunks ! j) = Inr r"
      and "cur_executemany drv (calls (sqlite_connect s) @ map (ExecuteMany ?q) rs) ?q r = Inl e"
    from sqlite_insert_batches_stops(2) [OF assms(2,3,4) this] assms(1) connection_sqlite_connect [of s]
    show "fst (sqlite_insert_into_table_bulk drv table_name records batch_size s)
             = Inr (''Error adding records: '' @ str_exn e)
         \<and> logged (snd (sqlite_insert_into_table_bulk drv table_name records batch_size s))
             = logged s @ [Error (''Error adding records: '' @ str_exn e)]
         \<and> calls (snd (sqlite_insert_into_table_bulk drv table_name records batch_size s))
             = calls (sqlite_connect s) @ map (ExecuteMany ?q) (rs @ [r]) @ [Close]"
      by (simp add: sqlite_insert_into_table_bulk_def sqlite_insert_loop_def Let_def action_defs
            logged_sqlite_connect sqlite_close_def) }
qed

section \<open>Claim C1: the values bound to a WHERE predicate\<close>

text \<open>
  C1, as amended. For select, on both backends, the bound values are exactly the non-null
  values of the Conditions, Condition by Condition and column by column in iteration
  order, and none of them is null. The statement of select is given in full: a non-null
  column is rendered as an equality with a placeholder and a null-valued column as
  \<^verbatim>\<open>column IS NULL\<close> and nothing else, so that (for names without \<^verbatim>\<open>$\<close>, without
  \<^verbatim>\<open>?\<close>) the statement carries as many placeholders as values are bound. Delete and
  count have no null handling in what they bind: their statements, given in full, carry an
  equality with a placeholder for every column of the Condition, null-valued or not, and
  the call they make on the driver passes every value of the Condition, in iteration
  order, nulls included.
\<close>

theorem where_bound_values:
  "snd (pg_build_select_query table_name find_data conds batch_size)
     = concat (map (\<lambda>c. filter (\<lambda>v. v \<noteq> VNone) (vals c)) conds)
   \<and> snd (sqlite_build_select_query table_name find_data conds batch_size)
     = concat (map (\<lambda>c. filter (\<lambda>v. v \<noteq> VNone) (vals c)) conds)
   \<and> VNone \<notin> set (snd (pg_build_select_query table_name find_data conds batch_size))
   \<and> VNone \<notin> set (snd (sqlite_build_select_query table_name find_data conds batch_size))
   \<and> fst (pg_build_select_query table_name find_data conds batch_size)
     = ''SELECT '' @ join '', '' find_data @ '' FROM '' @ table_name
       @ (if \<forall>c \<in> set conds. c = [] then []
          else '' WHERE '' @ join '' OR ''
                 (map (\<lambda>j. ''('' @ join '' AND ''
                         (map (\<lambda>(i, (col, value)).
                                 if value \<noteq> VNone
                                 then col @ '' = $'' @ str_nat
                                        (length (concat (map (\<lambda>c. filter (\<lambda>v. v \<noteq> VNone) (vals c))
                                                             (take j conds))) + i + 1)
                                 else col @ '' IS NULL'')
                              (List.enumerate 0 (conds ! j))) @ '')'')
                      (filter (\<lambda>j. conds ! j \<noteq> []) [0 ..< length conds]))
               @ (if batch_size = 0 then [] else '' LIMIT '' @ str_int batch_size))
   \<and> fst (sqlite_build_select_query table_name find_data conds batch_size)
     = ''SELECT '' @ join '', '' find_data @ '' FROM '' @ table_name
       @ (if \<forall>c \<in> set conds. c = [] then []
          else '' WHERE '' @ join '' OR ''
                 (map (\<lambda>c. ''('' @ join '' AND ''
                         (map (\<lambda>(col, value). if value \<noteq> VNone then col @ '' = ?'' else col @ '' IS NULL'') c)
                         @ '')'')
                      (filter (\<lambda>c. c \<noteq> []) conds))
               @ (if batch_size = 0 then [] else '' LIMIT '' @ str_int batch_size))
   \<and> (dollar_free table_name \<and> (\<forall>col \<in> set find_data. dollar_free col)
        \<and> (\<forall>c \<in> set conds. \<forall>k \<in> set (keys c). dollar_free k) \<longrightarrow>
         length (placeholders (fst (pg_build_select_query table_name find_data conds batch_size)))
         = length (snd (pg_build_select_query table_name find_data conds batch_size)))
   \<and> (qmarks table_name = 0 \<and> (\<forall>col \<in> set find_data. qmarks col = 0)
        \<and> (\<forall>c \<in> set conds. \<forall>k \<in> set (keys c). qmarks k = 0) \<longrightarrow>
         qmarks (fst (sqlite_build_select_query table_name find_data conds batch_size))
         = length (snd (sqlite_build_select_query table_name find_data conds batch_size)))
   \<and> (\<forall>c \<in> set conds. \<forall>col. (col, VNone) \<in> set c \<longrightarrow>
         sublist (col @ '' IS NULL'') (fst (pg_build_select_query table_name find_data conds batch_size))
       \<and> sublist (col @ '' IS NULL'') (fst (sqlite_build_select_query table_name find_data conds batch_size)))
   \<and> pg_delete_query table_name c
     = ''DELETE FROM '' @ table_name
       @ (if c = [] then []
          else '' WHERE '' @ join '' AND ''
                 (map (\<lambda>(i, (col, value)). col @ '' = $'' @ str_nat (i + 1)) (List.enumerate 0 c)))
   \<and> sqlite_delete_query table_name c
     = ''DELETE FROM '' @ table_name
       @ (if c = [] then [] else '' WHERE '' @ join '' AND '' (map (\<lambda>(col, value). col @ '' = ?'') c))
   \<and> pg_count_query table_name c
     = ''SELECT COUNT(*) FROM '' @ table_name
       @ (if c = [] then []
          else '' WHERE '' @ join '' AND ''
                 (map (\<lambda>(i, (col, value)). col @ '' = $'' @ str_nat (i + 1)) (List.enumerate 0 c)))
       @ (case List.find (\<lambda>(col, value). value = VNone) c of
            None \<Rightarrow> [] | Some (col, _) \<Rightarrow> '' OR '' @ col @ '' IS NULL'')
   \<and> sqlite_count_query table_name c
     = ''SELECT COUNT(*) FROM '' @ table_name
       @ (if c = [] then []
          else '' WHERE '' @ join '' AND '' (map (\<lambda>(col, value). col @ '' = ?'') c))
       @ (case List.find (\<lambda>(col, value). value = VNone) c of
            None \<Rightarrow> [] | Some (col, _) \<Rightarrow> '' OR '' @ col @ '' IS NULL'')
   \<and> calls (snd (pg_delete_data drv table_name c s))
     = calls (pg_connect s) @ [Execute (pg_delete_query table_name c) (vals c)]
   \<and> prefix (calls (sqlite_connect s') @ [Execute (sqlite_delete_query table_name c) (vals c)])
        (calls (snd (sqlite_delete_data drv' table_name c s')))
   \<and> (table_name \<noteq> [] \<longrightarrow>
         calls (snd (pg_count_records drv table_name c s))
         = calls (pg_connect s) @ [FetchVal (pg_count_query table_name c) (vals c)]
       \<and> prefix (calls (sqlite_connect s') @ [Execute (sqlite_count_query table_name c) (vals c)])
           (calls (snd (sqlite_count_records drv' table_name c s'))))
   \<and> pg_where_columns c
       = map (\<lambda>(i, (col, value)). col @ '' = $'' @ str_nat (i + 1)) (List.enumerate 0 c)
   \<and> sqlite_where_columns c = map (\<lambda>(col, value). col @ '' = ?'') c"
proof -
  let ?bound = "concat (map (\<lambda>c. filter (\<lambda>v. v \<noteq> VNone) (vals c)) conds)"
  have none: "VNone \<notin> set ?bound" by auto
  have count: "dollar_free table_name \<and> (\<forall>col \<in> set find_data. dollar_free col)
        \<and> (\<forall>c \<in> set conds. \<forall>k \<in> set (keys c). dollar_free k) \<longrightarrow>
         length (placeholders (fst (pg_build_select_query table_name find_data conds batch_size)))
         = length (snd (pg_build_select_query table_name find_data conds batch_size))"
    using placeholders_select_length [of table_name find_data conds batch_size] by blast
  have qcount: "qmarks table_name = 0 \<and> (\<forall>col \<in> set find_data. qmarks col = 0)
        \<and> (\<forall>c \<in> set conds. \<forall>k \<in> set (keys c). qmarks k = 0) \<longrightarrow>
         qmarks (fst (sqlite_build_select_query table_name find_data conds batch_size))
         = length (snd (sqlite_build_select_query table_name find_data conds batch_size))"
    using qmarks_sqlite_build_select_query [of table_name find_data conds batch_size] by blast
  have nulls: "\<forall>c \<in> set conds. \<forall>col. (col, VNone) \<in> set c \<longrightarrow>
         sublist (col @ '' IS NULL'') (fst (pg_build_select_query table_name find_data conds batch_size))
       \<and> sublist (col @ '' IS NULL'') (fst (sqlite_build_select_query table_name find_data conds batch_size))"
    using null_column_in_select by blast
  have pg_count: "pg_count_query table_name c
     = ''SELECT COUNT(*) FROM '' @ table_name
       @ (if c = [] then []
          else '' WHERE '' @ join '' AND ''
                 (map (\<lambda>(i, (col, value)). col @ '' = $'' @ str_nat (i + 1)) (List.enumerate 0 c)))
       @ (case List.find (\<lambda>(col, value). value = VNone) c of
            None \<Rightarrow> [] | Some (col, _) \<Rightarrow> '' OR '' @ col @ '' IS NULL'')"
  proof -
    have "pg_count_query table_name c
       = (''SELECT COUNT(*) FROM '' @ table_name
         @ (if c = [] then [] else '' WHERE '' @ join '' AND '' (pg_where_columns c)))
         @ (case null_col c of [] \<Rightarrow> [] | col # _ \<Rightarrow> '' OR '' @ col @ '' IS NULL'')"
      by (simp add: pg_count_query_shape)
    then show ?thesis by (simp only: null_col_find pg_where_columns_all append_assoc)
  qed
  have sqlite_count: "sqlite_count_query table_name c
     = ''SELECT COUNT(*) FROM '' @ table_name
       @ (if c = [] then []
          else '' WHERE '' @ join '' AND '' (map (\<lambda>(col, value). col @ '' = ?'') c))
       @ (case List.find (\<lambda>(col, value). value = VNone) c of
            None \<Rightarrow> [] | Some (col, _) \<Rightarrow> '' OR '' @ col @ '' IS NULL'')"
  proof -
    have "sqlite_count_query table_name c
       = (''SELECT COUNT(*) FROM '' @ table_name
         @ (if c = [] then [] else '' WHERE '' @ join '' AND '' (sqlite_where_columns c)))
         @ (case null_col c of [] \<Rightarrow> [] | col # _ \<Rightarrow> '' OR '' @ col @ '' IS NULL'')"
      by (simp add: sqlite_count_query_shape)
    then show ?thesis by (simp only: null_col_find sqlite_where_columns_all append_assoc)
  qed
  have counts: "table_name \<noteq> [] \<longrightarrow>
         calls (snd (pg_count_records drv table_name c s))
         = calls (pg_connect s) @ [FetchVal (pg_count_query table_name c) (vals c)]
       \<and> prefix (calls (sqlite_connect s') @ [Execute (sqlite_count_query table_name c) (vals c)])
           (calls (snd (sqlite_count_records drv' table_name c s')))"
    using sqlite_count_records_calls by (simp add: pg_count_records_calls)
  note sel = snd_pg_build_select_query [of table_name find_data conds batch_size]
    snd_sqlite_build_select_query [of table_name find_data conds batch_size]
  show ?thesis
    apply (intro conjI)
                    apply (rule sel(1))
                   apply (rule sel(2))
                  apply (simp only: sel none not_False_eq_True)
                 apply (simp only: sel none not_False_eq_True)
                apply (rule pg_select_text)
               apply (rule sqlite_select_text)
              apply (rule count)
             apply (rule qcount)
            apply (rule nulls)
           apply (rule pg_delete_query_text)
          apply (rule sqlite_delete_query_text)
         apply (rule pg_count)
        apply (rule sqlite_count)
       apply (rule pg_delete_data_calls)
      apply (rule sqlite_delete_data_calls)
     apply (rule counts)
    apply (rule pg_where_columns_all)
    apply (rule sqlite_where_columns_all)
    done
qed

text \<open>
  The theorem on a ConditionSet with a null column and on a count over a fresh handler.
\<close>

theorem where_bound_values_witness:
  "snd (pg_build_select_query ''t'' [''*''] [[(''a'', VInt 1), (''b'', VNone)], [(''c'', VStr ''x'')]] 5) = [VInt 1, VStr ''x'']
   \<and> snd (sqlite_build_select_query ''t'' [''*''] [[(''a'', VInt 1), (''b'', VNone)], [(''c'', VStr ''x'')]] 5) = [VInt 1, VStr ''x'']
   \<and> fst (pg_build_select_query ''t'' [''*''] [[(''a'', VInt 1), (''b'', VNone)], [(''c'', VStr ''x'')]] 5)
     = ''SELECT * FROM t WHERE (a = $1 AND b IS NULL) OR (c = $2) LIMIT 5''
   \<and> fst (sqlite_build_select_query ''t'' [''*''] [[(''a'', VInt 1), (''b'', VNone)], [(''c'', VStr ''x'')]] 5)
     = ''SELECT * FROM t WHERE (a = ? AND b IS NULL) OR (c = ?) LIMIT 5''
   \<and> length (placeholders (fst (pg_build_select_query ''t'' [''*''] [[(''a'', VInt 1), (''b'', VNone)], [(''c'', VStr ''x'')]] 5))) = 2
   \<and> qmarks (fst (sqlite_build_select_query ''t'' [''*''] [[(''a'', VInt 1), (''b'', VNone)], [(''c'', VStr ''x'')]] 5)) = 2
   \<and> sublist ''b IS NULL'' (fst (pg_build_select_query ''t'' [''*''] [[(''a'', VInt 1), (''b'', VNone)], [(''c'', VStr ''x'')]] 5))
   \<and> pg_delete_query ''t'' [(''a'', VInt 1), (''b'', VNone)] = ''DELETE FROM t WHERE a = $1 AND b = $2''
   \<and> sqlite_delete_query ''t'' [(''a'', VInt 1), (''b'', VNone)] = ''DELETE FROM t WHERE a = ? AND b = ?''
   \<and> pg_count_query ''t'' [(''a'', VInt 1), (''b'', VNone)] = ''SELECT COUNT(*) FROM t WHERE a = $1 AND b = $2 OR b IS NULL''
   \<and> calls (snd (pg_count_records pg_accepting ''t'' [(''a'', VInt 1), (''b'', VNone)] pg_fresh))
     = [Connect ''postgresql://db'', FetchVal (pg_count_query ''t'' [(''a'', VInt 1), (''b'', VNone)]) [VInt 1, VNone]]
   \<and> prefix [Connect ''test.db'', Execute (sqlite_count_query ''t'' [(''a'', VInt 1), (''b'', VNone)]) [VInt 1, VNone]]
        (calls (snd (sqlite_count_records sqlite_accepting ''t'' [(''a'', VInt 1), (''b'', VNone)] sqlite_fresh)))"
proof -
  note w = where_bound_values [of "''t''" "[''*'']" "[[(''a'', VInt 1), (''b'', VNone)], [(''c'', VStr ''x'')]]" 5
      "[(''a'', VInt 1), (''b'', VNone)]" pg_accepting pg_fresh sqlite_fresh sqlite_accepting]
  have 1: "snd (pg_build_select_query ''t'' [''*''] [[(''a'', VInt 1), (''b'', VNone)], [(''c'', VStr ''x'')]] 5) = [VInt 1, VStr ''x'']"
    using w [THEN conjunct1] by (simp add: vals_def)
  have 2: "snd (sqlite_build_select_query ''t'' [''*''] [[(''a'', VInt 1), (''b'', VNone)], [(''c'', VStr ''x'')]] 5) = [VInt 1, VStr ''x'']"
    using w [THEN conjunct2, THEN conjunct1] by (simp add: vals_def)
  have 3: "fst (pg_build_select_query ''t'' [''*''] [[(''a'', VInt 1), (''b'', VNone)], [(''c'', VStr ''x'')]] 5)
     = ''SELECT * FROM t WHERE (a = $1 AND b IS NULL) OR (c = $2) LIMIT 5''"
    using w [THEN conjunct2, THEN conjunct2, THEN conjunct2, THEN conjunct2, THEN conjunct1] by (simp add: vals_def enumerate_eq_zip str_nat.simps str_int_def digit_char_def upt_rec)
  have 4: "fst (sqlite_build_select_query ''t'' [''*''] [[(''a'', VInt 1), (''b'', VNone)], [(''c'', VStr ''x'')]] 5)
     = ''SELECT * FROM t WHERE (a = ? AND b IS NULL) OR (c = ?) LIMIT 5''"
    using w [THEN conjunct2, THEN conjunct2, THEN conjunct2, THEN conjunct2, THEN conjunct2, THEN conjunct1] by (simp add: str_int_def str_nat.simps digit_char_def)
  have 5: "length (placeholders (fst (pg_build_select_query ''t'' [''*''] [[(''a'', VInt 1), (''b'', VNone)], [(''c'', VStr ''x'')]] 5))) = 2"
    using w [THEN conjunct2, THEN conjunct2, THEN conjunct2, THEN conjunct2, THEN conjunct2, THEN conjunct2, THEN conjunct1] by (simp add: 1 dollar_free_def keys_def)
  have 6: "qmarks (fst (sqlite_build_select_query ''t'' [''*''] [[(''a'', VInt 1), (''b'', VNone)], [(''c'', VStr ''x'')]] 5)) = 2"
    using w [THEN conjunct2, THEN conjunct2, THEN conjunct2, THEN conjunct2, THEN conjunct2, THEN conjunct2, THEN conjunct2, THEN conjunct1] by (simp add: 2 qmarks_def keys_def)
  have 7: "sublist ''b IS NULL'' (fst (pg_build_select_query ''t'' [''*''] [[(''a'', VInt 1), (''b'', VNone)], [(''c'', VStr ''x'')]] 5))"
    using w [THEN conjunct2, THEN conjunct2, THEN conjunct2, THEN conjunct2, THEN conjunct2, THEN conjunct2, THEN conjunct2, THEN conjunct2, THEN conjunct1] by simp
  have 8: "pg_delete_query ''t'' [(''a'', VInt 1), (''b'', VNone)] = ''DELETE FROM t WHERE a = $1 AND b = $2''"
    using w [THEN conjunct2, THEN conjunct2, THEN conjunct2, THEN conjunct2, THEN conjunct2, THEN conjunct2, THEN conjunct2, THEN conjunct2, THEN conjunct2, THEN conjunct1] by (simp add: enumerate_eq_zip str_nat.simps digit_char_def)
  have 9: "sqlite_delete_query ''t'' [(''a'', VInt 1), (''b'', VNone)] = ''DELETE FROM t WHERE a = ? AND b = ?''"
    using w [THEN conjunct2, THEN conjunct2, THEN conjunct2, THEN conjunct2, THEN conjunct2, THEN conjunct2, THEN conjunct2, THEN conjunct2, THEN conjunct2, THEN conjunct2, THEN conjunct1] by simp
  have 10: "pg_count_query ''t'' [(''a'', VInt 1), (''b'', VNone)] = ''SELECT COUNT(*) FROM t WHERE a = $1 AND b = $2 OR b IS NULL''"
    using w [THEN conjunct2, THEN conjunct2, THEN conjunct2, THEN conjunct2, THEN conjunct2, THEN conjunct2, THEN conjunct2, THEN conjunct2, THEN conjunct2, THEN conjunct2, THEN conjunct2, THEN conjunct1] by (simp add: enumerate_eq_zip str_nat.simps digit_char_def)
  have 11: "calls (snd (pg_count_records pg_accepting ''t'' [(''a'', VInt 1), (''b'', VNone)] pg_fresh))
     = [Connect ''postgresql://db'', FetchVal (pg_count_query ''t'' [(''a'', VInt 1), (''b'', VNone)]) [VInt 1, VNone]]"
    and 12: "prefix [Connect ''test.db'', Execute (sqlite_count_query ''t'' [(''a'', VInt 1), (''b'', VNone)]) [VInt 1, VNone]]
        (calls (snd (sqlite_count_records sqlite_accepting ''t'' [(''a'', VInt 1), (''b'', VNone)] sqlite_fresh)))"
    using w [THEN conjunct2, THEN conjunct2, THEN conjunct2, THEN conjunct2, THEN conjunct2, THEN conjunct2, THEN conjunct2, THEN conjunct2, THEN conjunct2, THEN conjunct2, THEN conjunct2, THEN conjunct2, THEN conjunct2, THEN conjunct2, THEN conjunct2, THEN conjunct1] by (simp_all add: vals_def pg_fresh_def sqlite_fresh_def pg_connect_def sqlite_connect_def)
  from 1 2 3 4 5 6 7 8 9 10 11 12 show ?thesis by (intro conjI)
qed

text \<open>
  The claim as stated fails for delete and count: \<^verbatim>\<open>{'name': None}\<close> is rendered
  \<^verbatim>\<open>name = $1\<close> (\<^verbatim>\<open>name = ?\<close>) and the null is among the bound values.
\<close>

theorem where_bound_values_counterexample:
  "pg_delete_query ''t'' [(''name'', VNone)] = ''DELETE FROM t WHERE name = $1''
   \<and> VNone \<in> set (pg_delete_args [(''name'', VNone)])
   \<and> sqlite_delete_query ''t'' [(''name'', VNone)] = ''DELETE FROM t WHERE name = ?''
   \<and> VNone \<in> set (sqlite_delete_args [(''name'', VNone)])
   \<and> VNone \<in> set (pg_count_args [(''name'', VNone)])
   \<and> VNone \<in> set (sqlite_count_args [(''name'', VNone)])"
  by (simp add: pg_delete_query_def sqlite_delete_query_def pg_where_columns_def sqlite_where_columns_def
        keys_def vals_def pg_delete_args_def sqlite_delete_args_def pg_count_args_def
        sqlite_count_args_def Let_def enumerate_eq_zip str_nat.simps digit_char_def)

section \<open>Claim C2: numbering of the placeholders\<close>

text \<open>
  C2, as amended. On the pooled backend, for names without a \<^verbatim>\<open>$\<close>: the statement
  of delete and the statement of count carry the placeholders \<open>$1, \<dots>, $n\<close> from left to
  right, one for each column of the Condition, and \<open>n\<close> values are bound; the statement
  of select does so for a ConditionSet in which no null-valued column comes before a
  non-null column of the same Condition, \<open>n\<close> being the number of bound values (the
  non-null ones). The statement of bulk update uses every index from 1 to \<open>w + u\<close> once,
  but not in increasing order: its SET clause, which comes first, carries
  \<open>$(w+1), \<dots>, $(w+u)\<close> and its WHERE clause \<open>$1, \<dots>, $w\<close>, where \<open>w\<close> and \<open>u\<close>
  count the columns of \<^verbatim>\<open>where\<close> and of \<^verbatim>\<open>update\<close>; the bound values are the
  \<^verbatim>\<open>where\<close> values followed by the \<^verbatim>\<open>update\<close> values, so \<open>$i\<close> still names the
  \<open>i\<close>-th of them.
\<close>

theorem pg_placeholders_numbering:
  assumes "dollar_free table_name"
    and "\<forall>k \<in> set (keys c). dollar_free k"
    and "\<forall>k \<in> set (keys (where_dict d)). dollar_free k"
    and "\<forall>k \<in> set (keys (update_dict d)). dollar_free k"
    and "\<forall>col \<in> set find_data. dollar_free col"
    and "\<forall>c \<in> set conds. nulls_last c \<and> (\<forall>k \<in> set (keys c). dollar_free k)"
  shows "placeholders (pg_delete_query table_name c) = [1 ..< 1 + length (pg_delete_args c)]
       \<and> placeholders (pg_count_query table_name c) = [1 ..< 1 + length (pg_count_args c)]
       \<and> placeholders (fst (pg_build_select_query table_name find_data conds batch_size))
           = [1 ..< 1 + length (snd (pg_build_select_query table_name find_data conds batch_size))]
       \<and> placeholders (pg_update_query table_name d)
           = [length (where_dict d) + 1 ..< length (where_dict d) + 1 + length (update_dict d)]
             @ [1 ..< 1 + length (where_dict d)]
       \<and> pg_update_args d = vals (where_dict d) @ vals (update_dict d)
       \<and> length (pg_update_args d) = length (where_dict d) + length (update_dict d)"
proof -
  have "placeholders (pg_delete_query table_name c) = [1 ..< 1 + length (pg_delete_args c)]"
    using placeholders_pg_delete_query [OF assms(1,2)] by (simp add: pg_delete_args_def vals_def)
  moreover have "placeholders (pg_count_query table_name c) = [1 ..< 1 + length (pg_count_args c)]"
    using placeholders_pg_count_query [OF assms(1,2)] by (simp add: pg_count_args_def vals_def)
  moreover note placeholders_select_nulls_last [OF assms(1,5,6), of batch_size]
  moreover note placeholders_pg_update_query [OF assms(1,3,4)]
  moreover have "pg_update_args d = vals (where_dict d) @ vals (update_dict d)"
    by (simp add: pg_update_args_def)
  moreover have "length (pg_update_args d) = length (where_dict d) + length (update_dict d)"
    by (simp add: pg_update_args_def vals_def)
  ultimately show ?thesis by blast
qed

text \<open>
  The theorem at a concrete table, Condition and UpdateSpec, and at a ConditionSet whose
  first Condition ends in a null column.
\<close>

theorem pg_placeholders_numbering_witness:
  "placeholders (pg_delete_query ''t'' [(''a'', VInt 1), (''b'', VNone)]) = [1, 2]
   \<and> placeholders (pg_count_query ''t'' [(''a'', VInt 1), (''b'', VNone)]) = [1, 2]
   \<and> placeholders (fst (pg_build_select_query ''t'' [''a'', ''b'']
                           [[(''age'', VInt 30), (''city'', VStr ''New York''), (''name'', VNone)], [], [(''c'', VInt 3)]] 5)) = [1, 2, 3]
   \<and> snd (pg_build_select_query ''t'' [''a'', ''b'']
                           [[(''age'', VInt 30), (''city'', VStr ''New York''), (''name'', VNone)], [], [(''c'', VInt 3)]] 5)
       = [VInt 30, VStr ''New York'', VInt 3]
   \<and> placeholders (pg_update_query ''t''
         \<lparr>where_dict = [(''id'', VInt 1)], update_dict = [(''name'', VStr ''John''), (''age'', VInt 25)]\<rparr>)
       = [2, 3, 1]"
  using pg_placeholders_numbering [of "''t''" "[(''a'', VInt 1), (''b'', VNone)]"
      "\<lparr>where_dict = [(''id'', VInt 1)], update_dict = [(''name'', VStr ''John''), (''age'', VInt 25)]\<rparr>"
      "[''a'', ''b'']" "[[(''age'', VInt 30), (''city'', VStr ''New York''), (''name'', VNone)], [], [(''c'', VInt 3)]]" 5]
  by (simp add: dollar_free_def keys_def vals_def nulls_last_def pg_delete_args_def pg_count_args_def
        pg_build_select_query_def Let_def upt_rec)

text \<open>
  The claim as stated fails twice. A null column before a non-null one leaves a gap in
  the statement of select: \<^verbatim>\<open>{'a': None, 'b': 1}\<close> gives
  \<^verbatim>\<open>(a IS NULL AND b = $2)\<close> with the single bound value \<^verbatim>\<open>1\<close>. And the
  statement of bulk update reads \<^verbatim>\<open>SET name = $2 WHERE id = $1\<close>: the indices
  decrease from left to right.
\<close>

theorem pg_placeholders_numbering_counterexample:
  "placeholders (fst (pg_build_select_query ''t'' [''*''] [[(''a'', VNone), (''b'', VInt 1)]] 5)) = [2]
   \<and> snd (pg_build_select_query ''t'' [''*''] [[(''a'', VNone), (''b'', VInt 1)]] 5) = [VInt 1]
   \<and> placeholders (pg_update_query ''t''
         \<lparr>where_dict = [(''id'', VInt 1)], update_dict = [(''name'', VStr ''John'')]\<rparr>) = [2, 1]"
  by (simp add: pg_build_select_query_def pg_select_clause_def select_head_def or_join_def
        pg_update_query_def pg_where_columns_def keys_def vals_def Let_def enumerate_eq_zip
        str_nat.simps str_int_def digit_char_def is_digit_def nat_of_digits_def)

section \<open>Claim C3: the order of the values of bulk update\<close>

text \<open>
  C3, as amended. For a batch size of at least one, bulk update executes one statement for
  each UpdateSpec, in the order of the list, whether or not earlier statements failed. On
  the embedded backend the bound values are the \<^verbatim>\<open>update\<close> values followed by the
  \<^verbatim>\<open>where\<close> values, in the order of the positional placeholders of SET and WHERE. On
  the pooled backend it is the other way round: the \<^verbatim>\<open>where\<close> values are bound first,
  to \<open>$1, \<dots>, $w\<close> in the WHERE clause, and the \<^verbatim>\<open>update\<close> values after them, to
  \<open>$(w+1), \<dots>\<close> in the SET clause.
\<close>

theorem mass_update_bound_values:
  assumes "1 \<le> batch_size"
  shows "calls (snd (pg_mass_update drv table_name data_list batch_size s))
         = calls (pg_connect s)
           @ map (\<lambda>d. Execute (pg_update_query table_name d) (vals (where_dict d) @ vals (update_dict d)))
               data_list
       \<and> calls (snd (sqlite_mass_update drv' table_name data_list batch_size s'))
         = calls (sqlite_connect s')
           @ map (\<lambda>d. Execute (sqlite_update_query table_name d) (vals (update_dict d) @ vals (where_dict d)))
               data_list
           @ [Commit, Close]
       \<and> pg_update_query table_name d
         = ''UPDATE '' @ table_name @ '' SET ''
           @ join '', '' (map (\<lambda>(i, k). k @ '' = $'' @ str_nat (length (where_dict d) + i + 1))
                            (List.enumerate 0 (keys (update_dict d))))
           @ '' WHERE ''
           @ join '' AND '' (map (\<lambda>(i, k). k @ '' = $'' @ str_nat (i + 1))
                               (List.enumerate 0 (keys (where_dict d))))
       \<and> sqlite_update_query table_name d
         = ''UPDATE '' @ table_name @ '' SET ''
           @ join '', '' (map (\<lambda>k. k @ '' = ?'') (keys (update_dict d)))
           @ '' WHERE ''
           @ join '' AND '' (map (\<lambda>k. k @ '' = ?'') (keys (where_dict d)))"
proof -
  have 1: "calls (snd (pg_mass_update drv table_name data_list batch_size s))
         = calls (pg_connect s)
           @ map (\<lambda>d. Execute (pg_update_query table_name d) (vals (where_dict d) @ vals (update_dict d)))
               data_list"
    using pg_mass_update_calls(2) [OF assms, of drv table_name data_list s]
    by (simp add: pg_update_args_def)
  have 2: "calls (snd (sqlite_mass_update drv' table_name data_list batch_size s'))
         = calls (sqlite_connect s')
           @ map (\<lambda>d. Execute (sqlite_update_query table_name d) (vals (update_dict d) @ vals (where_dict d)))
               data_list
           @ [Commit, Close]"
    using sqlite_mass_update_calls(2) [OF assms, of drv' table_name data_list s']
    by (simp add: sqlite_update_args_def)
  show ?thesis
    by (intro conjI 1 2)
       (simp_all add: pg_update_query_def sqlite_update_query_def pg_where_columns_def
          sqlite_where_columns_def Let_def)
qed

text \<open>
  The theorem on two UpdateSpecs, with drivers that reject every statement.
\<close>

theorem mass_update_bound_values_witness:
  "calls (snd (pg_mass_update pg_rejecting ''t''
       [\<lparr>where_dict = [(''id'', VInt 1)], update_dict = [(''name'', VStr ''John''), (''age'', VInt 25)]\<rparr>,
        \<lparr>where_dict = [(''id'', VInt 2)], update_dict = [(''name'', VStr ''Jane''), (''age'', VInt 30)]\<rparr>]
       1 pg_fresh))
     = [Connect ''postgresql://db'',
        Execute ''UPDATE t SET name = $2, age = $3 WHERE id = $1'' [VInt 1, VStr ''John'', VInt 25],
        Execute ''UPDATE t SET name = $2, age = $3 WHERE id = $1'' [VInt 2, VStr ''Jane'', VInt 30]]
   \<and> calls (snd (sqlite_mass_update sqlite_rejecting ''t''
       [\<lparr>where_dict = [(''id'', VInt 1)], update_dict = [(''name'', VStr ''John''), (''age'', VInt 25)]\<rparr>,
        \<lparr>where_dict = [(''id'', VInt 2)], update_dict = [(''name'', VStr ''Jane''), (''age'', VInt 30)]\<rparr>]
       1 sqlite_fresh))
     = [Connect ''test.db'',
        Execute ''UPDATE t SET name = ?, age = ? WHERE id = ?'' [VStr ''John'', VInt 25, VInt 1],
        Execute ''UPDATE t SET name = ?, age = ? WHERE id = ?'' [VStr ''Jane'', VInt 30, VInt 2],
        Commit, Close]"
  using mass_update_bound_values [of 1 pg_rejecting "''t''"
       "[\<lparr>where_dict = [(''id'', VInt 1)], update_dict = [(''name'', VStr ''John''), (''age'', VInt 25)]\<rparr>,
        \<lparr>where_dict = [(''id'', VInt 2)], update_dict = [(''name'', VStr ''Jane''), (''age'', VInt 30)]\<rparr>]"
       pg_fresh sqlite_rejecting sqlite_fresh]
  by (simp add: pg_update_query_def sqlite_update_query_def pg_where_columns_def sqlite_where_columns_def
        keys_def vals_def Let_def enumerate_eq_zip str_nat.simps digit_char_def
        pg_fresh_def sqlite_fresh_def pg_connect_def sqlite_connect_def)

text \<open>
  The claim as stated fails on the pooled backend: for
  \<^verbatim>\<open>{'where': {'id': 1}, 'update': {'name': 'John'}}\<close> the SET placeholder is
  \<^verbatim>\<open>$2\<close>, not \<^verbatim>\<open>$1\<close>, and the executed values are the WHERE value followed by the
  SET value.
\<close>

theorem mass_update_bound_values_counterexample:
  "pg_update_query ''t'' \<lparr>where_dict = [(''id'', VInt 1)], update_dict = [(''name'', VStr ''John'')]\<rparr>
     = ''UPDATE t SET name = $2 WHERE id = $1''
   \<and> pg_update_args \<lparr>where_dict = [(''id'', VInt 1)], update_dict = [(''name'', VStr ''John'')]\<rparr>
     = [VInt 1, VStr ''John'']
   \<and> calls (snd (pg_mass_update pg_accepting ''t''
         [\<lparr>where_dict = [(''id'', VInt 1)], update_dict = [(''name'', VStr ''John'')]\<rparr>] 1000 pg_fresh))
     = [Connect ''postgresql://db'', Execute ''UPDATE t SET name = $2 WHERE id = $1'' [VInt 1, VStr ''John'']]"
  by (simp add: pg_update_query_def pg_update_args_def pg_where_columns_def keys_def vals_def Let_def
        enumerate_eq_zip str_nat.simps digit_char_def pg_mass_update_def batches_def py_range_def
        range_from.simps action_defs conn_execute_def pg_accepting_def pg_fresh_def pg_connect_def)

section \<open>Claim C4: batches\<close>




section \<open>Claim C5: the statement of count\<close>

text \<open>
  C5, as amended. On both backends count builds \<^verbatim>\<open>SELECT COUNT(*) FROM <table>\<close>; for
  a non-empty Condition it adds a WHERE clause that AND-joins an equality with a
  placeholder for every column of the Condition, the null-valued ones included; and when
  some column is null it appends \<^verbatim>\<open>OR <column> IS NULL\<close>, without parentheses, for
  the first null-valued column in iteration order and for no other.
\<close>

theorem count_query_text:
  "pg_count_query table_name c
     = ''SELECT COUNT(*) FROM '' @ table_name
       @ (if c = [] then []
          else '' WHERE '' @ join '' AND ''
                 (map (\<lambda>(i, (col, value)). col @ '' = $'' @ str_nat (i + 1)) (List.enumerate 0 c)))
       @ (case List.find (\<lambda>(col, value). value = VNone) c of
            None \<Rightarrow> [] | Some (col, _) \<Rightarrow> '' OR '' @ col @ '' IS NULL'')
   \<and> sqlite_count_query table_name c
     = ''SELECT COUNT(*) FROM '' @ table_name
       @ (if c = [] then []
          else '' WHERE '' @ join '' AND '' (map (\<lambda>(col, value). col @ '' = ?'') c))
       @ (case List.find (\<lambda>(col, value). value = VNone) c of
            None \<Rightarrow> [] | Some (col, _) \<Rightarrow> '' OR '' @ col @ '' IS NULL'')"
proof -
  have "pg_count_query table_name c
     = (''SELECT COUNT(*) FROM '' @ table_name
       @ (if c = [] then [] else '' WHERE '' @ join '' AND '' (pg_where_columns c)))
       @ (case null_col c of [] \<Rightarrow> [] | col # _ \<Rightarrow> '' OR '' @ col @ '' IS NULL'')"
    by (simp add: pg_count_query_shape)
  moreover have "sqlite_count_query table_name c
     = (''SELECT COUNT(*) FROM '' @ table_name
       @ (if c = [] then [] else '' WHERE '' @ join '' AND '' (sqlite_where_columns c)))
       @ (case null_col c of [] \<Rightarrow> [] | col # _ \<Rightarrow> '' OR '' @ col @ '' IS NULL'')"
    by (simp add: sqlite_count_query_shape)
  ultimately show ?thesis
    by (simp only: null_col_find pg_where_columns_all sqlite_where_columns_all append_assoc simp_thms)
qed

text \<open>
  The theorem on a Condition with one non-null and two null columns.
\<close>

theorem count_query_text_witness:
  "pg_count_query ''t'' [(''a'', VInt 3), (''b'', VNone), (''c'', VNone)]
     = ''SELECT COUNT(*) FROM t WHERE a = $1 AND b = $2 AND c = $3 OR b IS NULL''
   \<and> sqlite_count_query ''t'' [(''a'', VInt 3), (''b'', VNone), (''c'', VNone)]
     = ''SELECT COUNT(*) FROM t WHERE a = ? AND b = ? AND c = ? OR b IS NULL''"
  using count_query_text [of "''t''" "[(''a'', VInt 3), (''b'', VNone), (''c'', VNone)]"]
  by (simp add: enumerate_eq_zip str_nat.simps digit_char_def)

text \<open>
  The claim as stated fails: the WHERE clause is not restricted to the non-null columns.
  For \<^verbatim>\<open>{'a': None}\<close> the null column \<^verbatim>\<open>a\<close> gets the equality \<^verbatim>\<open>a = $1\<close>
  (\<^verbatim>\<open>a = ?\<close>) and the null is bound to it.
\<close>

theorem count_query_text_counterexample:
  "pg_count_query ''t'' [(''a'', VNone)] = ''SELECT COUNT(*) FROM t WHERE a = $1 OR a IS NULL''
   \<and> pg_count_args [(''a'', VNone)] = [VNone]
   \<and> sqlite_count_query ''t'' [(''a'', VNone)] = ''SELECT COUNT(*) FROM t WHERE a = ? OR a IS NULL''
   \<and> sqlite_count_args [(''a'', VNone)] = [VNone]"
  by (simp add: pg_count_query_def sqlite_count_query_def pg_where_columns_def sqlite_where_columns_def
        null_col_def keys_def vals_def pg_count_args_def sqlite_count_args_def Let_def
        enumerate_eq_zip str_nat.simps digit_char_def)

section \<open>Claim C6: WHERE and LIMIT of select\<close>

text \<open>
  C6. On both backends: when the ConditionSet is empty or holds only empty Conditions, the
  statement of select is \<^verbatim>\<open>SELECT <columns> FROM <table>\<close> and nothing more, with
  neither WHERE nor LIMIT; when it holds a non-empty Condition, at least one clause is
  emitted, the statement carries the WHERE clause, and \<^verbatim>\<open>LIMIT <batch_size>\<close> follows
  it exactly when the batch size is not zero.
\<close>

theorem select_limit_clause:
  "((\<forall>c \<in> set conds. c = []) \<longrightarrow>
      fst (pg_build_select_query table_name find_data conds batch_size)
        = ''SELECT '' @ join '', '' find_data @ '' FROM '' @ table_name
    \<and> fst (sqlite_build_select_query table_name find_data conds batch_size)
        = ''SELECT '' @ join '', '' find_data @ '' FROM '' @ table_name)
   \<and> ((\<exists>c \<in> set conds. c \<noteq> []) \<longrightarrow>
      fst (pg_where_loop conds [] []) \<noteq> [] \<and> fst (sqlite_where_loop conds [] []) \<noteq> []
    \<and> fst (pg_build_select_query table_name find_data conds batch_size)
        = ''SELECT '' @ join '', '' find_data @ '' FROM '' @ table_name
          @ '' WHERE '' @ or_join (fst (pg_where_loop conds [] []))
          @ (if batch_size \<noteq> 0 then '' LIMIT '' @ str_int batch_size else [])
    \<and> fst (sqlite_build_select_query table_name find_data conds batch_size)
        = ''SELECT '' @ join '', '' find_data @ '' FROM '' @ table_name
          @ '' WHERE '' @ or_join (fst (sqlite_where_loop conds [] []))
          @ (if batch_size \<noteq> 0 then '' LIMIT '' @ str_int batch_size else []))"
proof (intro conjI impI)
  assume "\<forall>c \<in> set conds. c = []"
  then show "fst (pg_build_select_query table_name find_data conds batch_size)
        = ''SELECT '' @ join '', '' find_data @ '' FROM '' @ table_name"
    and "fst (sqlite_build_select_query table_name find_data conds batch_size)
        = ''SELECT '' @ join '', '' find_data @ '' FROM '' @ table_name"
    by (simp_all add: fst_pg_build_select_query fst_sqlite_build_select_query select_head_def)
next
  assume ex: "\<exists>c \<in> set conds. c \<noteq> []"
  then show "fst (pg_where_loop conds [] []) \<noteq> []" and "fst (sqlite_where_loop conds [] []) \<noteq> []"
    by (simp_all add: pg_where_loop_clauses_empty_iff sqlite_where_loop_clauses_empty_iff)
  from ex have "\<not> (\<forall>c \<in> set conds. c = [])" by blast
  then show "fst (pg_build_select_query table_name find_data conds batch_size)
        = ''SELECT '' @ join '', '' find_data @ '' FROM '' @ table_name
          @ '' WHERE '' @ or_join (fst (pg_where_loop conds [] []))
          @ (if batch_size \<noteq> 0 then '' LIMIT '' @ str_int batch_size else [])"
    and "fst (sqlite_build_select_query table_name find_data conds batch_size)
        = ''SELECT '' @ join '', '' find_data @ '' FROM '' @ table_name
          @ '' WHERE '' @ or_join (fst (sqlite_where_loop conds [] []))
          @ (if batch_size \<noteq> 0 then '' LIMIT '' @ str_int batch_size else [])"
    by (simp_all add: fst_pg_build_select_query fst_sqlite_build_select_query select_head_def)
qed

text \<open>
  The theorem on a ConditionSet of empty Conditions, and on one with a non-empty Condition
  for a batch size of five and of zero.
\<close>

theorem select_limit_clause_witness:
  "fst (pg_build_select_query ''t'' [''a'', ''b''] [[], []] 5) = ''SELECT a, b FROM t''
   \<and> fst (sqlite_build_select_query ''t'' [''a'', ''b''] [[], []] 5) = ''SELECT a, b FROM t''
   \<and> fst (pg_build_select_query ''t'' [''*''] [[], [(''a'', VInt 1)]] 5)
       = ''SELECT * FROM t WHERE (a = $1) LIMIT 5''
   \<and> fst (sqlite_build_select_query ''t'' [''*''] [[], [(''a'', VInt 1)]] 5)
       = ''SELECT * FROM t WHERE (a = ?) LIMIT 5''
   \<and> fst (pg_build_select_query ''t'' [''*''] [[], [(''a'', VInt 1)]] 0)
       = ''SELECT * FROM t WHERE (a = $1)''
   \<and> fst (sqlite_build_select_query ''t'' [''*''] [[], [(''a'', VInt 1)]] 0)
       = ''SELECT * FROM t WHERE (a = ?)''"
  using select_limit_clause [of "[[], []]" "''t''" "[''a'', ''b'']" 5]
    select_limit_clause [of "[[], [(''a'', VInt 1)]]" "''t''" "[''*'']" 5]
    select_limit_clause [of "[[], [(''a'', VInt 1)]]" "''t''" "[''*'']" 0]
  by (simp add: or_join_def pg_select_clause_def sqlite_select_clause_def enumerate_eq_zip
        str_int_def str_nat.simps digit_char_def)

section \<open>Claim C7: where a failure of the driver goes\<close>

text \<open>
  C7. On both backends, when the driver rejects the statement, createTable, bulk insert,
  delete and deleteAll log the failure and return a text, \<^verbatim>\<open>Error creating table: \<dots>\<close>,
  \<^verbatim>\<open>Error adding records: \<dots>\<close>, \<^verbatim>\<open>Error deleting data: \<dots>\<close> and \<^verbatim>\<open>error\<close>, instead
  of raising. The statement of bulk insert is a multi-row call of its batch loop: when the
  driver has accepted the calls of the first \<open>j\<close> chunks and rejects the call of the next
  one, bulk insert makes no further call, logs the failure and returns the text with the
  message of the driver's exception. It does the same when a record of that chunk lacks a
  column of the first record (a \<^verbatim>\<open>KeyError\<close>, whose message is the column name as
  \<^verbatim>\<open>repr\<close> prints it) and for any other exception of the batch loop: bulk insert never
  raises at all. Select and count log the failure and raise the same exception to the
  caller.
\<close>

theorem error_propagation:
  "(drv_execute drv (calls (pg_connect s)) (create_table_query info) [] = Inl e \<longrightarrow>
      fst (pg_create_tables drv info s) = Inr (''Error creating table: '' @ str_exn e)
    \<and> logged (snd (pg_create_tables drv info s))
        = logged s @ [Error (''Error creating table: '' @ str_exn e)])
   \<and> (cur_execute drv' (calls (sqlite_connect s')) (create_table_query info) [] = Inl e \<longrightarrow>
      fst (sqlite_create_tables drv' info s') = Inr (''Error creating table: '' @ str_exn e)
    \<and> logged (snd (sqlite_create_tables drv' info s'))
        = logged s' @ [Error (''Error creating table: '' @ str_exn e)])
   \<and> (batches records batch_size = Inr chunks \<and> j < length chunks
       \<and> list_all2 (\<lambda>chunk r. batch_values (first_columns records) chunk = Inr r) (take j chunks) rs
       \<and> (\<forall>i<j. drv_executemany drv
                   (calls (pg_connect s)
                      @ map (ExecuteMany (pg_insert_query table_name (first_columns records))) (take i rs))
                   (pg_insert_query table_name (first_columns records)) (rs ! i) = Inr ())
       \<and> batch_values (first_columns records) (chunks ! j) = Inr r
       \<and> drv_executemany drv
           (calls (pg_connect s)
              @ map (ExecuteMany (pg_insert_query table_name (first_columns records))) rs)
           (pg_insert_query table_name (first_columns records)) r = Inl e \<longrightarrow>
      fst (pg_insert_into_table_bulk drv table_name records batch_size s)
        = Inr (''Error adding records: '' @ str_exn e)
    \<and> logged (snd (pg_insert_into_table_bulk drv table_name records batch_size s))
        = logged s @ [Error (''Error adding records: '' @ str_exn e)]
    \<and> calls (snd (pg_insert_into_table_bulk drv table_name records batch_size s))
        = calls (pg_connect s)
          @ map (ExecuteMany (pg_insert_query table_name (first_columns records))) (rs @ [r]))
   \<and> (batches records batch_size = Inr chunks \<and> j < length chunks
       \<and> list_all2 (\<lambda>chunk r. batch_values (first_columns records) chunk = Inr r) (take j chunks) rs
       \<and> (\<forall>i<j. cur_executemany drv'
                   (calls (sqlite_connect s')
                      @ map (ExecuteMany (sqlite_insert_query table_name (first_columns records))) (take i rs))
                   (sqlite_insert_query table_name (first_columns records)) (rs ! i) = Inr ())
       \<and> batch_values (first_columns records) (chunks ! j) = Inr r
       \<and> cur_executemany drv'
           (calls (sqlite_connect s')
              @ map (ExecuteMany (sqlite_insert_query table_name (first_columns records))) rs)
           (sqlite_insert_query table_name (first_columns records)) r = Inl e \<longrightarrow>
      fst (sqlite_insert_into_table_bulk drv' table_name records batch_size s')
        = Inr (''Error adding records: '' @ str_exn e)
    \<and> logged (snd (sqlite_insert_into_table_bulk drv' table_name records batch_size s'))
        = logged s' @ [Error (''Error adding records: '' @ str_exn e)]
    \<and> calls (snd (sqlite_insert_into_table_bulk drv' table_name records batch_size s'))
        = calls (sqlite_connect s')
          @ map (ExecuteMany (sqlite_insert_query table_name (first_columns records))) (rs @ [r])
          @ [Close])
   \<and> (batches records batch_size = Inr chunks \<and> j < length chunks
       \<and> list_all2 (\<lambda>chunk r. batch_values (first_columns records) chunk = Inr r) (take j chunks) rs
       \<and> (\<forall>i<j. drv_executemany drv
                   (calls (pg_connect s)
                      @ map (ExecuteMany (pg_insert_query table_name (first_columns records))) (take i rs))
                   (pg_insert_query table_name (first_columns records)) (rs ! i) = Inr ())
       \<and> batch_values (first_columns records) (chunks ! j) = Inl e \<longrightarrow>
      fst (pg_insert_into_table_bulk drv table_name records batch_size s)
        = Inr (''Error adding records: '' @ str_exn e)
    \<and> logged (snd (pg_insert_into_table_bulk drv table_name records batch_size s))
        = logged s @ [Error (''Error adding records: '' @ str_exn e)]
    \<and> calls (snd (pg_insert_into_table_bulk drv table_name records batch_size s))
        = calls (pg_connect s)
          @ map (ExecuteMany (pg_insert_query table_name (first_columns records))) rs)
   \<and> (batches records batch_size = Inr chunks \<and> j < length chunks
       \<and> list_all2 (\<lambda>chunk r. batch_values (first_columns records) chunk = Inr r) (take j chunks) rs
       \<and> (\<forall>i<j. cur_executemany drv'
                   (calls (sqlite_connect s')
                      @ map (ExecuteMany (sqlite_insert_query table_name (first_columns records))) (take i rs))
                   (sqlite_insert_query table_name (first_columns records)) (rs ! i) = Inr ())
       \<and> batch_values (first_columns records) (chunks ! j) = Inl e \<longrightarrow>
      fst (sqlite_insert_into_table_bulk drv' table_name records batch_size s')
        = Inr (''Error adding records: '' @ str_exn e)
    \<and> logged (snd (sqlite_insert_into_table_bulk drv' table_name records batch_size s'))
        = logged s' @ [Error (''Error adding records: '' @ str_exn e)]
    \<and> calls (snd (sqlite_insert_into_table_bulk drv' table_name records batch_size s'))
        = calls (sqlite_connect s')
          @ map (ExecuteMany (sqlite_insert_query table_name (first_columns records))) rs
          @ [Close])
   \<and> (fst (pg_insert_loop drv (pg_insert_query table_name (first_columns records))
              (first_columns records) records batch_size (pg_connect s)) = Inl e \<longrightarrow>
      fst (pg_insert_into_table_bulk drv table_name records batch_size s)
        = Inr (''Error adding records: '' @ str_exn e)
    \<and> logged (snd (pg_insert_into_table_bulk drv table_name records batch_size s))
        = logged s @ [Error (''Error adding records: '' @ str_exn e)])
   \<and> (fst (sqlite_insert_loop drv' (sqlite_insert_query table_name (first_columns records))
              (first_columns records) records batch_size (sqlite_connect s')) = Inl e \<longrightarrow>
      fst (sqlite_insert_into_table_bulk drv' table_name records batch_size s')
        = Inr (''Error adding records: '' @ str_exn e)
    \<and> logged (snd (sqlite_insert_into_table_bulk drv' table_name records batch_size s'))
        = logged s' @ [Error (''Error adding records: '' @ str_exn e)])
   \<and> (\<exists>r. fst (pg_insert_into_table_bulk drv table_name records batch_size s) = Inr r)
   \<and> (\<exists>r. fst (sqlite_insert_into_table_bulk drv' table_name records batch_size s') = Inr r)
   \<and> (drv_execute drv (calls (pg_connect s)) (pg_delete_query table_name c) (pg_delete_args c) = Inl e \<longrightarrow>
      fst (pg_delete_data drv table_name c s) = Inr (''Error deleting data: '' @ str_exn e)
    \<and> logged (snd (pg_delete_data drv table_name c s))
        = logged s @ [Error (''Error deleting data: '' @ str_exn e)])
   \<and> (cur_execute drv' (calls (sqlite_connect s')) (sqlite_delete_query table_name c)
         (sqlite_delete_args c) = Inl e \<longrightarrow>
      fst (sqlite_delete_data drv' table_name c s') = Inr (''Error deleting data: '' @ str_exn e)
    \<and> logged (snd (sqlite_delete_data drv' table_name c s'))
        = logged s' @ [Error (''Error deleting data: '' @ str_exn e)])
   \<and> (drv_execute drv (calls (pg_connect s)) (''DELETE FROM '' @ table_name) [] = Inl e \<longrightarrow>
      fst (pg_delete_all_data_from_table drv table_name s) = Inr ''error''
    \<and> logged (snd (pg_delete_all_data_from_table drv table_name s))
        = logged s @ [Error (''Error deleting records: '' @ str_exn e)])
   \<and> (cur_execute drv' (calls (sqlite_connect s')) (''DELETE FROM '' @ table_name) [] = Inl e \<longrightarrow>
      fst (sqlite_delete_all_data_from_table drv' table_name s') = Inr ''error''
    \<and> logged (snd (sqlite_delete_all_data_from_table drv' table_name s'))
        = logged s' @ [Error (''Error deleting records: '' @ str_exn e)])
   \<and> (drv_fetch drv (calls (pg_connect s))
         (fst (pg_build_select_query table_name (get_find_data params) (get_where_conditions params) batch_size))
         (snd (pg_build_select_query table_name (get_find_data params) (get_where_conditions params) batch_size))
         = Inl e \<longrightarrow>
      fst (pg_select_data drv table_name params batch_size s) = Inl e
    \<and> logged (snd (pg_select_data drv table_name params batch_size s))
        = logged s @ [Error (''Error executing SELECT query: '' @ str_exn e)])
   \<and> (cur_execute drv' (calls (sqlite_connect s'))
         (fst (sqlite_build_select_query table_name (get_find_data params) (get_where_conditions params) batch_size))
         (snd (sqlite_build_select_query table_name (get_find_data params) (get_where_conditions params) batch_size))
         = Inl e \<longrightarrow>
      fst (sqlite_select_data drv' table_name params batch_size s') = Inl e
    \<and> logged (snd (sqlite_select_data drv' table_name params batch_size s'))
        = logged s' @ [Error (''Error executing SELECT query: '' @ str_exn e)])
   \<and> (table_name \<noteq> []
       \<and> drv_fetchval drv (calls (pg_connect s)) (pg_count_query table_name c) (pg_count_args c) = Inl e \<longrightarrow>
      fst (pg_count_records drv table_name c s) = Inl e
    \<and> logged (snd (pg_count_records drv table_name c s))
        = logged s @ [Error (''Error counting records: '' @ str_exn e)])
   \<and> (table_name \<noteq> []
       \<and> cur_execute drv' (calls (sqlite_connect s')) (sqlite_count_query table_name c)
           (sqlite_count_args c) = Inl e \<longrightarrow>
      fst (sqlite_count_records drv' table_name c s') = Inl e
    \<and> logged (snd (sqlite_count_records drv' table_name c s'))
        = logged s' @ [Error (''Error counting records: '' @ str_exn e)])"
proof -
  have rest: "(fst (pg_insert_loop drv (pg_insert_query table_name (first_columns records))
              (first_columns records) records batch_size (pg_connect s)) = Inl e \<longrightarrow>
      fst (pg_insert_into_table_bulk drv table_name records batch_size s)
        = Inr (''Error adding records: '' @ str_exn e)
    \<and> logged (snd (pg_insert_into_table_bulk drv table_name records batch_size s))
        = logged s @ [Error (''Error adding records: '' @ str_exn e)])
   \<and> (fst (sqlite_insert_loop drv' (sqlite_insert_query table_name (first_columns records))
              (first_columns records) records batch_size (sqlite_connect s')) = Inl e \<longrightarrow>
      fst (sqlite_insert_into_table_bulk drv' table_name records batch_size s')
        = Inr (''Error adding records: '' @ str_exn e)
    \<and> logged (snd (sqlite_insert_into_table_bulk drv' table_name records batch_size s'))
        = logged s' @ [Error (''Error adding records: '' @ str_exn e)])
   \<and> (\<exists>r. fst (pg_insert_into_table_bulk drv table_name records batch_size s) = Inr r)
   \<and> (\<exists>r. fst (sqlite_insert_into_table_bulk drv' table_name records batch_size s') = Inr r)
   \<and> (drv_execute drv (calls (pg_connect s)) (pg_delete_query table_name c) (pg_delete_args c) = Inl e \<longrightarrow>
      fst (pg_delete_data drv table_name c s) = Inr (''Error deleting data: '' @ str_exn e)
    \<and> logged (snd (pg_delete_data drv table_name c s))
        = logged s @ [Error (''Error deleting data: '' @ str_exn e)])
   \<and> (cur_execute drv' (calls (sqlite_connect s')) (sqlite_delete_query table_name c)
         (sqlite_delete_args c) = Inl e \<longrightarrow>
      fst (sqlite_delete_data drv' table_name c s') = Inr (''Error deleting data: '' @ str_exn e)
    \<and> logged (snd (sqlite_delete_data drv' table_name c s'))
        = logged s' @ [Error (''Error deleting data: '' @ str_exn e)])
   \<and> (drv_execute drv (calls (pg_connect s)) (''DELETE FROM '' @ table_name) [] = Inl e \<longrightarrow>
      fst (pg_delete_all_data_from_table drv table_name s) = Inr ''error''
    \<and> logged (snd (pg_delete_all_data_from_table drv table_name s))
        = logged s @ [Error (''Error deleting records: '' @ str_exn e)])
   \<and> (cur_execute drv' (calls (sqlite_connect s')) (''DELETE FROM '' @ table_name) [] = Inl e \<longrightarrow>
      fst (sqlite_delete_all_data_from_table drv' table_name s') = Inr ''error''
    \<and> logged (snd (sqlite_delete_all_data_from_table drv' table_name s'))
        = logged s' @ [Error (''Error deleting records: '' @ str_exn e)])
   \<and> (drv_fetch drv (calls (pg_connect s))
         (fst (pg_build_select_query table_name (get_find_data params) (get_where_conditions params) batch_size))
         (snd (pg_build_select_query table_name (get_find_data params) (get_where_conditions params) batch_size))
         = Inl e \<longrightarrow>
      fst (pg_select_data drv table_name params batch_size s) = Inl e
    \<and> logged (snd (pg_select_data drv table_name params batch_size s))
        = logged s @ [Error (''Error executing SELECT query: '' @ str_exn e)])
   \<and> (cur_execute drv' (calls (sqlite_connect s'))
         (fst (sqlite_build_select_query table_name (get_find_data params) (get_where_conditions params) batch_size))
         (snd (sqlite_build_select_query table_name (get_find_data params) (get_where_conditions params) batch_size))
         = Inl e \<longrightarrow>
      fst (sqlite_select_data drv' table_name params batch_size s') = Inl e
    \<and> logged (snd (sqlite_select_data drv' table_name params batch_size s'))
        = logged s' @ [Error (''Error executing SELECT query: '' @ str_exn e)])
   \<and> (table_name \<noteq> []
       \<and> drv_fetchval drv (calls (pg_connect s)) (pg_count_query table_name c) (pg_count_args c) = Inl e \<longrightarrow>
      fst (pg_count_records drv table_name c s) = Inl e
    \<and> logged (snd (pg_count_records drv table_name c s))
        = logged s @ [Error (''Error counting records: '' @ str_exn e)])
   \<and> (table_name \<noteq> []
       \<and> cur_execute drv' (calls (sqlite_connect s')) (sqlite_count_query table_name c)
           (sqlite_count_args c) = Inl e \<longrightarrow>
      fst (sqlite_count_records drv' table_name c s') = Inl e
    \<and> logged (snd (sqlite_count_records drv' table_name c s'))
        = logged s' @ [Error (''Error counting records: '' @ str_exn e)])"
    using pg_insert_never_raises [of drv table_name records batch_size s]
      sqlite_insert_never_raises [of drv' table_name records batch_size s']
    by (intro conjI impI)
       (simp_all add: pg_insert_fails sqlite_insert_fails
          pg_delete_data_fails sqlite_delete_data_fails pg_delete_all_fails sqlite_delete_all_fails
          pg_select_data_fails sqlite_select_data_fails pg_count_records_fails sqlite_count_records_fails)
  show ?thesis
    apply (intro conjI impI)
    subgoal by (simp add: pg_create_tables_fails)
    subgoal by (simp add: pg_create_tables_fails)
    subgoal by (simp add: sqlite_create_tables_fails)
    subgoal by (simp add: sqlite_create_tables_fails)
    subgoal by (elim conjE) (rule pg_insert_stops(2) [THEN conjunct1]; assumption)
    subgoal by (elim conjE) (rule pg_insert_stops(2) [THEN conjunct2, THEN conjunct1]; assumption)
    subgoal by (elim conjE) (rule pg_insert_stops(2) [THEN conjunct2, THEN conjunct2]; assumption)
    subgoal by (elim conjE) (rule sqlite_insert_stops(2) [THEN conjunct1]; assumption)
    subgoal by (elim conjE) (rule sqlite_insert_stops(2) [THEN conjunct2, THEN conjunct1]; assumption)
    subgoal by (elim conjE) (rule sqlite_insert_stops(2) [THEN conjunct2, THEN conjunct2]; assumption)
    subgoal by (elim conjE) (rule pg_insert_stops(1) [THEN conjunct1]; assumption)
    subgoal by (elim conjE) (rule pg_insert_stops(1) [THEN conjunct2, THEN conjunct1]; assumption)
    subgoal by (elim conjE) (rule pg_insert_stops(1) [THEN conjunct2, THEN conjunct2]; assumption)
    subgoal by (elim conjE) (rule sqlite_insert_stops(1) [THEN conjunct1]; assumption)
    subgoal by (elim conjE) (rule sqlite_insert_stops(1) [THEN conjunct2, THEN conjunct1]; assumption)
    subgoal by (elim conjE) (rule sqlite_insert_stops(1) [THEN conjunct2, THEN conjunct2]; assumption)
    using rest by blast+
qed

text \<open>
  The theorem on fresh handlers: with drivers that reject every call; on two records in
  batches of one with drivers that accept the first multi-row call and reject the second;
  and on two records in batches of one, the second of them without the column of the first.
\<close>

theorem error_propagation_witness:
  "fst (pg_create_tables pg_rejecting \<lparr>name_table = ''t'', primary_key = None, fields_dict = []\<rparr> pg_fresh)
     = Inr ''Error creating table: rejected''
   \<and> fst (sqlite_create_tables sqlite_rejecting
            \<lparr>name_table = ''t'', primary_key = None, fields_dict = []\<rparr> sqlite_fresh)
     = Inr ''Error creating table: rejected''
   \<and> fst (pg_insert_into_table_bulk pg_rejecting ''t'' [[(''id'', VInt 1)]] 1000 pg_fresh)
     = Inr ''Error adding records: rejected''
   \<and> fst (sqlite_insert_into_table_bulk sqlite_rejecting ''t'' [[(''id'', VInt 1)]] 1000 sqlite_fresh)
     = Inr ''Error adding records: rejected''
   \<and> fst (pg_delete_data pg_rejecting ''t'' [] pg_fresh) = Inr ''Error deleting data: rejected''
   \<and> fst (sqlite_delete_data sqlite_rejecting ''t'' [] sqlite_fresh) = Inr ''Error deleting data: rejected''
   \<and> fst (pg_delete_all_data_from_table pg_rejecting ''t'' pg_fresh) = Inr ''error''
   \<and> fst (sqlite_delete_all_data_from_table sqlite_rejecting ''t'' sqlite_fresh) = Inr ''error''
   \<and> fst (pg_select_data pg_rejecting ''t'' \<lparr>param_find_data = None, param_where_conditions = None\<rparr>
            1000 pg_fresh) = Inl (DatabaseError ''rejected'')
   \<and> logged (snd (pg_select_data pg_rejecting ''t'' \<lparr>param_find_data = None, param_where_conditions = None\<rparr>
            1000 pg_fresh)) = [Error ''Error executing SELECT query: rejected'']
   \<and> fst (sqlite_select_data sqlite_rejecting ''t'' \<lparr>param_find_data = None, param_where_conditions = None\<rparr>
            1000 sqlite_fresh) = Inl (DatabaseError ''rejected'')
   \<and> fst (pg_count_records pg_rejecting ''t'' [] pg_fresh) = Inl (DatabaseError ''rejected'')
   \<and> logged (snd (pg_count_records pg_rejecting ''t'' [] pg_fresh)) = [Error ''Error counting records: rejected'']
   \<and> fst (sqlite_count_records sqlite_rejecting ''t'' [] sqlite_fresh) = Inl (DatabaseError ''rejected'')
   \<and> fst (pg_insert_into_table_bulk pg_rejecting_second ''t'' [[(''id'', VInt 1)], [(''id'', VInt 2)]] 1 pg_fresh)
     = Inr ''Error adding records: rejected''
   \<and> logged (snd (pg_insert_into_table_bulk pg_rejecting_second ''t''
                    [[(''id'', VInt 1)], [(''id'', VInt 2)]] 1 pg_fresh))
     = [Error ''Error adding records: rejected'']
   \<and> calls (snd (pg_insert_into_table_bulk pg_rejecting_second ''t''
                   [[(''id'', VInt 1)], [(''id'', VInt 2)]] 1 pg_fresh))
     = [Connect ''postgresql://db'',
        ExecuteMany (pg_insert_query ''t'' [''id'']) [[VInt 1]],
        ExecuteMany (pg_insert_query ''t'' [''id'']) [[VInt 2]]]
   \<and> fst (sqlite_insert_into_table_bulk sqlite_rejecting_second ''t''
            [[(''id'', VInt 1)], [(''id'', VInt 2)]] 1 sqlite_fresh)
     = Inr ''Error adding records: rejected''
   \<and> calls (snd (sqlite_insert_into_table_bulk sqlite_rejecting_second ''t''
                   [[(''id'', VInt 1)], [(''id'', VInt 2)]] 1 sqlite_fresh))
     = [Connect ''test.db'',
        ExecuteMany (sqlite_insert_query ''t'' [''id'']) [[VInt 1]],
        ExecuteMany (sqlite_insert_query ''t'' [''id'']) [[VInt 2]],
        Close]
   \<and> fst (pg_insert_into_table_bulk pg_accepting ''t''
            [[(''id'', VInt 1)], [(''name'', VStr ''John'')]] 1 pg_fresh)
     = Inr (''Error adding records: '' @ [CHR 0x27] @ ''id'' @ [CHR 0x27])
   \<and> calls (snd (pg_insert_into_table_bulk pg_accepting ''t''
                   [[(''id'', VInt 1)], [(''name'', VStr ''John'')]] 1 pg_fresh))
     = [Connect ''postgresql://db'', ExecuteMany (pg_insert_query ''t'' [''id'']) [[VInt 1]]]
   \<and> fst (sqlite_insert_into_table_bulk sqlite_accepting ''t''
            [[(''id'', VInt 1)], [(''name'', VStr ''John'')]] 1 sqlite_fresh)
     = Inr (''Error adding records: '' @ [CHR 0x27] @ ''id'' @ [CHR 0x27])"
proof -
  let ?info = "\<lparr>name_table = ''t'', primary_key = None, fields_dict = []\<rparr>"
  let ?params = "\<lparr>param_find_data = None, param_where_conditions = None\<rparr>"
  let ?two = "[[(''id'', VInt 1)], [(''id'', VInt 2)]]"
  let ?odd = "[[(''id'', VInt 1)], [(''name'', VStr ''John'')]]"
  note u = error_propagation [where drv = pg_rejecting and s = pg_fresh and info = ?info
      and e = "DatabaseError ''rejected''" and drv' = sqlite_rejecting and s' = sqlite_fresh
      and table_name = "''t''" and records = "[[(''id'', VInt 1)]]" and batch_size = 1000
      and c = "[]" and params = ?params and chunks = "[[[(''id'', VInt 1)]]]" and j = 0
      and rs = "[]" and r = "[[VInt 1]]"]
  note v = error_propagation [where drv = pg_rejecting_second and s = pg_fresh and info = ?info
      and e = "DatabaseError ''rejected''" and drv' = sqlite_rejecting_second and s' = sqlite_fresh
      and table_name = "''t''" and records = ?two and batch_size = 1
      and c = "[]" and params = ?params
      and chunks = "[[[(''id'', VInt 1)]], [[(''id'', VInt 2)]]]" and j = 1
      and rs = "[[[VInt 1]]]" and r = "[[VInt 2]]"]
  note w = error_propagation [where drv = pg_accepting and s = pg_fresh and info = ?info
      and e = "KeyError ''id''" and drv' = sqlite_accepting and s' = sqlite_fresh
      and table_name = "''t''" and records = ?odd and batch_size = 1
      and c = "[]" and params = ?params
      and chunks = "[[[(''id'', VInt 1)]], [[(''name'', VStr ''John'')]]]" and j = 1
      and rs = "[[[VInt 1]]]" and r = "[]"]
  note defs = batches_def py_range_def range_from.simps batch_values_def getitem_def
    first_columns_def keys_def pg_fresh_def sqlite_fresh_def pg_connect_def sqlite_connect_def
    less_Suc_eq
  have every: "fst (pg_create_tables pg_rejecting \<lparr>name_table = ''t'', primary_key = None, fields_dict = []\<rparr> pg_fresh)
       = Inr ''Error creating table: rejected''
     \<and> fst (sqlite_create_tables sqlite_rejecting
              \<lparr>name_table = ''t'', primary_key = None, fields_dict = []\<rparr> sqlite_fresh)
       = Inr ''Error creating table: rejected''
     \<and> fst (pg_insert_into_table_bulk pg_rejecting ''t'' [[(''id'', VInt 1)]] 1000 pg_fresh)
       = Inr ''Error adding records: rejected''
     \<and> fst (sqlite_insert_into_table_bulk sqlite_rejecting ''t'' [[(''id'', VInt 1)]] 1000 sqlite_fresh)
       = Inr ''Error adding records: rejected''
     \<and> fst (pg_delete_data pg_rejecting ''t'' [] pg_fresh) = Inr ''Error deleting data: rejected''
     \<and> fst (sqlite_delete_data sqlite_rejecting ''t'' [] sqlite_fresh) = Inr ''Error deleting data: rejected''
     \<and> fst (pg_delete_all_data_from_table pg_rejecting ''t'' pg_fresh) = Inr ''error''
     \<and> fst (sqlite_delete_all_data_from_table sqlite_rejecting ''t'' sqlite_fresh) = Inr ''error''
     \<and> fst (pg_select_data pg_rejecting ''t'' \<lparr>param_find_data = None, param_where_conditions = None\<rparr>
              1000 pg_fresh) = Inl (DatabaseError ''rejected'')
     \<and> logged (snd (pg_select_data pg_rejecting ''t'' \<lparr>param_find_data = None, param_where_conditions = None\<rparr>
              1000 pg_fresh)) = [Error ''Error executing SELECT query: rejected'']
     \<and> fst (sqlite_select_data sqlite_rejecting ''t'' \<lparr>param_find_data = None, param_where_conditions = None\<rparr>
              1000 sqlite_fresh) = Inl (DatabaseError ''rejected'')
     \<and> fst (pg_count_records pg_rejecting ''t'' [] pg_fresh) = Inl (DatabaseError ''rejected'')
     \<and> logged (snd (pg_count_records pg_rejecting ''t'' [] pg_fresh)) = [Error ''Error counting records: rejected'']
     \<and> fst (sqlite_count_records sqlite_rejecting ''t'' [] sqlite_fresh) = Inl (DatabaseError ''rejected'')"
    using u
    by (simp add: pg_rejecting_def sqlite_rejecting_def pg_insert_loop_def sqlite_insert_loop_def
        batches_def py_range_def range_from.simps batch_values_def getitem_def first_columns_def keys_def
        and_then_def conn_executemany_def cursor_executemany_def pg_fresh_def sqlite_fresh_def)
  have second: "fst (pg_insert_into_table_bulk pg_rejecting_second ''t'' ?two 1 pg_fresh)
       = Inr ''Error adding records: rejected''
     \<and> logged (snd (pg_insert_into_table_bulk pg_rejecting_second ''t'' ?two 1 pg_fresh))
       = [Error ''Error adding records: rejected'']
     \<and> calls (snd (pg_insert_into_table_bulk pg_rejecting_second ''t'' ?two 1 pg_fresh))
       = [Connect ''postgresql://db'',
          ExecuteMany (pg_insert_query ''t'' [''id'']) [[VInt 1]],
          ExecuteMany (pg_insert_query ''t'' [''id'']) [[VInt 2]]]"
    using v [THEN conjunct2, THEN conjunct2, THEN conjunct1]
    by (simp add: defs pg_rejecting_second_def)
  have second': "fst (sqlite_insert_into_table_bulk sqlite_rejecting_second ''t'' ?two 1 sqlite_fresh)
       = Inr ''Error adding records: rejected''
     \<and> calls (snd (sqlite_insert_into_table_bulk sqlite_rejecting_second ''t'' ?two 1 sqlite_fresh))
       = [Connect ''test.db'',
          ExecuteMany (sqlite_insert_query ''t'' [''id'']) [[VInt 1]],
          ExecuteMany (sqlite_insert_query ''t'' [''id'']) [[VInt 2]],
          Close]"
    using v [THEN conjunct2, THEN conjunct2, THEN conjunct2, THEN conjunct1]
    by (simp add: defs sqlite_rejecting_second_def)
  have missing: "fst (pg_insert_into_table_bulk pg_accepting ''t'' ?odd 1 pg_fresh)
       = Inr (''Error adding records: '' @ [CHR 0x27] @ ''id'' @ [CHR 0x27])
     \<and> calls (snd (pg_insert_into_table_bulk pg_accepting ''t'' ?odd 1 pg_fresh))
       = [Connect ''postgresql://db'', ExecuteMany (pg_insert_query ''t'' [''id'']) [[VInt 1]]]"
    using w [THEN conjunct2, THEN conjunct2, THEN conjunct2, THEN conjunct2, THEN conjunct1]
    by (simp add: defs pg_accepting_def py_repr_def repr_char_def printable_def Let_def)
  have missing': "fst (sqlite_insert_into_table_bulk sqlite_accepting ''t'' ?odd 1 sqlite_fresh)
       = Inr (''Error adding records: '' @ [CHR 0x27] @ ''id'' @ [CHR 0x27])"
    using w [THEN conjunct2, THEN conjunct2, THEN conjunct2, THEN conjunct2, THEN conjunct2, THEN conjunct1]
    by (simp add: defs sqlite_accepting_def py_repr_def repr_char_def printable_def Let_def)
  from every second second' missing missing' show ?thesis by blast
qed

section \<open>Claim C8: the keys of the selected Records\<close>

text \<open>
  C8 at the input where the embedded backend departs from it. When no column list is
  given, \<^verbatim>\<open>find_data\<close> is \<^verbatim>\<open>['*']\<close> and \<^verbatim>\<open>dict(zip(find_data, row))\<close> pairs
  the single name \<^verbatim>\<open>*\<close> with the first value of each row: a table with the columns
  \<^verbatim>\<open>id\<close> and \<^verbatim>\<open>name\<close> yields Records with the one key \<^verbatim>\<open>*\<close>, not Records keyed by
  the columns of the table. With the columns named, the same rows are keyed as stated, one
  Record for each row and in the order of the rows.
\<close>

theorem sqlite_select_star_keys:
  "fst (sqlite_select_data sqlite_two_rows ''t''
          \<lparr>param_find_data = None, param_where_conditions = None\<rparr> 1000 sqlite_fresh)
     = Inr [[(''*'', VInt 1)], [(''*'', VInt 2)]]
   \<and> fst (sqlite_select_data sqlite_two_rows ''t''
          \<lparr>param_find_data = Some [''id'', ''name''], param_where_conditions = None\<rparr> 1000 sqlite_fresh)
     = Inr [[(''id'', VInt 1), (''name'', VStr ''John'')], [(''id'', VInt 2), (''name'', VStr ''Jane'')]]"
  by (simp add: sqlite_select_data_def sqlite_build_select_query_def get_find_data_def
        get_where_conditions_def Let_def action_defs cursor_execute_def sqlite_two_rows_def
        sqlite_fresh_def sqlite_connect_def sqlite_close_def dict_def)

section \<open>Claim C9: the connection after an operation\<close>




section \<open>Claim C10: count on the embedded backend\<close>



end
